theory Spec2Isabelle
  imports Complex_Main
begin

section \<open>JavaScript numbers\<close>

text \<open>
  The engines compute on JavaScript numbers.  A number is modelled as a finite real, one of
  the two infinities, or NaN.  Division by zero, \<open>0/0\<close>, \<open>Infinity - Infinity\<close> and
  \<open>0 * Infinity\<close> produce \<open>Infinity\<close> and \<open>NaN\<close> as they do in the program.

  Finite arithmetic is exact.  Three things that the IEEE doubles of the program do are not
  modelled, and the general theorems of the last section are stated so that they do not
  depend on them:
  \<^item> rounding: a sum such as \<open>1 + r\<close> with a tiny \<open>r\<close> is \<open>1\<close> in the program and above
    \<open>1\<close> here, and a payment can round below an interest that it covers here;
  \<^item> overflow: a product beyond the largest double is \<open>Infinity\<close> in the program and a
    finite number here;
  \<^item> the sign of zero: a zero divisor counts as \<open>+0\<close>, so a division by \<open>-0\<close> (a revenue
    of \<open>-0\<close> under the average gross margin, after a growth rate of -12 and a negative
    growth factor) has the opposite sign in the program.
  General statements are therefore equations between the values that the program computes,
  with hypotheses on computed values; a concrete value is the exact value that the double of
  the program approximates.
\<close>

datatype jsnum = Fin real | PInf | NInf | NaN

fun js_add :: "jsnum \<Rightarrow> jsnum \<Rightarrow> jsnum" where
  "js_add (Fin a) (Fin b) = Fin (a + b)"
| "js_add NaN _ = NaN"
| "js_add _ NaN = NaN"
| "js_add PInf NInf = NaN"
| "js_add NInf PInf = NaN"
| "js_add PInf _ = PInf"
| "js_add _ PInf = PInf"
| "js_add NInf _ = NInf"
| "js_add _ NInf = NInf"

fun js_neg :: "jsnum \<Rightarrow> jsnum" where
  "js_neg (Fin a) = Fin (- a)"
| "js_neg PInf = NInf"
| "js_neg NInf = PInf"
| "js_neg NaN = NaN"

fun js_sign_inf :: "bool \<Rightarrow> jsnum" where
  "js_sign_inf True = PInf"
| "js_sign_inf False = NInf"

fun js_pos :: "jsnum \<Rightarrow> bool" where
  "js_pos (Fin a) = (0 < a)"
| "js_pos PInf = True"
| "js_pos NInf = False"
| "js_pos NaN = False"

fun js_mul :: "jsnum \<Rightarrow> jsnum \<Rightarrow> jsnum" where
  "js_mul (Fin a) (Fin b) = Fin (a * b)"
| "js_mul NaN _ = NaN"
| "js_mul _ NaN = NaN"
| "js_mul (Fin a) y = (if a = 0 then NaN else js_sign_inf ((0 < a) = js_pos y))"
| "js_mul x (Fin b) = (if b = 0 then NaN else js_sign_inf (js_pos x = (0 < b)))"
| "js_mul x y = js_sign_inf (js_pos x = js_pos y)"

fun js_div :: "jsnum \<Rightarrow> jsnum \<Rightarrow> jsnum" where
  "js_div (Fin a) (Fin b) =
     (if b \<noteq> 0 then Fin (a / b)
      else if a = 0 then NaN
      else if 0 < a then PInf else NInf)"
| "js_div NaN _ = NaN"
| "js_div _ NaN = NaN"
| "js_div (Fin a) _ = Fin 0"
| "js_div x (Fin b) = js_sign_inf (js_pos x = (0 \<le> b))"
| "js_div _ _ = NaN"

fun js_less :: "jsnum \<Rightarrow> jsnum \<Rightarrow> bool" where
  "js_less (Fin a) (Fin b) = (a < b)"
| "js_less NaN _ = False"
| "js_less _ NaN = False"
| "js_less _ NInf = False"
| "js_less PInf _ = False"
| "js_less _ _ = True"

fun js_less_eq :: "jsnum \<Rightarrow> jsnum \<Rightarrow> bool" where
  "js_less_eq (Fin a) (Fin b) = (a \<le> b)"
| "js_less_eq NaN _ = False"
| "js_less_eq _ NaN = False"
| "js_less_eq NInf _ = True"
| "js_less_eq _ PInf = True"
| "js_less_eq _ _ = False"

instantiation jsnum :: "{plus, minus, uminus, times, inverse, ord}"
begin

definition plus_jsnum :: "jsnum \<Rightarrow> jsnum \<Rightarrow> jsnum" where
  "plus_jsnum = js_add"

definition uminus_jsnum :: "jsnum \<Rightarrow> jsnum" where
  "uminus_jsnum = js_neg"

definition minus_jsnum :: "jsnum \<Rightarrow> jsnum \<Rightarrow> jsnum" where
  "minus_jsnum x y = js_add x (js_neg y)"

definition times_jsnum :: "jsnum \<Rightarrow> jsnum \<Rightarrow> jsnum" where
  "times_jsnum = js_mul"

definition divide_jsnum :: "jsnum \<Rightarrow> jsnum \<Rightarrow> jsnum" where
  "divide_jsnum = js_div"

definition inverse_jsnum :: "jsnum \<Rightarrow> jsnum" where
  "inverse_jsnum x = js_div (Fin 1) x"

definition less_jsnum :: "jsnum \<Rightarrow> jsnum \<Rightarrow> bool" where
  "less_jsnum = js_less"

definition less_eq_jsnum :: "jsnum \<Rightarrow> jsnum \<Rightarrow> bool" where
  "less_eq_jsnum = js_less_eq"

instance ..

end

text \<open>\<open>Math.min\<close>, \<open>Math.max\<close> and \<open>Math.abs\<close>: NaN if an argument is NaN.\<close>

fun Math_min :: "jsnum \<Rightarrow> jsnum \<Rightarrow> jsnum" where
  "Math_min NaN _ = NaN"
| "Math_min _ NaN = NaN"
| "Math_min x y = (if js_less_eq x y then x else y)"

fun Math_max :: "jsnum \<Rightarrow> jsnum \<Rightarrow> jsnum" where
  "Math_max NaN _ = NaN"
| "Math_max _ NaN = NaN"
| "Math_max x y = (if js_less_eq x y then y else x)"

fun Math_abs :: "jsnum \<Rightarrow> jsnum" where
  "Math_abs (Fin a) = Fin \<bar>a\<bar>"
| "Math_abs PInf = PInf"
| "Math_abs NInf = PInf"
| "Math_abs NaN = NaN"

text \<open>
  \<open>Math.pow\<close>, by the cases of the language definition.  For finite arguments the exact
  power: \<open>x ^ n\<close> at an integer exponent, \<open>x powr y\<close> at a fractional one (NaN on a
  negative base).
\<close>

definition is_int :: "real \<Rightarrow> bool" where
  "is_int y = (y = of_int \<lfloor>y\<rfloor>)"

definition is_odd_int :: "real \<Rightarrow> bool" where
  "is_odd_int y = (is_int y \<and> odd \<lfloor>y\<rfloor>)"

definition pow_fin :: "real \<Rightarrow> real \<Rightarrow> jsnum" where
  "pow_fin x y =
     (if y = 0 then Fin 1
      else if x = 0 then (if 0 < y then Fin 0 else PInf)
      else if is_int y then
        (if 0 < y then Fin (x ^ nat \<lfloor>y\<rfloor>) else Fin (1 / x ^ nat (- \<lfloor>y\<rfloor>)))
      else if x < 0 then NaN
      else Fin (x powr y))"

fun Math_pow :: "jsnum \<Rightarrow> jsnum \<Rightarrow> jsnum" where
  "Math_pow _ NaN = NaN"
| "Math_pow (Fin x) (Fin y) = pow_fin x y"
| "Math_pow NaN (Fin y) = (if y = 0 then Fin 1 else NaN)"
| "Math_pow PInf (Fin y) = (if y = 0 then Fin 1 else if 0 < y then PInf else Fin 0)"
| "Math_pow NInf (Fin y) =
     (if y = 0 then Fin 1
      else if 0 < y then (if is_odd_int y then NInf else PInf)
      else Fin 0)"
| "Math_pow NaN _ = NaN"
| "Math_pow PInf PInf = PInf"
| "Math_pow PInf NInf = Fin 0"
| "Math_pow NInf PInf = PInf"
| "Math_pow NInf NInf = Fin 0"
| "Math_pow (Fin x) PInf = (if 1 < \<bar>x\<bar> then PInf else if \<bar>x\<bar> = 1 then NaN else Fin 0)"
| "Math_pow (Fin x) NInf = (if 1 < \<bar>x\<bar> then Fin 0 else if \<bar>x\<bar> = 1 then NaN else PInf)"

text \<open>A number is falsy when it is zero or NaN: \<open>x || d\<close> on numbers.\<close>

fun falsy :: "jsnum \<Rightarrow> bool" where
  "falsy (Fin a) = (a = 0)"
| "falsy NaN = True"
| "falsy _ = False"

definition num_or :: "jsnum \<Rightarrow> jsnum \<Rightarrow> jsnum" where
  "num_or x d = (if falsy x then d else x)"

fun finite_num :: "jsnum \<Rightarrow> bool" where
  "finite_num (Fin a) = True"
| "finite_num _ = False"

subsection \<open>Arrays of numbers\<close>

text \<open>
  Reading past the end of an array gives \<open>undefined\<close>, which every use in the engines turns
  into NaN (arithmetic, \<open>Math.max\<close>) or treats as NaN does (comparison, \<open>||\<close>).  Writing at
  the length of an array extends it; holes, which the engines never leave, are NaN.
\<close>

definition arr_get :: "jsnum list \<Rightarrow> nat \<Rightarrow> jsnum" where
  "arr_get xs i = (if i < length xs then xs ! i else NaN)"

definition arr_set :: "jsnum list \<Rightarrow> nat \<Rightarrow> jsnum \<Rightarrow> jsnum list" where
  "arr_set xs i v =
     (if i < length xs then xs[i := v] else xs @ replicate (i - length xs) NaN @ [v])"

text \<open>\<open>xs.map((x, i) => f x i)\<close>\<close>

definition mapi :: "(jsnum \<Rightarrow> nat \<Rightarrow> jsnum) \<Rightarrow> jsnum list \<Rightarrow> jsnum list" where
  "mapi f xs = map (\<lambda>i. f (xs ! i) i) [0..<length xs]"

text \<open>\<open>xs.reduce((sum, x) => sum + x, 0)\<close>\<close>

definition sum_arr :: "jsnum list \<Rightarrow> jsnum" where
  "sum_arr xs = foldl (+) (Fin 0) xs"

section \<open>Data model\<close>

text \<open>
  The interfaces of \<open>src/types/index.ts\<close>, with the fields the engines read.  Identifiers,
  timestamps, display texts and the revenue-model and pricing descriptions, which no
  computation reads, are left out.  The input fields are finite numbers, but for the three
  day counts of the working capital, which are JavaScript numbers: the working-capital
  schedule is the one computation whose result for an infinite input is stated below.
\<close>

record PctFixed =
  percentage :: real
  fixedCosts :: real

record CostStructure =
  costOfGoodsSold :: PctFixed

record OperatingExpenses =
  salesAndMarketing :: PctFixed
  researchAndDevelopment :: PctFixed
  generalAndAdministrative :: PctFixed

record WorkingCapital =
  daysSalesOutstanding :: jsnum
  daysInventoryOutstanding :: jsnum
  daysPayablesOutstanding :: jsnum

record CapexModel =
  annualCapex :: real
  depreciationRate :: real

record DebtStructure =
  initialDebt :: real
  interestRate :: real
  debtMaturity :: real

record FinancialInputs =
  revenueGrowth :: "real list"
  costStructure :: CostStructure
  operatingExpenses :: OperatingExpenses
  workingCapital :: WorkingCapital
  capex :: CapexModel
  debtStructure :: DebtStructure
  taxRate :: real
  discountRate :: real

record DepreciationSchedule =
  dep_periods :: nat
  dep_beginningBalance :: "jsnum list"
  dep_additions :: "jsnum list"
  dep_depreciation :: "jsnum list"
  dep_endingBalance :: "jsnum list"

record DebtSchedule =
  debt_periods :: nat
  debt_beginningBalance :: "jsnum list"
  debt_newDebt :: "jsnum list"
  debt_principalPayments :: "jsnum list"
  debt_interestPayments :: "jsnum list"
  debt_endingBalance :: "jsnum list"

record WorkingCapitalSchedule =
  wc_periods :: nat
  wc_accountsReceivable :: "jsnum list"
  wc_inventory :: "jsnum list"
  wc_accountsPayable :: "jsnum list"
  wc_netWorkingCapital :: "jsnum list"
  wc_changeInWorkingCapital :: "jsnum list"

record IncomeStatement =
  is_periods :: nat
  revenue :: "jsnum list"
  is_costOfGoodsSold :: "jsnum list"
  grossProfit :: "jsnum list"
  opex_salesAndMarketing :: "jsnum list"
  opex_researchAndDevelopment :: "jsnum list"
  opex_generalAndAdministrative :: "jsnum list"
  operatingIncome :: "jsnum list"
  interestExpense :: "jsnum list"
  taxes :: "jsnum list"
  netIncome :: "jsnum list"

record BalanceSheet =
  bs_periods :: nat
  cash :: "jsnum list"
  accountsReceivable :: "jsnum list"
  inventory :: "jsnum list"
  fixedAssets :: "jsnum list"
  accumulatedDepreciation :: "jsnum list"
  totalAssets :: "jsnum list"
  accountsPayable :: "jsnum list"
  debt :: "jsnum list"
  totalLiabilities :: "jsnum list"
  commonStock :: "jsnum list"
  retainedEarnings :: "jsnum list"
  totalEquity :: "jsnum list"

record CashFlowStatement =
  cf_periods :: nat
  operatingCashFlow :: "jsnum list"
  investingCashFlow :: "jsnum list"
  financingCashFlow :: "jsnum list"
  netCashFlow :: "jsnum list"
  endingCash :: "jsnum list"

datatype ScenarioType = Base | Optimistic | Pessimistic | Custom

record KeyMetrics =
  totalRevenue :: jsnum
  totalNetIncome :: jsnum
  avgGrossMargin :: jsnum
  finalCash :: jsnum

record ScenarioResults =
  npv :: jsnum
  irr :: jsnum
  paybackPeriod :: nat
  keyMetrics :: "KeyMetrics option"

record Scenario =
  scenario_id :: string
  scenario_type :: ScenarioType
  assumptions :: "(string \<times> real) list"
  results :: ScenarioResults

datatype Status = Pass | Warning | Fail

record AuditCheck =
  check_id :: string
  check_name :: string
  status :: Status
  check_value :: jsnum
  threshold :: jsnum

section \<open>The modelling engine (\<open>src/lib/financial-modeling-engine.ts\<close>)\<close>

subsection \<open>Schedules\<close>

text \<open>
  \<open>generateDepreciationSchedule\<close>: the loop carries \<open>currentBalance\<close> and writes one entry
  of each array per period.
\<close>

definition depreciation_step ::
  "FinancialInputs \<Rightarrow> DepreciationSchedule \<times> jsnum \<Rightarrow> nat \<Rightarrow> DepreciationSchedule \<times> jsnum" where
  "depreciation_step inputs st i =
     (let s = fst st;
          currentBalance = snd st;
          beginningBalance' = arr_set (dep_beginningBalance s) i currentBalance;
          currentBalance1 = currentBalance + arr_get (dep_additions s) i;
          depreciation' = arr_set (dep_depreciation s) i
             (currentBalance1 * (Fin (depreciationRate (capex inputs)) / Fin 12));
          endingBalance' = arr_set (dep_endingBalance s) i
             (currentBalance1 - arr_get depreciation' i)
      in (s\<lparr>dep_beginningBalance := beginningBalance',
             dep_depreciation := depreciation',
             dep_endingBalance := endingBalance'\<rparr>,
          arr_get endingBalance' i))"

definition generateDepreciationSchedule :: "FinancialInputs \<Rightarrow> nat \<Rightarrow> DepreciationSchedule" where
  "generateDepreciationSchedule inputs periods =
     fst (foldl (depreciation_step inputs)
       (\<lparr>dep_periods = periods,
         dep_beginningBalance = replicate periods (Fin 0),
         dep_additions = replicate periods (Fin (annualCapex (capex inputs)) / Fin 12),
         dep_depreciation = replicate periods (Fin 0),
         dep_endingBalance = replicate periods (Fin 0)\<rparr>, Fin 0)
       [0..<periods])"

text \<open>
  \<open>generateDebtSchedule\<close>: period 0 is written before the loop, which runs from period 1.
  The payment is the expression of the source; its value here is exact, so it is NaN (\<open>0/0\<close>)
  or infinite only when the power is exactly 1, while in the program the power also rounds
  to 1 for a rate below about \<open>1.3e-15\<close>.
\<close>

definition monthlyRate :: "FinancialInputs \<Rightarrow> jsnum" where
  "monthlyRate inputs = Fin (interestRate (debtStructure inputs)) / Fin 12"

definition totalPayments :: "FinancialInputs \<Rightarrow> jsnum" where
  "totalPayments inputs =
     Fin (initialDebt (debtStructure inputs))
       * (monthlyRate inputs
           * Math_pow (Fin 1 + monthlyRate inputs) (Fin (debtMaturity (debtStructure inputs)) * Fin 12))
       / (Math_pow (Fin 1 + monthlyRate inputs) (Fin (debtMaturity (debtStructure inputs)) * Fin 12)
           - Fin 1)"

definition debt_step :: "jsnum \<Rightarrow> jsnum \<Rightarrow> DebtSchedule \<Rightarrow> nat \<Rightarrow> DebtSchedule" where
  "debt_step rate payment s i =
     (let beginningBalance' = arr_set (debt_beginningBalance s) i
             (arr_get (debt_endingBalance s) (i - 1));
          interestPayments' = arr_set (debt_interestPayments s) i
             (arr_get beginningBalance' i * rate);
          principalPayments' = arr_set (debt_principalPayments s) i
             (Math_min (payment - arr_get interestPayments' i) (arr_get beginningBalance' i));
          endingBalance' = arr_set (debt_endingBalance s) i
             (arr_get beginningBalance' i - arr_get principalPayments' i)
      in s\<lparr>debt_beginningBalance := beginningBalance',
            debt_interestPayments := interestPayments',
            debt_principalPayments := principalPayments',
            debt_endingBalance := endingBalance'\<rparr>)"

definition generateDebtSchedule :: "FinancialInputs \<Rightarrow> nat \<Rightarrow> DebtSchedule" where
  "generateDebtSchedule inputs periods =
     foldl (debt_step (monthlyRate inputs) (totalPayments inputs))
       \<lparr>debt_periods = periods,
        debt_beginningBalance =
          arr_set (replicate periods (Fin 0)) 0 (Fin (initialDebt (debtStructure inputs))),
        debt_newDebt = replicate periods (Fin 0),
        debt_principalPayments = replicate periods (Fin 0),
        debt_interestPayments = replicate periods (Fin 0),
        debt_endingBalance =
          arr_set (replicate periods (Fin 0)) 0 (Fin (initialDebt (debtStructure inputs)))\<rparr>
       [1..<periods]"

text \<open>
  \<open>generateWorkingCapitalSchedule\<close>: the base revenue and cost are the constants of the
  source.
\<close>

definition monthlyRevenue :: jsnum where
  "monthlyRevenue = Fin 100000"

definition monthlyCOGS :: jsnum where
  "monthlyCOGS = monthlyRevenue * Fin 0.6"

definition workingCapital_step ::
  "FinancialInputs \<Rightarrow> WorkingCapitalSchedule \<Rightarrow> nat \<Rightarrow> WorkingCapitalSchedule" where
  "workingCapital_step inputs s i =
     (let accountsReceivable' = arr_set (wc_accountsReceivable s) i
             ((monthlyRevenue * daysSalesOutstanding (workingCapital inputs)) / Fin 30);
          inventory' = arr_set (wc_inventory s) i
             ((monthlyCOGS * daysInventoryOutstanding (workingCapital inputs)) / Fin 30);
          accountsPayable' = arr_set (wc_accountsPayable s) i
             ((monthlyCOGS * daysPayablesOutstanding (workingCapital inputs)) / Fin 30);
          netWorkingCapital' = arr_set (wc_netWorkingCapital s) i
             (arr_get accountsReceivable' i + arr_get inventory' i - arr_get accountsPayable' i);
          changeInWorkingCapital' =
             (if 0 < i
              then arr_set (wc_changeInWorkingCapital s) i
                     (arr_get netWorkingCapital' i - arr_get netWorkingCapital' (i - 1))
              else wc_changeInWorkingCapital s)
      in s\<lparr>wc_accountsReceivable := accountsReceivable',
            wc_inventory := inventory',
            wc_accountsPayable := accountsPayable',
            wc_netWorkingCapital := netWorkingCapital',
            wc_changeInWorkingCapital := changeInWorkingCapital'\<rparr>)"

definition generateWorkingCapitalSchedule ::
  "FinancialInputs \<Rightarrow> nat \<Rightarrow> WorkingCapitalSchedule" where
  "generateWorkingCapitalSchedule inputs periods =
     foldl (workingCapital_step inputs)
       \<lparr>wc_periods = periods,
        wc_accountsReceivable = replicate periods (Fin 0),
        wc_inventory = replicate periods (Fin 0),
        wc_accountsPayable = replicate periods (Fin 0),
        wc_netWorkingCapital = replicate periods (Fin 0),
        wc_changeInWorkingCapital = replicate periods (Fin 0)\<rparr>
       [0..<periods]"

subsection \<open>Helpers of the statements\<close>

text \<open>
  \<open>calculateRevenue\<close>: \<open>inputs.revenueGrowth[Math.min(i, length - 1)]\<close> is \<open>undefined\<close> on an
  empty growth array, and the division of \<open>undefined\<close> by 12 is NaN.
\<close>

definition growthRateAt :: "real list \<Rightarrow> nat \<Rightarrow> jsnum" where
  "growthRateAt rg i = (if rg = [] then NaN else Fin (rg ! min i (length rg - 1)))"

definition revenue_step :: "FinancialInputs \<Rightarrow> jsnum list \<times> jsnum \<Rightarrow> nat \<Rightarrow> jsnum list \<times> jsnum" where
  "revenue_step inputs st i =
     (let revenue' = arr_set (fst st) i (snd st);
          growthRate = growthRateAt (revenueGrowth inputs) i
      in (revenue', snd st * (Fin 1 + growthRate / Fin 12)))"

definition calculateRevenue :: "FinancialInputs \<Rightarrow> nat \<Rightarrow> jsnum list" where
  "calculateRevenue inputs periods =
     fst (foldl (revenue_step inputs) (replicate periods (Fin 0), Fin 100000) [0..<periods])"

definition calculateCostOfGoodsSold :: "FinancialInputs \<Rightarrow> jsnum list \<Rightarrow> jsnum list" where
  "calculateCostOfGoodsSold inputs revs =
     map (\<lambda>r. r * Fin (percentage (costOfGoodsSold (costStructure inputs)))
               + Fin (fixedCosts (costOfGoodsSold (costStructure inputs)))) revs"

definition calculateOperatingExpense :: "PctFixed \<Rightarrow> jsnum list \<Rightarrow> jsnum list" where
  "calculateOperatingExpense expenseConfig revs =
     map (\<lambda>r. r * Fin (percentage expenseConfig) + Fin (fixedCosts expenseConfig)) revs"

text \<open>The running balances; the starting cash is the constant 50000 of the source.\<close>

definition cashBalance_step :: "jsnum list \<Rightarrow> jsnum list \<times> jsnum \<Rightarrow> nat \<Rightarrow> jsnum list \<times> jsnum" where
  "cashBalance_step ni st i = (arr_set (fst st) i (snd st), snd st + arr_get ni i)"

definition calculateCashBalance :: "IncomeStatement \<Rightarrow> nat \<Rightarrow> jsnum list" where
  "calculateCashBalance incomeStatement periods =
     fst (foldl (cashBalance_step (netIncome incomeStatement))
            (replicate periods (Fin 0), Fin 50000) [0..<periods])"

definition retainedEarnings_step :: "jsnum list \<Rightarrow> jsnum list \<times> jsnum \<Rightarrow> nat \<Rightarrow> jsnum list \<times> jsnum" where
  "retainedEarnings_step ni st i =
     (let currentRE = snd st + arr_get ni i in (arr_set (fst st) i currentRE, currentRE))"

definition calculateRetainedEarnings :: "IncomeStatement \<Rightarrow> jsnum list" where
  "calculateRetainedEarnings incomeStatement =
     fst (foldl (retainedEarnings_step (netIncome incomeStatement))
            (replicate (is_periods incomeStatement) (Fin 0), Fin 0)
            [0..<is_periods incomeStatement])"

definition endingCash_step :: "jsnum list \<Rightarrow> jsnum list \<times> jsnum \<Rightarrow> nat \<Rightarrow> jsnum list \<times> jsnum" where
  "endingCash_step ncf st i =
     (let currentCash = snd st + arr_get ncf i in (arr_set (fst st) i currentCash, currentCash))"

definition calculateEndingCash :: "jsnum list \<Rightarrow> jsnum list" where
  "calculateEndingCash ncf =
     fst (foldl (endingCash_step ncf) (replicate (length ncf) (Fin 0), Fin 50000)
            [0..<length ncf])"

subsection \<open>The three statements\<close>

definition generateIncomeStatement ::
  "FinancialInputs \<Rightarrow> nat \<Rightarrow> DepreciationSchedule \<Rightarrow> DebtSchedule \<Rightarrow> IncomeStatement" where
  "generateIncomeStatement inputs periods depreciationSchedule debtSchedule =
     (let revs = calculateRevenue inputs periods;
          cogs = calculateCostOfGoodsSold inputs revs;
          gp = mapi (\<lambda>r i. r - arr_get cogs i) revs;
          sm = calculateOperatingExpense (salesAndMarketing (operatingExpenses inputs)) revs;
          rd = calculateOperatingExpense (researchAndDevelopment (operatingExpenses inputs)) revs;
          ga = calculateOperatingExpense (generalAndAdministrative (operatingExpenses inputs)) revs;
          totalOperatingExpenses = mapi (\<lambda>_ i. arr_get sm i + arr_get rd i + arr_get ga i) revs;
          oi = mapi (\<lambda>g i. g - arr_get totalOperatingExpenses i) gp;
          ie = debt_interestPayments debtSchedule;
          tx = mapi (\<lambda>x i. Math_max (Fin 0) (x - arr_get ie i) * Fin (taxRate inputs)) oi;
          ni = mapi (\<lambda>x i. x - arr_get ie i - arr_get tx i) oi
      in \<lparr>is_periods = periods,
          revenue = revs,
          is_costOfGoodsSold = cogs,
          grossProfit = gp,
          opex_salesAndMarketing = sm,
          opex_researchAndDevelopment = rd,
          opex_generalAndAdministrative = ga,
          operatingIncome = oi,
          interestExpense = ie,
          taxes = tx,
          netIncome = ni\<rparr>)"

definition generateBalanceSheet ::
  "FinancialInputs \<Rightarrow> nat \<Rightarrow> IncomeStatement \<Rightarrow> WorkingCapitalSchedule \<Rightarrow> DepreciationSchedule
     \<Rightarrow> DebtSchedule \<Rightarrow> BalanceSheet" where
  "generateBalanceSheet inputs periods incomeStatement workingCapitalSchedule depreciationSchedule
       debtSchedule =
     (let csh = calculateCashBalance incomeStatement periods;
          ar = wc_accountsReceivable workingCapitalSchedule;
          inv = wc_inventory workingCapitalSchedule;
          fa = dep_endingBalance depreciationSchedule;
          ad = mapi (\<lambda>_ i. sum_arr (take (i + 1) (dep_depreciation depreciationSchedule)))
                 (dep_depreciation depreciationSchedule);
          ta = mapi (\<lambda>c i. c + arr_get ar i + arr_get inv i + arr_get fa i - arr_get ad i) csh;
          ap = wc_accountsPayable workingCapitalSchedule;
          dbt = debt_endingBalance debtSchedule;
          tl = mapi (\<lambda>a i. a + arr_get dbt i) ap;
          cs = replicate periods (Fin (initialDebt (debtStructure inputs)) * Fin 0.3);
          re = calculateRetainedEarnings incomeStatement;
          te = mapi (\<lambda>c i. c + arr_get re i) cs
      in \<lparr>bs_periods = periods,
          cash = csh,
          accountsReceivable = ar,
          inventory = inv,
          fixedAssets = fa,
          accumulatedDepreciation = ad,
          totalAssets = ta,
          accountsPayable = ap,
          debt = dbt,
          totalLiabilities = tl,
          commonStock = cs,
          retainedEarnings = re,
          totalEquity = te\<rparr>)"

definition generateCashFlowStatement ::
  "FinancialInputs \<Rightarrow> nat \<Rightarrow> IncomeStatement \<Rightarrow> BalanceSheet \<Rightarrow> DepreciationSchedule
     \<Rightarrow> DebtSchedule \<Rightarrow> WorkingCapitalSchedule \<Rightarrow> CashFlowStatement" where
  "generateCashFlowStatement inputs periods incomeStatement balanceSheet depreciationSchedule
       debtSchedule workingCapitalSchedule =
     (let ocf = mapi (\<lambda>n i. n + arr_get (dep_depreciation depreciationSchedule) i
                         - arr_get (wc_changeInWorkingCapital workingCapitalSchedule) i)
                  (netIncome incomeStatement);
          icf = map (\<lambda>add. - add) (dep_additions depreciationSchedule);
          fcf = mapi (\<lambda>nd i. nd - arr_get (debt_principalPayments debtSchedule) i
                         - arr_get (debt_interestPayments debtSchedule) i)
                  (debt_newDebt debtSchedule);
          ncf = mapi (\<lambda>x i. x + arr_get icf i + arr_get fcf i) ocf
      in \<lparr>cf_periods = periods,
          operatingCashFlow = ocf,
          investingCashFlow = icf,
          financingCashFlow = fcf,
          netCashFlow = ncf,
          endingCash = calculateEndingCash ncf\<rparr>)"

subsection \<open>Scenarios\<close>

text \<open>\<open>cashFlows.reduce((npv, cf, i) => npv + cf / Math.pow(1 + discountRate / 12, i), 0)\<close>\<close>

definition calculateNPV :: "jsnum list \<Rightarrow> jsnum \<Rightarrow> jsnum" where
  "calculateNPV cashFlows rate =
     foldl (\<lambda>acc i. acc + arr_get cashFlows i / Math_pow (Fin 1 + rate / Fin 12) (Fin (real i)))
       (Fin 0) [0..<length cashFlows]"

definition calculateIRR :: "jsnum list \<Rightarrow> jsnum" where
  "calculateIRR cashFlows =
     (let totalCF = sum_arr cashFlows;
          initialInvestment = Math_abs (arr_get cashFlows 0)
      in if Fin 0 < totalCF then (totalCF / initialInvestment - Fin 1) * Fin 12 else Fin 0)"

fun payback_loop :: "jsnum list \<Rightarrow> nat \<Rightarrow> jsnum \<Rightarrow> nat option" where
  "payback_loop [] i cumulativeCF = None"
| "payback_loop (cf # cfs) i cumulativeCF =
     (if Fin 0 \<le> cumulativeCF + cf then Some (i + 1)
      else payback_loop cfs (i + 1) (cumulativeCF + cf))"

definition calculatePaybackPeriod :: "jsnum list \<Rightarrow> nat" where
  "calculatePaybackPeriod cashFlows =
     (case payback_loop cashFlows 0 (Fin 0) of Some p \<Rightarrow> p | None \<Rightarrow> length cashFlows)"

definition avgGrossMarginOf :: "IncomeStatement \<Rightarrow> jsnum" where
  "avgGrossMarginOf incomeStatement =
     foldl (\<lambda>acc i. acc + arr_get (grossProfit incomeStatement) i
                          / arr_get (revenue incomeStatement) i)
       (Fin 0) [0..<length (grossProfit incomeStatement)]
     / Fin (real (is_periods incomeStatement))"

definition calculateScenarioResults ::
  "IncomeStatement \<Rightarrow> BalanceSheet \<Rightarrow> CashFlowStatement \<Rightarrow> jsnum \<Rightarrow> ScenarioResults" where
  "calculateScenarioResults incomeStatement balanceSheet cashFlowStatement rate =
     (let cashFlows = netCashFlow cashFlowStatement
      in \<lparr>npv = calculateNPV cashFlows rate,
          irr = calculateIRR cashFlows,
          paybackPeriod = calculatePaybackPeriod cashFlows,
          keyMetrics = Some
            \<lparr>totalRevenue = sum_arr (revenue incomeStatement),
             totalNetIncome = sum_arr (netIncome incomeStatement),
             avgGrossMargin = avgGrossMarginOf incomeStatement,
             finalCash = arr_get (endingCash cashFlowStatement)
                           (length (endingCash cashFlowStatement) - 1)\<rparr>\<rparr>)"

definition generateScenarios ::
  "FinancialInputs \<Rightarrow> IncomeStatement \<Rightarrow> BalanceSheet \<Rightarrow> CashFlowStatement \<Rightarrow> Scenario list" where
  "generateScenarios inputs incomeStatement balanceSheet cashFlowStatement =
     [\<lparr>scenario_id = ''base'', scenario_type = Base, assumptions = [],
       results = calculateScenarioResults incomeStatement balanceSheet cashFlowStatement
                   (Fin (discountRate inputs))\<rparr>,
      \<lparr>scenario_id = ''optimistic'', scenario_type = Optimistic,
       assumptions = [(''revenueGrowth'', 1.2), (''marginImprovement'', 1.1)],
       results = calculateScenarioResults incomeStatement balanceSheet cashFlowStatement
                   (Fin (discountRate inputs) * Fin 0.9)\<rparr>,
      \<lparr>scenario_id = ''pessimistic'', scenario_type = Pessimistic,
       assumptions = [(''revenueGrowth'', 0.8), (''marginDeterioration'', 0.9)],
       results = calculateScenarioResults incomeStatement balanceSheet cashFlowStatement
                   (Fin (discountRate inputs) * Fin 1.1)\<rparr>]"

subsection \<open>Audit checks\<close>

definition calculateAverageGrowth :: "jsnum list \<Rightarrow> jsnum" where
  "calculateAverageGrowth vs =
     (if length vs < 2 then Fin 0
      else
        let growthRates =
              map (\<lambda>i. (arr_get vs i - arr_get vs (i - 1)) / arr_get vs (i - 1))
                (filter (\<lambda>i. Fin 0 < arr_get vs (i - 1)) [1..<length vs])
        in if 0 < length growthRates
           then sum_arr growthRates / Fin (real (length growthRates))
           else Fin 0)"

definition avgInterestCoverageOf :: "IncomeStatement \<Rightarrow> jsnum" where
  "avgInterestCoverageOf incomeStatement =
     foldl (\<lambda>acc i. acc + arr_get (operatingIncome incomeStatement) i
                          / Math_max (arr_get (interestExpense incomeStatement) i) (Fin 1))
       (Fin 0) [0..<length (operatingIncome incomeStatement)]
     / Fin (real (is_periods incomeStatement))"

text \<open>The message of a check is a formatted text of its value and is left out.\<close>

definition generateAuditChecks ::
  "FinancialInputs \<Rightarrow> IncomeStatement \<Rightarrow> BalanceSheet \<Rightarrow> CashFlowStatement \<Rightarrow> AuditCheck list" where
  "generateAuditChecks inputs incomeStatement balanceSheet cashFlowStatement =
     (let avgRevenueGrowth = calculateAverageGrowth (revenue incomeStatement);
          avgGM = avgGrossMarginOf incomeStatement;
          negativeCashFlowPeriods =
            length (filter (\<lambda>cf. cf < Fin 0) (netCashFlow cashFlowStatement));
          avgInterestCoverage = avgInterestCoverageOf incomeStatement
      in [\<lparr>check_id = ''revenue_growth'', check_name = ''Revenue Growth'',
            status = (if Fin 0.5 < avgRevenueGrowth then Warning
                      else if avgRevenueGrowth < Fin 0 then Fail else Pass),
            check_value = avgRevenueGrowth, threshold = Fin 0.3\<rparr>,
          \<lparr>check_id = ''gross_margin'', check_name = ''Gross Margin'',
            status = (if avgGM < Fin 0.1 then Fail
                      else if avgGM < Fin 0.2 then Warning else Pass),
            check_value = avgGM, threshold = Fin 0.2\<rparr>,
          \<lparr>check_id = ''cash_flow'', check_name = ''Cash Flow'',
            status = (if 12 < negativeCashFlowPeriods then Fail
                      else if 6 < negativeCashFlowPeriods then Warning else Pass),
            check_value = Fin (real negativeCashFlowPeriods), threshold = Fin 6\<rparr>,
          \<lparr>check_id = ''interest_coverage'', check_name = ''Interest Coverage'',
            status = (if avgInterestCoverage < Fin 1.5 then Fail
                      else if avgInterestCoverage < Fin 2 then Warning else Pass),
            check_value = avgInterestCoverage, threshold = Fin 2\<rparr>])"

subsection \<open>The model\<close>

record 's FinancialModel =
  incomeStatement :: IncomeStatement
  balanceSheet :: BalanceSheet
  cashFlowStatement :: CashFlowStatement
  schedules :: 's
  scenarios :: "Scenario list"
  auditChecks :: "AuditCheck list"

record EngineSchedules =
  depreciation :: DepreciationSchedule
  debtSchedule :: DebtSchedule
  workingCapitalSchedule :: WorkingCapitalSchedule

definition generateFinancialModel :: "FinancialInputs \<Rightarrow> EngineSchedules FinancialModel" where
  "generateFinancialModel inputs =
     (let periods = 60;
          dep = generateDepreciationSchedule inputs periods;
          dbt = generateDebtSchedule inputs periods;
          wcs = generateWorkingCapitalSchedule inputs periods;
          ist = generateIncomeStatement inputs periods dep dbt;
          bsh = generateBalanceSheet inputs periods ist wcs dep dbt;
          cfs = generateCashFlowStatement inputs periods ist bsh dep dbt wcs
      in \<lparr>incomeStatement = ist,
          balanceSheet = bsh,
          cashFlowStatement = cfs,
          schedules = \<lparr>depreciation = dep, debtSchedule = dbt, workingCapitalSchedule = wcs\<rparr>,
          scenarios = generateScenarios inputs ist bsh cfs,
          auditChecks = generateAuditChecks inputs ist bsh cfs\<rparr>)"

section \<open>The template engine (\<open>lib/template-engine.ts\<close>)\<close>

subsection \<open>Templates and raw values\<close>

text \<open>
  A raw input value is one of the scalars a request carries for a numeric input: nothing
  (\<open>undefined\<close>), \<open>null\<close>, the empty string, or a finite number.  Non-empty strings, arrays
  and objects are outside the model.
\<close>

datatype jsval = Undefined | Null | EmptyStr | Number real

datatype RuleType = Range | Required | Custom | CrossSheet

text \<open>
  Of a template, the fields that \<open>applyTemplate\<close> reads.  Descriptions, units, output and
  sheet definitions are left out.  A template without a \<open>validation\<close> member has the empty
  list: the engine treats both alike.
\<close>

record ValidationRule =
  rule_type :: RuleType
  field :: string
  condition :: string
  message :: string

record InputDefinition =
  input_id :: string
  input_name :: string
  required :: bool
  input_default :: jsval
  validation :: "ValidationRule list"

record CalculationStep =
  step_id :: string
  formula :: string

record ScheduleDefinition =
  schedule_id :: string
  calculations :: "CalculationStep list"

record ModelTemplate =
  template_id :: string
  template_name :: string
  schema_inputs :: "InputDefinition list"
  schedule_defs :: "ScheduleDefinition list"
  template_validation :: "ValidationRule list"

datatype error = ValidationFailed string "string list" | TypeError

subsection \<open>Coercions of the language\<close>

text \<open>
  \<open>Number(s)\<close> on the texts of a rule condition: the empty text is 0, a decimal literal with
  an optional sign is its value, anything else is NaN.  Exponents, radix prefixes,
  \<open>Infinity\<close> and surrounding blanks, which no registered rule uses, are not recognised.
\<close>

definition digit_of :: "char \<Rightarrow> nat option" where
  "digit_of = map_of (zip ''0123456789'' [0, 1, 2, 3, 4, 5, 6, 7, 8, 9])"

fun digits_value :: "nat \<Rightarrow> string \<Rightarrow> nat option" where
  "digits_value acc [] = Some acc"
| "digits_value acc (c # cs) =
     (case digit_of c of None \<Rightarrow> None | Some d \<Rightarrow> digits_value (10 * acc + d) cs)"

definition unsigned_decimal :: "string \<Rightarrow> jsnum" where
  "unsigned_decimal s =
     (let ip = takeWhile (\<lambda>c. c \<noteq> CHR ''.'') s;
          fp = drop 1 (dropWhile (\<lambda>c. c \<noteq> CHR ''.'') s)
      in if ip = [] \<and> fp = [] then NaN
         else case (digits_value 0 ip, digits_value 0 fp) of
                (Some a, Some b) \<Rightarrow> Fin (real a + real b / 10 ^ length fp)
              | _ \<Rightarrow> NaN)"

definition Number_of_string :: "string \<Rightarrow> jsnum" where
  "Number_of_string s =
     (case s of
        [] \<Rightarrow> Fin 0
      | c # cs \<Rightarrow>
          if c = CHR ''-'' then - unsigned_decimal cs
          else if c = CHR ''+'' then unsigned_decimal cs
          else unsigned_decimal s)"

text \<open>\<open>s.split(',')\<close>\<close>

fun split_comma :: "string \<Rightarrow> string list" where
  "split_comma [] = [[]]"
| "split_comma (c # cs) =
     (if c = CHR '','' then [] # split_comma cs
      else case split_comma cs of p # ps \<Rightarrow> (c # p) # ps | [] \<Rightarrow> [[c]])"

text \<open>A raw value in a comparison with a number.\<close>

fun to_number :: "jsval \<Rightarrow> jsnum" where
  "to_number Undefined = NaN"
| "to_number Null = Fin 0"
| "to_number EmptyStr = Fin 0"
| "to_number (Number x) = Fin x"

text \<open>\<open>v || d\<close> with a numeric default: every raw value but a non-zero number is falsy.\<close>

fun val_or :: "jsval \<Rightarrow> real \<Rightarrow> jsnum" where
  "val_or (Number x) d = (if x = 0 then Fin d else Fin x)"
| "val_or _ d = Fin d"

text \<open>\<open>a ?? b\<close>\<close>

fun nullish_or :: "jsval \<Rightarrow> jsval \<Rightarrow> jsval" where
  "nullish_or Undefined b = b"
| "nullish_or Null b = b"
| "nullish_or a b = a"

text \<open>Reading a member of an object: \<open>undefined\<close> when the key is absent.\<close>

definition member :: "(string \<rightharpoonup> jsval) \<Rightarrow> string \<Rightarrow> jsval" where
  "member obj k = (case obj k of None \<Rightarrow> Undefined | Some v \<Rightarrow> v)"

text \<open>\<open>s.includes(t)\<close>\<close>

fun str_includes :: "string \<Rightarrow> string \<Rightarrow> bool" where
  "str_includes [] t = (t = [])"
| "str_includes (c # cs) t = (take (length t) (c # cs) = t \<or> str_includes cs t)"

subsection \<open>Input validation\<close>

definition is_empty_value :: "jsval \<Rightarrow> bool" where
  "is_empty_value v = (v = Undefined \<or> v = Null \<or> v = EmptyStr)"

definition evaluateValidationRule :: "ValidationRule \<Rightarrow> jsval \<Rightarrow> bool" where
  "evaluateValidationRule rule v =
     (case rule_type rule of
        Range \<Rightarrow>
          (let bounds = map Number_of_string (split_comma (condition rule));
               lo = arr_get bounds 0;
               hi = arr_get bounds 1
           in lo \<le> to_number v \<and> to_number v \<le> hi)
      | Required \<Rightarrow> \<not> is_empty_value v
      | Custom \<Rightarrow> True
      | CrossSheet \<Rightarrow> True)"

record ValidationResult =
  isValid :: bool
  errors :: "string list"

definition validateInput :: "InputDefinition \<Rightarrow> jsval \<Rightarrow> ValidationResult" where
  "validateInput inputDef v =
     (let errors1 = (if required inputDef \<and> is_empty_value v
                     then [input_name inputDef @ '' is required''] else []);
          errors2 = errors1 @ map message
                      (filter (\<lambda>rule. \<not> evaluateValidationRule rule v) (validation inputDef))
      in \<lparr>isValid = (length errors2 = 0), errors = errors2\<rparr>)"

text \<open>
  \<open>processInputs\<close>: the loop over the input definitions throws at the first definition
  whose validation result is not valid.
\<close>

fun processInputs_loop ::
  "InputDefinition list \<Rightarrow> (string \<rightharpoonup> jsval) \<Rightarrow> (string \<rightharpoonup> jsval)
     \<Rightarrow> error + (string \<rightharpoonup> jsval)" where
  "processInputs_loop [] raw processed = Inr processed"
| "processInputs_loop (inputDef # defs) raw processed =
     (let v = nullish_or (member raw (input_id inputDef)) (input_default inputDef);
          validationResult = validateInput inputDef v
      in if \<not> isValid validationResult
         then Inl (ValidationFailed (input_id inputDef) (errors validationResult))
         else processInputs_loop defs raw (processed(input_id inputDef \<mapsto> v)))"

definition processInputs :: "ModelTemplate \<Rightarrow> (string \<rightharpoonup> jsval) \<Rightarrow> error + (string \<rightharpoonup> jsval)" where
  "processInputs template raw = processInputs_loop (schema_inputs template) raw Map.empty"

subsection \<open>Schedules of a template\<close>

text \<open>
  \<open>evaluateFormula\<close> recognises a formula by a keyword of its text and fills the 60 periods.
\<close>

definition evaluateFormula :: "string \<Rightarrow> (string \<rightharpoonup> jsval) \<Rightarrow> nat \<Rightarrow> jsnum list" where
  "evaluateFormula fml processed periods =
     (if str_includes fml ''revenue_growth'' then
        (let growthRate = val_or (member processed ''revenue_growth_rate'') 0
         in map (\<lambda>i. Math_pow (Fin 1 + growthRate / Fin 12) (Fin (real i))) [0..<periods])
      else if str_includes fml ''depreciation'' then
        (let assetValue = val_or (member processed ''initial_assets'') 0;
             depRate = val_or (member processed ''depreciation_rate'') 0.1
         in map (\<lambda>i. assetValue * (depRate / Fin 12)) [0..<periods])
      else if str_includes fml ''interest'' then
        (let debtAmount = val_or (member processed ''initial_debt'') 0;
             intRate = val_or (member processed ''interest_rate'') 0.05
         in map (\<lambda>i. debtAmount * (intRate / Fin 12)) [0..<periods])
      else replicate periods (Fin 0))"

type_synonym schedule = "string \<rightharpoonup> jsnum list"

definition calculateSchedule :: "ScheduleDefinition \<Rightarrow> (string \<rightharpoonup> jsval) \<Rightarrow> schedule" where
  "calculateSchedule scheduleDef processed =
     foldl (\<lambda>sch step. sch(step_id step \<mapsto> evaluateFormula (formula step) processed 60))
       Map.empty (calculations scheduleDef)"

definition calculateSchedules ::
  "ModelTemplate \<Rightarrow> (string \<rightharpoonup> jsval) \<Rightarrow> (string \<rightharpoonup> schedule)" where
  "calculateSchedules template processed =
     foldl (\<lambda>schs scheduleDef.
              schs(schedule_id scheduleDef \<mapsto> calculateSchedule scheduleDef processed))
       Map.empty (schedule_defs template)"

text \<open>
  \<open>schedules.s?.f || new Array(periods).fill(0)\<close>: the zero array when the schedule or its
  member is absent (an array is never falsy).
\<close>

definition schedule_array_or_zeros ::
  "(string \<rightharpoonup> schedule) \<Rightarrow> string \<Rightarrow> string \<Rightarrow> nat \<Rightarrow> jsnum list" where
  "schedule_array_or_zeros schs s f periods =
     (case schs s of
        None \<Rightarrow> replicate periods (Fin 0)
      | Some sch \<Rightarrow> (case sch f of None \<Rightarrow> replicate periods (Fin 0) | Some a \<Rightarrow> a))"

text \<open>
  \<open>schedules.s?.f[i]\<close>: \<open>undefined\<close> when the schedule is absent; a TypeError when the schedule
  is there and its member is not.
\<close>

definition schedule_entry ::
  "(string \<rightharpoonup> schedule) \<Rightarrow> string \<Rightarrow> string \<Rightarrow> nat \<Rightarrow> error + jsnum" where
  "schedule_entry schs s f i =
     (case schs s of
        None \<Rightarrow> Inr NaN
      | Some sch \<Rightarrow> (case sch f of None \<Rightarrow> Inl TypeError | Some a \<Rightarrow> Inr (arr_get a i)))"

subsection \<open>Statements of a template\<close>

definition te_revenue_step :: "jsnum \<Rightarrow> jsnum list \<times> jsnum \<Rightarrow> nat \<Rightarrow> jsnum list \<times> jsnum" where
  "te_revenue_step growthRate st i =
     (arr_set (fst st) i (snd st), snd st * (Fin 1 + growthRate / Fin 12))"

definition te_calculateRevenue :: "(string \<rightharpoonup> jsval) \<Rightarrow> nat \<Rightarrow> jsnum list" where
  "te_calculateRevenue processed periods =
     fst (foldl (te_revenue_step (val_or (member processed ''revenue_growth_rate'') 0))
            (replicate periods (Fin 0), val_or (member processed ''initial_revenue'') 100000)
            [0..<periods])"

definition te_calculateCostOfGoodsSold :: "(string \<rightharpoonup> jsval) \<Rightarrow> jsnum list \<Rightarrow> jsnum list" where
  "te_calculateCostOfGoodsSold processed revs =
     (let cogsPercentage = val_or (member processed ''cogs_percentage'') 0.6
      in map (\<lambda>r. r * cogsPercentage) revs)"

definition te_calculateOperatingExpense :: "jsnum \<Rightarrow> jsnum list \<Rightarrow> jsnum list" where
  "te_calculateOperatingExpense budgetPercentage revs =
     map (\<lambda>r. r * (budgetPercentage / Fin 100)) revs"

definition te_generateIncomeStatement ::
  "(string \<rightharpoonup> jsval) \<Rightarrow> (string \<rightharpoonup> schedule) \<Rightarrow> nat \<Rightarrow> IncomeStatement" where
  "te_generateIncomeStatement processed schs periods =
     (let revs = te_calculateRevenue processed periods;
          cogs = te_calculateCostOfGoodsSold processed revs;
          gp = mapi (\<lambda>r i. r - arr_get cogs i) revs;
          sm = te_calculateOperatingExpense
                 (val_or (member processed ''sales_marketing_budget'') 0) revs;
          rd = te_calculateOperatingExpense
                 (val_or (member processed ''research_development_budget'') 0) revs;
          ga = te_calculateOperatingExpense
                 (val_or (member processed ''general_administrative_budget'') 0) revs;
          totalOperatingExpenses = mapi (\<lambda>_ i. arr_get sm i + arr_get rd i + arr_get ga i) revs;
          oi = mapi (\<lambda>g i. g - arr_get totalOperatingExpenses i) gp;
          ie = schedule_array_or_zeros schs ''debt'' ''interestPayments'' periods;
          tx = mapi (\<lambda>x i. Math_max (Fin 0) (x - arr_get ie i)
                              * val_or (member processed ''tax_rate'') 0.25) oi;
          ni = mapi (\<lambda>x i. x - arr_get ie i - arr_get tx i) oi
      in \<lparr>is_periods = periods,
          revenue = revs,
          is_costOfGoodsSold = cogs,
          grossProfit = gp,
          opex_salesAndMarketing = sm,
          opex_researchAndDevelopment = rd,
          opex_generalAndAdministrative = ga,
          operatingIncome = oi,
          interestExpense = ie,
          taxes = tx,
          netIncome = ni\<rparr>)"

definition te_generateBalanceSheet ::
  "(string \<rightharpoonup> jsval) \<Rightarrow> (string \<rightharpoonup> schedule) \<Rightarrow> IncomeStatement \<Rightarrow> nat \<Rightarrow> BalanceSheet" where
  "te_generateBalanceSheet processed schs income periods =
     (let csh = calculateCashBalance income periods;
          ar = schedule_array_or_zeros schs ''workingCapital'' ''accountsReceivable'' periods;
          inv = schedule_array_or_zeros schs ''workingCapital'' ''inventory'' periods;
          fa = schedule_array_or_zeros schs ''depreciation'' ''endingBalance'' periods;
          ad = schedule_array_or_zeros schs ''depreciation'' ''accumulatedDepreciation'' periods;
          ta = mapi (\<lambda>c i. c + arr_get ar i + arr_get inv i + arr_get fa i - arr_get ad i) csh;
          ap = schedule_array_or_zeros schs ''workingCapital'' ''accountsPayable'' periods;
          dbt = schedule_array_or_zeros schs ''debt'' ''endingBalance'' periods;
          tl = mapi (\<lambda>a i. a + arr_get dbt i) ap;
          cs = replicate periods (val_or (member processed ''initial_equity'') 100000);
          re = calculateRetainedEarnings income;
          te = mapi (\<lambda>c i. c + arr_get re i) cs
      in \<lparr>bs_periods = periods,
          cash = csh,
          accountsReceivable = ar,
          inventory = inv,
          fixedAssets = fa,
          accumulatedDepreciation = ad,
          totalAssets = ta,
          accountsPayable = ap,
          debt = dbt,
          totalLiabilities = tl,
          commonStock = cs,
          retainedEarnings = re,
          totalEquity = te\<rparr>)"

text \<open>A \<open>map\<close> whose callback may throw: the first error ends it.\<close>

fun map_err :: "(nat \<Rightarrow> error + jsnum) \<Rightarrow> nat list \<Rightarrow> error + jsnum list" where
  "map_err f [] = Inr []"
| "map_err f (i # is) =
     (case f i of
        Inl e \<Rightarrow> Inl e
      | Inr y \<Rightarrow> (case map_err f is of Inl e \<Rightarrow> Inl e | Inr ys \<Rightarrow> Inr (y # ys)))"

definition te_operatingCashFlow ::
  "(string \<rightharpoonup> schedule) \<Rightarrow> IncomeStatement \<Rightarrow> error + jsnum list" where
  "te_operatingCashFlow schs income =
     map_err
       (\<lambda>i. case schedule_entry schs ''depreciation'' ''depreciation'' i of
               Inl e \<Rightarrow> Inl e
             | Inr d \<Rightarrow>
                 (case schedule_entry schs ''workingCapital'' ''changeInWorkingCapital'' i of
                    Inl e \<Rightarrow> Inl e
                  | Inr w \<Rightarrow>
                      Inr (netIncome income ! i + num_or d (Fin 0) - num_or w (Fin 0))))
       [0..<length (netIncome income)]"

definition te_investingCashFlow :: "(string \<rightharpoonup> schedule) \<Rightarrow> nat \<Rightarrow> error + jsnum list" where
  "te_investingCashFlow schs periods =
     (case schs ''depreciation'' of
        None \<Rightarrow> Inr (replicate periods (Fin 0))
      | Some sch \<Rightarrow>
          (case sch ''additions'' of
             None \<Rightarrow> Inl TypeError
           | Some a \<Rightarrow> Inr (map (\<lambda>add. - add) a)))"

definition te_generateCashFlowStatement ::
  "(string \<rightharpoonup> jsval) \<Rightarrow> (string \<rightharpoonup> schedule) \<Rightarrow> IncomeStatement \<Rightarrow> BalanceSheet \<Rightarrow> nat
     \<Rightarrow> error + CashFlowStatement" where
  "te_generateCashFlowStatement processed schs income sheet periods =
     (case te_operatingCashFlow schs income of
        Inl e \<Rightarrow> Inl e
      | Inr ocf \<Rightarrow>
          (case te_investingCashFlow schs periods of
             Inl e \<Rightarrow> Inl e
           | Inr icf \<Rightarrow>
               (let fcf = schedule_array_or_zeros schs ''debt'' ''netCashFlow'' periods;
                    ncf = mapi (\<lambda>x i. x + arr_get icf i + arr_get fcf i) ocf
                in Inr \<lparr>cf_periods = periods,
                        operatingCashFlow = ocf,
                        investingCashFlow = icf,
                        financingCashFlow = fcf,
                        netCashFlow = ncf,
                        endingCash = calculateEndingCash ncf\<rparr>)))"

definition te_generateScenarios :: "Scenario list" where
  "te_generateScenarios =
     [\<lparr>scenario_id = ''base'', scenario_type = Base, assumptions = [],
       results = \<lparr>npv = Fin 0, irr = Fin 0, paybackPeriod = 0, keyMetrics = None\<rparr>\<rparr>]"

definition te_generateAuditChecks :: "ModelTemplate \<Rightarrow> AuditCheck list" where
  "te_generateAuditChecks template =
     (if length (template_validation template) = 0 then []
      else map (\<lambda>rule. \<lparr>check_id = field rule, check_name = field rule, status = Pass,
                         check_value = Fin 0, threshold = Fin 0\<rparr>)
             (template_validation template))"

definition applyTemplate ::
  "ModelTemplate \<Rightarrow> (string \<rightharpoonup> jsval) \<Rightarrow> error + (string \<rightharpoonup> schedule) FinancialModel" where
  "applyTemplate template raw =
     (case processInputs template raw of
        Inl e \<Rightarrow> Inl e
      | Inr processed \<Rightarrow>
          (let schs = calculateSchedules template processed;
               periods = 60;
               ist = te_generateIncomeStatement processed schs periods;
               bsh = te_generateBalanceSheet processed schs ist periods
           in case te_generateCashFlowStatement processed schs ist bsh periods of
                Inl e \<Rightarrow> Inl e
              | Inr cfs \<Rightarrow>
                  Inr \<lparr>incomeStatement = ist,
                      balanceSheet = bsh,
                      cashFlowStatement = cfs,
                      schedules = schs,
                      scenarios = te_generateScenarios,
                      auditChecks = te_generateAuditChecks template\<rparr>))"

subsection \<open>The registry\<close>

definition saas_template :: ModelTemplate where
  "saas_template =
     \<lparr>template_id = ''saas'',
      template_name = ''SaaS Financial Model'',
      inputs =
        [\<lparr>input_id = ''initial_mrr'', input_name = ''Initial Monthly Recurring Revenue'',
         required = True, input_default = Undefined,
         validation = []\<rparr>,
         \<lparr>input_id = ''revenue_growth_rate'', input_name = ''Monthly Revenue Growth Rate'',
         required = True, input_default = Number 0.05,
         validation = [\<lparr>rule_type = Range, field = ''revenue_growth_rate'', condition = ''0,0.5'',
           message = ''Growth rate must be between 0% and 50%''\<rparr>]\<rparr>,
         \<lparr>input_id = ''churn_rate'', input_name = ''Monthly Churn Rate'',
         required = True, input_default = Number 0.02,
         validation = [\<lparr>rule_type = Range, field = ''churn_rate'', condition = ''0,0.2'',
           message = ''Churn rate must be between 0% and 20%''\<rparr>]\<rparr>,
         \<lparr>input_id = ''gross_margin'', input_name = ''Gross Margin'',
         required = True, input_default = Number 0.8,
         validation = [\<lparr>rule_type = Range, field = ''gross_margin'', condition = ''0,1'',
           message = ''Gross margin must be between 0% and 100%''\<rparr>]\<rparr>,
         \<lparr>input_id = ''sales_marketing_budget'', input_name = ''Sales & Marketing Budget'',
         required = True, input_default = Number 0.3,
         validation = [\<lparr>rule_type = Range, field = ''sales_marketing_budget'', condition = ''0,1'',
           message = ''Budget must be between 0% and 100%''\<rparr>]\<rparr>,
         \<lparr>input_id = ''research_development_budget'', input_name = ''R&D Budget'',
         required = True, input_default = Number 0.15,
         validation = [\<lparr>rule_type = Range, field = ''research_development_budget'', condition = ''0,1'',
           message = ''Budget must be between 0% and 100%''\<rparr>]\<rparr>,
         \<lparr>input_id = ''tax_rate'', input_name = ''Effective Tax Rate'',
         required = True, input_default = Number 0.25,
         validation = [\<lparr>rule_type = Range, field = ''tax_rate'', condition = ''0,0.5'',
           message = ''Tax rate must be between 0% and 50%''\<rparr>]\<rparr>],
      schedule_defs = [\<lparr>schedule_id = ''revenue_schedule'',
         calculations =
           [\<lparr>step_id = ''monthly_revenue'',
            formula = ''initial_mrr * (1 + revenue_growth_rate)^period * (1 - churn_rate)^period''\<rparr>]\<rparr>],
      template_validation = [\<lparr>rule_type = Range, field = ''revenue_growth_rate'', condition = ''0,0.5'',
           message = ''Revenue growth rate must be between 0% and 50%''\<rparr>]\<rparr>"

definition ecommerce_template :: ModelTemplate where
  "ecommerce_template =
     \<lparr>template_id = ''ecommerce'',
      template_name = ''E-commerce Financial Model'',
      inputs =
        [\<lparr>input_id = ''starting_customers'', input_name = ''Starting Customers'',
         required = True, input_default = Undefined,
         validation = []\<rparr>,
         \<lparr>input_id = ''new_customers_per_month'', input_name = ''New Customers per Month'',
         required = True, input_default = Number 10,
         validation = []\<rparr>,
         \<lparr>input_id = ''churn_rate'', input_name = ''Monthly Churn Rate'',
         required = True, input_default = Number 0.05,
         validation = [\<lparr>rule_type = Range, field = ''churn_rate'', condition = ''0,0.3'',
           message = ''Churn rate must be between 0% and 30%''\<rparr>]\<rparr>,
         \<lparr>input_id = ''price_per_customer'', input_name = ''Price per Customer'',
         required = True, input_default = Undefined,
         validation = []\<rparr>,
         \<lparr>input_id = ''cogs_per_customer'', input_name = ''COGS per Customer'',
         required = True, input_default = Undefined,
         validation = []\<rparr>,
         \<lparr>input_id = ''opex_per_month'', input_name = ''Fixed Operating Expenses'',
         required = True, input_default = Number 5000,
         validation = []\<rparr>,
         \<lparr>input_id = ''initial_cash'', input_name = ''Initial Cash'',
         required = True, input_default = Number 50000,
         validation = []\<rparr>],
      schedule_defs = [\<lparr>schedule_id = ''customer_schedule'',
         calculations =
           [\<lparr>step_id = ''total_customers'',
            formula = ''starting_customers + (new_customers_per_month * period) - (starting_customers * churn_rate * period)''\<rparr>,
            \<lparr>step_id = ''revenue'',
            formula = ''total_customers * price_per_customer''\<rparr>]\<rparr>],
      template_validation = []\<rparr>"

definition marketplace_template :: ModelTemplate where
  "marketplace_template =
     \<lparr>template_id = ''marketplace'',
      template_name = ''Marketplace Financial Model'',
      inputs =
        [\<lparr>input_id = ''gmv'', input_name = ''Gross Merchandise Value'',
         required = True, input_default = Undefined,
         validation = []\<rparr>,
         \<lparr>input_id = ''take_rate'', input_name = ''Take Rate'',
         required = True, input_default = Number 0.15,
         validation = [\<lparr>rule_type = Range, field = ''take_rate'', condition = ''0,0.5'',
           message = ''Take rate must be between 0% and 50%''\<rparr>]\<rparr>,
         \<lparr>input_id = ''transaction_volume'', input_name = ''Monthly Transaction Volume'',
         required = True, input_default = Undefined,
         validation = []\<rparr>,
         \<lparr>input_id = ''average_order_value'', input_name = ''Average Order Value'',
         required = True, input_default = Undefined,
         validation = []\<rparr>,
         \<lparr>input_id = ''customer_acquisition_cost'', input_name = ''Customer Acquisition Cost'',
         required = True, input_default = Undefined,
         validation = []\<rparr>,
         \<lparr>input_id = ''operating_expenses'', input_name = ''Operating Expenses'',
         required = True, input_default = Number 10000,
         validation = []\<rparr>],
      schedule_defs = [],
      template_validation = []\<rparr>"

definition services_template :: ModelTemplate where
  "services_template =
     \<lparr>template_id = ''services'',
      template_name = ''Services Financial Model'',
      inputs =
        [\<lparr>input_id = ''billable_hours'', input_name = ''Billable Hours per Month'',
         required = True, input_default = Undefined,
         validation = []\<rparr>,
         \<lparr>input_id = ''hourly_rate'', input_name = ''Average Hourly Rate'',
         required = True, input_default = Undefined,
         validation = []\<rparr>,
         \<lparr>input_id = ''utilization_rate'', input_name = ''Utilization Rate'',
         required = True, input_default = Number 0.75,
         validation = [\<lparr>rule_type = Range, field = ''utilization_rate'', condition = ''0,1'',
           message = ''Utilization rate must be between 0% and 100%''\<rparr>]\<rparr>,
         \<lparr>input_id = ''team_size'', input_name = ''Team Size'',
         required = True, input_default = Undefined,
         validation = []\<rparr>,
         \<lparr>input_id = ''average_salary'', input_name = ''Average Salary'',
         required = True, input_default = Undefined,
         validation = []\<rparr>,
         \<lparr>input_id = ''other_expenses'', input_name = ''Other Operating Expenses'',
         required = True, input_default = Number 5000,
         validation = []\<rparr>],
      schedule_defs = [],
      template_validation = []\<rparr>"

definition hardware_template :: ModelTemplate where
  "hardware_template =
     \<lparr>template_id = ''hardware'',
      template_name = ''Hardware Financial Model'',
      inputs =
        [\<lparr>input_id = ''units_sold'', input_name = ''Units Sold per Month'',
         required = True, input_default = Undefined,
         validation = []\<rparr>,
         \<lparr>input_id = ''unit_price'', input_name = ''Unit Price'',
         required = True, input_default = Undefined,
         validation = []\<rparr>,
         \<lparr>input_id = ''unit_cost'', input_name = ''Unit Cost'',
         required = True, input_default = Undefined,
         validation = []\<rparr>,
         \<lparr>input_id = ''inventory_turnover'', input_name = ''Inventory Turnover'',
         required = True, input_default = Number 4,
         validation = []\<rparr>,
         \<lparr>input_id = ''manufacturing_capacity'', input_name = ''Manufacturing Capacity'',
         required = True, input_default = Undefined,
         validation = []\<rparr>,
         \<lparr>input_id = ''fixed_costs'', input_name = ''Fixed Manufacturing Costs'',
         required = True, input_default = Undefined,
         validation = []\<rparr>],
      schedule_defs = [],
      template_validation = []\<rparr>"

definition manufacturing_template :: ModelTemplate where
  "manufacturing_template =
     \<lparr>template_id = ''manufacturing'',
      template_name = ''Manufacturing Financial Model'',
      inputs =
        [\<lparr>input_id = ''production_capacity'', input_name = ''Production Capacity'',
         required = True, input_default = Undefined,
         validation = []\<rparr>,
         \<lparr>input_id = ''capacity_utilization'', input_name = ''Capacity Utilization'',
         required = True, input_default = Number 0.8,
         validation = [\<lparr>rule_type = Range, field = ''capacity_utilization'', condition = ''0,1'',
           message = ''Capacity utilization must be between 0% and 100%''\<rparr>]\<rparr>,
         \<lparr>input_id = ''unit_price'', input_name = ''Unit Selling Price'',
         required = True, input_default = Undefined,
         validation = []\<rparr>,
         \<lparr>input_id = ''variable_cost_per_unit'', input_name = ''Variable Cost per Unit'',
         required = True, input_default = Undefined,
         validation = []\<rparr>,
         \<lparr>input_id = ''fixed_manufacturing_costs'', input_name = ''Fixed Manufacturing Costs'',
         required = True, input_default = Undefined,
         validation = []\<rparr>,
         \<lparr>input_id = ''equipment_depreciation'', input_name = ''Equipment Depreciation'',
         required = True, input_default = Number 5000,
         validation = []\<rparr>],
      schedule_defs = [],
      template_validation = []\<rparr>"

definition real_estate_template :: ModelTemplate where
  "real_estate_template =
     \<lparr>template_id = ''real_estate'',
      template_name = ''Real Estate Financial Model'',
      inputs =
        [\<lparr>input_id = ''property_value'', input_name = ''Property Value'',
         required = True, input_default = Undefined,
         validation = []\<rparr>,
         \<lparr>input_id = ''rental_income'', input_name = ''Monthly Rental Income'',
         required = True, input_default = Undefined,
         validation = []\<rparr>,
         \<lparr>input_id = ''occupancy_rate'', input_name = ''Occupancy Rate'',
         required = True, input_default = Number 0.95,
         validation = [\<lparr>rule_type = Range, field = ''occupancy_rate'', condition = ''0,1'',
           message = ''Occupancy rate must be between 0% and 100%''\<rparr>]\<rparr>,
         \<lparr>input_id = ''operating_expenses'', input_name = ''Operating Expenses'',
         required = True, input_default = Undefined,
         validation = []\<rparr>,
         \<lparr>input_id = ''mortgage_payment'', input_name = ''Monthly Mortgage Payment'',
         required = True, input_default = Undefined,
         validation = []\<rparr>,
         \<lparr>input_id = ''property_taxes'', input_name = ''Property Taxes'',
         required = True, input_default = Undefined,
         validation = []\<rparr>,
         \<lparr>input_id = ''appreciation_rate'', input_name = ''Property Appreciation Rate'',
         required = True, input_default = Number 0.03,
         validation = []\<rparr>],
      schedule_defs = [],
      template_validation = []\<rparr>"

definition financial_template :: ModelTemplate where
  "financial_template =
     \<lparr>template_id = ''financial'',
      template_name = ''Financial Services Model'',
      inputs =
        [\<lparr>input_id = ''assets_under_management'', input_name = ''Assets Under Management'',
         required = True, input_default = Undefined,
         validation = []\<rparr>,
         \<lparr>input_id = ''management_fee'', input_name = ''Management Fee Rate'',
         required = True, input_default = Number 0.01,
         validation = [\<lparr>rule_type = Range, field = ''management_fee'', condition = ''0,0.05'',
           message = ''Management fee must be between 0% and 5%''\<rparr>]\<rparr>,
         \<lparr>input_id = ''transaction_volume'', input_name = ''Transaction Volume'',
         required = True, input_default = Undefined,
         validation = []\<rparr>,
         \<lparr>input_id = ''transaction_fee'', input_name = ''Transaction Fee Rate'',
         required = True, input_default = Number 0.0025,
         validation = []\<rparr>,
         \<lparr>input_id = ''operating_expenses'', input_name = ''Operating Expenses'',
         required = True, input_default = Undefined,
         validation = []\<rparr>,
         \<lparr>input_id = ''regulatory_capital'', input_name = ''Regulatory Capital'',
         required = True, input_default = Undefined,
         validation = []\<rparr>],
      schedule_defs = [],
      template_validation = []\<rparr>"

definition default_template :: ModelTemplate where
  "default_template =
     \<lparr>template_id = ''default'',
      template_name = ''Default Financial Model'',
      inputs =
        [\<lparr>input_id = ''initial_revenue'', input_name = ''Initial Revenue'',
         required = True, input_default = Undefined,
         validation = []\<rparr>,
         \<lparr>input_id = ''revenue_growth_rate'', input_name = ''Revenue Growth Rate'',
         required = True, input_default = Number 0.05,
         validation = []\<rparr>],
      schedule_defs = [],
      template_validation = []\<rparr>"

definition initializeTemplates :: "string \<rightharpoonup> ModelTemplate" where
  "initializeTemplates =
     [''saas'' \<mapsto> saas_template,
      ''ecommerce'' \<mapsto> ecommerce_template,
      ''marketplace'' \<mapsto> marketplace_template,
      ''services'' \<mapsto> services_template,
      ''hardware'' \<mapsto> hardware_template,
      ''manufacturing'' \<mapsto> manufacturing_template,
      ''real_estate'' \<mapsto> real_estate_template,
      ''financial'' \<mapsto> financial_template,
      ''default'' \<mapsto> default_template]"

text \<open>
  \<open>getTemplate\<close>: the registered template, else the one registered as \<open>default\<close>.  \<open>None\<close>
  stands for \<open>undefined\<close>.
\<close>

definition getTemplate :: "string \<Rightarrow> ModelTemplate option" where
  "getTemplate businessType =
     (case initializeTemplates businessType of
        Some t \<Rightarrow> Some t
      | None \<Rightarrow> initializeTemplates ''default'')"

text \<open>The request handler of \<open>pages/api/models/generate.ts\<close>, after its check of the body.\<close>

definition generate ::
  "string \<Rightarrow> (string \<rightharpoonup> jsval) \<Rightarrow> error + (string \<rightharpoonup> schedule) FinancialModel" where
  "generate businessType raw =
     (case getTemplate businessType of
        None \<Rightarrow> Inl TypeError
      | Some template \<Rightarrow> applyTemplate template raw)"

section \<open>Predicates of the proofs\<close>

text \<open>
  The fixed part of a debt schedule of \<open>n\<close> periods (lengths and period 0), and the
  equations of one of its rows; the same for a depreciation schedule.
\<close>

definition debt_head_ok :: "nat \<Rightarrow> jsnum \<Rightarrow> DebtSchedule \<Rightarrow> bool" where
  "debt_head_ok n p0 s =
     (debt_periods s = n \<and>
      length (debt_beginningBalance s) = n \<and> length (debt_interestPayments s) = n \<and>
      length (debt_principalPayments s) = n \<and> length (debt_endingBalance s) = n \<and>
      debt_newDebt s = replicate n (Fin 0) \<and>
      debt_beginningBalance s ! 0 = p0 \<and> debt_endingBalance s ! 0 = p0 \<and>
      debt_interestPayments s ! 0 = Fin 0 \<and> debt_principalPayments s ! 0 = Fin 0)"

definition debt_row_ok :: "jsnum \<Rightarrow> jsnum \<Rightarrow> DebtSchedule \<Rightarrow> nat \<Rightarrow> bool" where
  "debt_row_ok r pay s j =
     (debt_beginningBalance s ! j = debt_endingBalance s ! (j - 1) \<and>
      debt_interestPayments s ! j = debt_beginningBalance s ! j * r \<and>
      debt_principalPayments s ! j =
        Math_min (pay - debt_interestPayments s ! j) (debt_beginningBalance s ! j) \<and>
      debt_endingBalance s ! j = debt_beginningBalance s ! j - debt_principalPayments s ! j)"

definition dep_row_ok :: "jsnum \<Rightarrow> jsnum \<Rightarrow> DepreciationSchedule \<Rightarrow> nat \<Rightarrow> bool" where
  "dep_row_ok a rate s j =
     (dep_beginningBalance s ! j = (if j = 0 then Fin 0 else dep_endingBalance s ! (j - 1)) \<and>
      dep_depreciation s ! j = (dep_beginningBalance s ! j + a) * rate \<and>
      dep_endingBalance s ! j = dep_beginningBalance s ! j + a - dep_depreciation s ! j)"

definition dep_head_ok :: "nat \<Rightarrow> jsnum \<Rightarrow> DepreciationSchedule \<Rightarrow> bool" where
  "dep_head_ok n a s =
     (dep_periods s = n \<and> dep_additions s = replicate n a \<and>
      length (dep_beginningBalance s) = n \<and> length (dep_depreciation s) = n \<and>
      length (dep_endingBalance s) = n)"

text \<open>An array of \<open>n\<close> finite numbers.\<close>

definition fin_arr :: "nat \<Rightarrow> jsnum list \<Rightarrow> bool" where
  "fin_arr n xs = (length xs = n \<and> (\<forall>x \<in> set xs. finite_num x))"

text \<open>The real value of a finite number.\<close>

fun the_fin :: "jsnum \<Rightarrow> real" where
  "the_fin (Fin a) = a"
| "the_fin _ = 0"

section \<open>Reference definitions and example inputs\<close>




text \<open>Every output array of a model of the modelling engine.\<close>

definition engine_arrays :: "EngineSchedules FinancialModel \<Rightarrow> jsnum list list" where
  "engine_arrays m =
     [dep_beginningBalance (depreciation (schedules m)),
      dep_additions (depreciation (schedules m)),
      dep_depreciation (depreciation (schedules m)),
      dep_endingBalance (depreciation (schedules m)),
      debt_beginningBalance (debtSchedule (schedules m)),
      debt_newDebt (debtSchedule (schedules m)),
      debt_principalPayments (debtSchedule (schedules m)),
      debt_interestPayments (debtSchedule (schedules m)),
      debt_endingBalance (debtSchedule (schedules m)),
      wc_accountsReceivable (workingCapitalSchedule (schedules m)),
      wc_inventory (workingCapitalSchedule (schedules m)),
      wc_accountsPayable (workingCapitalSchedule (schedules m)),
      wc_netWorkingCapital (workingCapitalSchedule (schedules m)),
      wc_changeInWorkingCapital (workingCapitalSchedule (schedules m)),
      revenue (incomeStatement m),
      is_costOfGoodsSold (incomeStatement m),
      grossProfit (incomeStatement m),
      opex_salesAndMarketing (incomeStatement m),
      opex_researchAndDevelopment (incomeStatement m),
      opex_generalAndAdministrative (incomeStatement m),
      operatingIncome (incomeStatement m),
      interestExpense (incomeStatement m),
      taxes (incomeStatement m),
      netIncome (incomeStatement m),
      cash (balanceSheet m),
      accountsReceivable (balanceSheet m),
      inventory (balanceSheet m),
      fixedAssets (balanceSheet m),
      accumulatedDepreciation (balanceSheet m),
      totalAssets (balanceSheet m),
      accountsPayable (balanceSheet m),
      debt (balanceSheet m),
      totalLiabilities (balanceSheet m),
      commonStock (balanceSheet m),
      retainedEarnings (balanceSheet m),
      totalEquity (balanceSheet m),
      operatingCashFlow (cashFlowStatement m),
      investingCashFlow (cashFlowStatement m),
      financingCashFlow (cashFlowStatement m),
      netCashFlow (cashFlowStatement m),
      endingCash (cashFlowStatement m)]"

text \<open>The inputs of the two concrete scenarios of the specification.\<close>

definition saas_scenario_inputs :: "string \<rightharpoonup> jsval" where
  "saas_scenario_inputs =
     [''initial_mrr'' \<mapsto> Number 50000, ''revenue_growth_rate'' \<mapsto> Number 0.05,
      ''churn_rate'' \<mapsto> Number 0.02, ''gross_margin'' \<mapsto> Number 0.8,
      ''tax_rate'' \<mapsto> Number 0.25]"

definition unknown_template_inputs :: "string \<rightharpoonup> jsval" where
  "unknown_template_inputs =
     [''initial_revenue'' \<mapsto> Number 10000, ''revenue_growth_rate'' \<mapsto> Number 0.05]"


text \<open>The inputs of the first test of the modelling engine.\<close>

definition test_inputs :: FinancialInputs where
  "test_inputs =
     \<lparr>revenueGrowth = [0.05, 0.04, 0.03, 0.02, 0.01],
      costStructure = \<lparr>costOfGoodsSold = \<lparr>percentage = 0.2, fixedCosts = 10000\<rparr>\<rparr>,
      operatingExpenses =
        \<lparr>salesAndMarketing = \<lparr>percentage = 0.3, fixedCosts = 50000\<rparr>,
         researchAndDevelopment = \<lparr>percentage = 0.15, fixedCosts = 30000\<rparr>,
         generalAndAdministrative = \<lparr>percentage = 0.1, fixedCosts = 20000\<rparr>\<rparr>,
      workingCapital =
        \<lparr>daysSalesOutstanding = Fin 30, daysInventoryOutstanding = Fin 0,
         daysPayablesOutstanding = Fin 15\<rparr>,
      capex = \<lparr>annualCapex = 50000, depreciationRate = 0.1\<rparr>,
      debtStructure = \<lparr>initialDebt = 100000, interestRate = 0.05, debtMaturity = 5\<rparr>,
      taxRate = 0.25,
      discountRate = 0.15\<rparr>"

text \<open>The same business without debt: no initial debt and a maturity of zero years.\<close>

definition no_debt_inputs :: FinancialInputs where
  "no_debt_inputs =
     test_inputs\<lparr>debtStructure := \<lparr>initialDebt = 0, interestRate = 0.05, debtMaturity = 0\<rparr>\<rparr>"

text \<open>
  A business whose revenue does not grow and whose expenses exceed its gross profit, without
  debt and without capital expenditure: every period loses the same amount.
\<close>

definition flat_loss_inputs :: FinancialInputs where
  "flat_loss_inputs =
     \<lparr>revenueGrowth = [0],
      costStructure = \<lparr>costOfGoodsSold = \<lparr>percentage = 0.6, fixedCosts = 0\<rparr>\<rparr>,
      operatingExpenses =
        \<lparr>salesAndMarketing = \<lparr>percentage = 0.5, fixedCosts = 0\<rparr>,
         researchAndDevelopment = \<lparr>percentage = 0, fixedCosts = 0\<rparr>,
         generalAndAdministrative = \<lparr>percentage = 0, fixedCosts = 0\<rparr>\<rparr>,
      workingCapital =
        \<lparr>daysSalesOutstanding = Fin 30, daysInventoryOutstanding = Fin 0,
         daysPayablesOutstanding = Fin 15\<rparr>,
      capex = \<lparr>annualCapex = 0, depreciationRate = 0.1\<rparr>,
      debtStructure = \<lparr>initialDebt = 0, interestRate = 0.06, debtMaturity = 5\<rparr>,
      taxRate = 0.25,
      discountRate = 0.1\<rparr>"

text \<open>
  A business that invests in period 0 and earns from period 1 on: the revenue doubles after
  period 0 (a growth rate of 12 a year is a factor of 2 a month) and stays there, against
  fixed costs of 150000 a period, without tax, debt or capital expenditure.  Its net cash
  flow is -50000 in period 0 and 50000 in each later period.
\<close>

definition step_growth_inputs :: FinancialInputs where
  "step_growth_inputs =
     \<lparr>revenueGrowth = [12, 0],
      costStructure = \<lparr>costOfGoodsSold = \<lparr>percentage = 0, fixedCosts = 0\<rparr>\<rparr>,
      operatingExpenses =
        \<lparr>salesAndMarketing = \<lparr>percentage = 0, fixedCosts = 150000\<rparr>,
         researchAndDevelopment = \<lparr>percentage = 0, fixedCosts = 0\<rparr>,
         generalAndAdministrative = \<lparr>percentage = 0, fixedCosts = 0\<rparr>\<rparr>,
      workingCapital =
        \<lparr>daysSalesOutstanding = Fin 30, daysInventoryOutstanding = Fin 0,
         daysPayablesOutstanding = Fin 15\<rparr>,
      capex = \<lparr>annualCapex = 0, depreciationRate = 0.1\<rparr>,
      debtStructure = \<lparr>initialDebt = 0, interestRate = 0.06, debtMaturity = 5\<rparr>,
      taxRate = 0,
      discountRate = 0.1\<rparr>"

text \<open>
  The inputs of the first test with an infinite number of days of sales outstanding (the
  number that \<open>JSON.parse\<close> returns for \<open>1e999\<close>).
\<close>

definition infinite_dso_inputs :: FinancialInputs where
  "infinite_dso_inputs =
     test_inputs\<lparr>workingCapital :=
       \<lparr>daysSalesOutstanding = PInf, daysInventoryOutstanding = Fin 0,
        daysPayablesOutstanding = Fin 15\<rparr>\<rparr>"


definition saas_processed :: "string \<rightharpoonup> jsval" where
  "saas_processed =
     [''initial_mrr'' \<mapsto> Number 50000, ''revenue_growth_rate'' \<mapsto> Number 0.05,
      ''churn_rate'' \<mapsto> Number 0.02, ''gross_margin'' \<mapsto> Number 0.8,
      ''sales_marketing_budget'' \<mapsto> Number 0.3,
      ''research_development_budget'' \<mapsto> Number 0.15, ''tax_rate'' \<mapsto> Number 0.25]"


section \<open>Arithmetic and array lemmas\<close>

lemma Fin_add [simp]: "Fin a + Fin b = Fin (a + b)"
  by (simp add: plus_jsnum_def)

lemma Fin_sub [simp]: "Fin a - Fin b = Fin (a - b)"
  by (simp add: minus_jsnum_def)

lemma Fin_mul [simp]: "Fin a * Fin b = Fin (a * b)"
  by (simp add: times_jsnum_def)

lemma Fin_div [simp]:
  "Fin a / Fin b = (if b \<noteq> 0 then Fin (a / b) else if a = 0 then NaN else if 0 < a then PInf else NInf)"
  by (simp add: divide_jsnum_def)

lemma Fin_neg [simp]: "- Fin a = Fin (- a)"
  by (simp add: uminus_jsnum_def)

lemma Fin_less [simp]: "(Fin a < Fin b) = (a < b)"
  by (simp add: less_jsnum_def)

lemma Fin_less_eq [simp]: "(Fin a \<le> Fin b) = (a \<le> b)"
  by (simp add: less_eq_jsnum_def)

lemma NaN_arith [simp]:
  "NaN + x = NaN" "x + NaN = NaN" "NaN - x = NaN" "x - NaN = NaN"
  "NaN * x = NaN" "x * NaN = NaN" "NaN / x = NaN" "x / NaN = NaN" "- NaN = NaN"
  by (cases x; simp add: plus_jsnum_def minus_jsnum_def times_jsnum_def divide_jsnum_def
        uminus_jsnum_def)+

lemma NaN_compare [simp]:
  "\<not> NaN < x" "\<not> x < NaN" "\<not> NaN \<le> x" "\<not> x \<le> NaN"
  by (cases x; simp add: less_jsnum_def less_eq_jsnum_def)+

lemma Math_min_Fin [simp]: "Math_min (Fin a) (Fin b) = Fin (min a b)"
  by (simp add: min_def)

lemma Math_max_Fin [simp]: "Math_max (Fin a) (Fin b) = Fin (max a b)"
  by (simp add: max_def)

lemma Math_min_NaN [simp]: "Math_min x NaN = NaN"
  by (cases x) simp_all

lemma Math_max_NaN [simp]: "Math_max x NaN = NaN"
  by (cases x) simp_all

lemma div_Fin_one [simp]: "x / Fin 1 = x"
  by (cases x) (simp_all add: divide_jsnum_def)

lemma arr_get_in [simp]: "i < length xs \<Longrightarrow> arr_get xs i = xs ! i"
  by (simp add: arr_get_def)

lemma arr_set_in [simp]: "i < length xs \<Longrightarrow> arr_set xs i v = xs[i := v]"
  by (simp add: arr_set_def)

lemma length_mapi [simp]: "length (mapi f xs) = length xs"
  by (simp add: mapi_def)

lemma nth_mapi [simp]: "i < length xs \<Longrightarrow> mapi f xs ! i = f (xs ! i) i"
  by (simp add: mapi_def)

lemma foldl_upt_invariant:
  assumes "a \<le> b" and "P a s"
    and "\<And>i t. a \<le> i \<Longrightarrow> i < b \<Longrightarrow> P i t \<Longrightarrow> P (Suc i) (f t i)"
  shows "P b (foldl f s [a..<b])"
  using assms
proof (induction b)
  case 0
  then show ?case by simp
next
  case (Suc b)
  show ?case
  proof (cases "a = Suc b")
    case True
    with Suc.prems show ?thesis by simp
  next
    case False
    with Suc.prems have ab: "a \<le> b" by simp
    have "P b (foldl f s [a..<b])"
      using Suc.IH [OF ab Suc.prems(2)] Suc.prems(3) by simp
    with ab Suc.prems(3) show ?thesis by simp
  qed
qed

text \<open>A loop that writes one entry per period from a carried value.\<close>

lemma fill_loop:
  assumes stp: "\<And>st i. stp st i = (arr_set (fst st) i (out (snd st) i), nxt (snd st) i)"
    and k: "k \<le> length arr"
  shows "foldl stp (arr, c) [0..<k] =
           (map (\<lambda>j. out (foldl nxt c [0..<j]) j) [0..<k] @ drop k arr, foldl nxt c [0..<k])"
  using k
proof (induction k)
  case 0
  then show ?case by simp
next
  case (Suc k)
  then have IH: "foldl stp (arr, c) [0..<k] =
      (map (\<lambda>j. out (foldl nxt c [0..<j]) j) [0..<k] @ drop k arr, foldl nxt c [0..<k])"
    and kl: "k < length arr" by simp_all
  let ?A = "map (\<lambda>j. out (foldl nxt c [0..<j]) j) [0..<k]"
  let ?B = "foldl nxt c [0..<k]"
  have upd: "(?A @ drop k arr)[k := v] = ?A @ v # drop (Suc k) arr" for v
    using kl by (simp add: list_update_append Cons_nth_drop_Suc [symmetric])
  have "foldl stp (arr, c) [0..<Suc k] = stp (foldl stp (arr, c) [0..<k]) k"
    by simp
  also have "\<dots> = stp (?A @ drop k arr, ?B) k"
    by (simp only: IH)
  also have "\<dots> = (arr_set (?A @ drop k arr) k (out ?B k), nxt ?B k)"
    by (simp only: stp fst_conv snd_conv)
  also have "\<dots> = (?A @ out ?B k # drop (Suc k) arr, nxt ?B k)"
    using kl upd by simp
  finally show ?case by simp
qed

lemma fill_loop_full:
  assumes stp: "\<And>st i. stp st i = (arr_set (fst st) i (out (snd st) i), nxt (snd st) i)"
  shows "fst (foldl stp (replicate n z, c) [0..<n]) = map (\<lambda>j. out (foldl nxt c [0..<j]) j) [0..<n]"
  using fill_loop [OF stp, of n "replicate n z" c] by simp

subsection \<open>Running balances\<close>

lemma calculateEndingCash_eq:
  "calculateEndingCash ncf =
     map (\<lambda>j. foldl (\<lambda>c i. c + arr_get ncf i) (Fin 50000) [0..<Suc j]) [0..<length ncf]"
proof -
  have "fst (foldl (endingCash_step ncf) (replicate (length ncf) (Fin 0), Fin 50000) [0..<length ncf])
      = map (\<lambda>j. (\<lambda>c i. c + arr_get ncf i) (foldl (\<lambda>c i. c + arr_get ncf i) (Fin 50000) [0..<j]) j)
          [0..<length ncf]"
    by (rule fill_loop_full) (simp add: endingCash_step_def Let_def)
  then show ?thesis by (simp add: calculateEndingCash_def)
qed

lemma length_calculateEndingCash [simp]: "length (calculateEndingCash ncf) = length ncf"
  by (simp add: calculateEndingCash_eq)

lemma calculateEndingCash_0:
  "0 < length ncf \<Longrightarrow> calculateEndingCash ncf ! 0 = Fin 50000 + ncf ! 0"
  by (simp add: calculateEndingCash_eq)


lemma calculateCashBalance_eq:
  "calculateCashBalance ist n =
     map (\<lambda>j. foldl (\<lambda>c i. c + arr_get (netIncome ist) i) (Fin 50000) [0..<j]) [0..<n]"
proof -
  have "fst (foldl (cashBalance_step (netIncome ist)) (replicate n (Fin 0), Fin 50000) [0..<n])
      = map (\<lambda>j. (\<lambda>c i. c) (foldl (\<lambda>c i. c + arr_get (netIncome ist) i) (Fin 50000) [0..<j]) j)
          [0..<n]"
    by (rule fill_loop_full) (simp add: cashBalance_step_def)
  then show ?thesis by (simp add: calculateCashBalance_def)
qed

lemma calculateRetainedEarnings_eq:
  "calculateRetainedEarnings ist =
     map (\<lambda>j. foldl (\<lambda>c i. c + arr_get (netIncome ist) i) (Fin 0) [0..<Suc j])
       [0..<is_periods ist]"
proof -
  have "fst (foldl (retainedEarnings_step (netIncome ist))
               (replicate (is_periods ist) (Fin 0), Fin 0) [0..<is_periods ist])
      = map (\<lambda>j. (\<lambda>c i. c + arr_get (netIncome ist) i)
                    (foldl (\<lambda>c i. c + arr_get (netIncome ist) i) (Fin 0) [0..<j]) j)
          [0..<is_periods ist]"
    by (rule fill_loop_full) (simp add: retainedEarnings_step_def Let_def)
  then show ?thesis by (simp add: calculateRetainedEarnings_def)
qed

subsection \<open>Revenue\<close>

lemma calculateRevenue_eq:
  "calculateRevenue inputs n =
     map (\<lambda>j. foldl (\<lambda>c i. c * (Fin 1 + growthRateAt (revenueGrowth inputs) i / Fin 12))
                 (Fin 100000) [0..<j]) [0..<n]"
proof -
  have "fst (foldl (revenue_step inputs) (replicate n (Fin 0), Fin 100000) [0..<n])
      = map (\<lambda>j. (\<lambda>c i. c)
                    (foldl (\<lambda>c i. c * (Fin 1 + growthRateAt (revenueGrowth inputs) i / Fin 12))
                       (Fin 100000) [0..<j]) j) [0..<n]"
    by (rule fill_loop_full) (simp add: revenue_step_def Let_def)
  then show ?thesis by (simp add: calculateRevenue_def)
qed

lemma te_calculateRevenue_eq:
  "te_calculateRevenue processed n =
     map (\<lambda>j. foldl (\<lambda>c i. c * (Fin 1 + val_or (member processed ''revenue_growth_rate'') 0 / Fin 12))
                 (val_or (member processed ''initial_revenue'') 100000) [0..<j]) [0..<n]"
proof -
  have "fst (foldl (te_revenue_step (val_or (member processed ''revenue_growth_rate'') 0))
               (replicate n (Fin 0), val_or (member processed ''initial_revenue'') 100000) [0..<n])
      = map (\<lambda>j. (\<lambda>c i. c)
                    (foldl (\<lambda>c i. c * (Fin 1 + val_or (member processed ''revenue_growth_rate'') 0 / Fin 12))
                       (val_or (member processed ''initial_revenue'') 100000) [0..<j]) j) [0..<n]"
    by (rule fill_loop_full) (simp add: te_revenue_step_def)
  then show ?thesis by (simp add: te_calculateRevenue_def)
qed

lemma foldl_mul_Fin:
  "foldl (\<lambda>c i. c * Fin q) (Fin a) [0..<j] = Fin (a * q ^ j)"
  by (induction j) (simp_all add: mult.assoc)

lemma val_or_Fin: "\<exists>x. val_or v d = Fin x"
  by (cases v) simp_all

subsection \<open>The debt schedule\<close>

lemma debt_step_fields:
  assumes len: "length (debt_beginningBalance t) = n"
        "length (debt_interestPayments t) = n" "length (debt_principalPayments t) = n"
        "length (debt_endingBalance t) = n" and i: "i < n"
  shows "debt_beginningBalance (debt_step r pay t i) =
           (debt_beginningBalance t)[i := arr_get (debt_endingBalance t) (i - 1)]"
    and "debt_interestPayments (debt_step r pay t i) =
           (debt_interestPayments t)[i := arr_get (debt_endingBalance t) (i - 1) * r]"
    and "debt_principalPayments (debt_step r pay t i) =
           (debt_principalPayments t)[i := Math_min (pay - arr_get (debt_endingBalance t) (i - 1) * r)
                                          (arr_get (debt_endingBalance t) (i - 1))]"
    and "debt_endingBalance (debt_step r pay t i) =
           (debt_endingBalance t)[i := arr_get (debt_endingBalance t) (i - 1)
               - Math_min (pay - arr_get (debt_endingBalance t) (i - 1) * r)
                                          (arr_get (debt_endingBalance t) (i - 1))]"
    and "debt_periods (debt_step r pay t i) = debt_periods t"
    and "debt_newDebt (debt_step r pay t i) = debt_newDebt t"
  using len i by (simp_all add: debt_step_def Let_def)

lemma debt_init:
  "0 < n \<Longrightarrow> debt_head_ok n p0
     \<lparr>debt_periods = n,
      debt_beginningBalance = arr_set (replicate n (Fin 0)) 0 p0,
      debt_newDebt = replicate n (Fin 0),
      debt_principalPayments = replicate n (Fin 0),
      debt_interestPayments = replicate n (Fin 0),
      debt_endingBalance = arr_set (replicate n (Fin 0)) 0 p0\<rparr>"
  by (simp add: debt_head_ok_def)

lemma debt_step_head:
  assumes "1 \<le> i" "i < n" "debt_head_ok n p0 t"
  shows "debt_head_ok n p0 (debt_step r pay t i)"
proof -
  from assms(3) have len: "length (debt_beginningBalance t) = n"
      "length (debt_interestPayments t) = n" "length (debt_principalPayments t) = n"
      "length (debt_endingBalance t) = n"
    by (simp_all add: debt_head_ok_def)
  note f = debt_step_fields [OF len \<open>i < n\<close>, of r pay]
  show ?thesis
    using assms by (simp add: debt_head_ok_def f)
qed

lemma debt_step_row_new:
  assumes "1 \<le> i" "i < n" "debt_head_ok n p0 t"
  shows "debt_row_ok r pay (debt_step r pay t i) i"
proof -
  from assms(3) have len: "length (debt_beginningBalance t) = n"
      "length (debt_interestPayments t) = n" "length (debt_principalPayments t) = n"
      "length (debt_endingBalance t) = n"
    by (simp_all add: debt_head_ok_def)
  note f = debt_step_fields [OF len \<open>i < n\<close>, of r pay]
  show ?thesis
    using assms(1,2) len by (simp add: debt_row_ok_def f)
qed

lemma debt_step_row_old:
  assumes "1 \<le> j" "j < i" "i < n" "debt_head_ok n p0 t" "debt_row_ok r pay t j"
  shows "debt_row_ok r pay (debt_step r pay t i) j"
proof -
  from assms(4) have len: "length (debt_beginningBalance t) = n"
      "length (debt_interestPayments t) = n" "length (debt_principalPayments t) = n"
      "length (debt_endingBalance t) = n"
    by (simp_all add: debt_head_ok_def)
  note f = debt_step_fields [OF len \<open>i < n\<close>, of r pay]
  from assms(1,2) have ne: "j \<noteq> i" "j - 1 \<noteq> i" by simp_all
  show ?thesis
    using assms(5) ne by (simp add: debt_row_ok_def f)
qed

lemma debt_loop_invariant:
  assumes n: "0 < n"
  shows "debt_head_ok n (Fin (initialDebt (debtStructure inputs))) (generateDebtSchedule inputs n) \<and>
         (\<forall>j. 1 \<le> j \<and> j < n \<longrightarrow>
            debt_row_ok (monthlyRate inputs) (totalPayments inputs) (generateDebtSchedule inputs n) j)"
proof -
  define r where "r = monthlyRate inputs"
  define pay where "pay = totalPayments inputs"
  define p0 where "p0 = Fin (initialDebt (debtStructure inputs))"
  define P where "P = (\<lambda>(k::nat) s. debt_head_ok n p0 s \<and> (\<forall>j. 1 \<le> j \<and> j < k \<longrightarrow> debt_row_ok r pay s j))"
  define s0 where "s0 =
     \<lparr>debt_periods = n,
      debt_beginningBalance = arr_set (replicate n (Fin 0)) 0 p0,
      debt_newDebt = replicate n (Fin 0),
      debt_principalPayments = replicate n (Fin 0),
      debt_interestPayments = replicate n (Fin 0),
      debt_endingBalance = arr_set (replicate n (Fin 0)) 0 p0\<rparr>"
  have init: "P 1 s0"
    unfolding P_def s0_def using debt_init [OF n] by simp
  have step: "P (Suc i) (debt_step r pay t i)" if "1 \<le> i" "i < n" "P i t" for i t
  proof -
    from \<open>P i t\<close> have Ht: "debt_head_ok n p0 t"
      and old: "\<And>j. 1 \<le> j \<Longrightarrow> j < i \<Longrightarrow> debt_row_ok r pay t j"
      by (simp_all add: P_def)
    have "debt_row_ok r pay (debt_step r pay t i) j" if j: "1 \<le> j" "j < Suc i" for j
    proof (cases "j = i")
      case True
      then show ?thesis
        using debt_step_row_new [OF \<open>1 \<le> i\<close> \<open>i < n\<close> Ht] by simp
    next
      case False
      with j have ji: "j < i" by simp
      show ?thesis
        by (rule debt_step_row_old [OF j(1) ji \<open>i < n\<close> Ht old [OF j(1) ji]])
    qed
    with debt_step_head [OF \<open>1 \<le> i\<close> \<open>i < n\<close> Ht] show ?thesis
      by (simp add: P_def)
  qed
  have "P n (foldl (debt_step r pay) s0 [1..<n])"
  proof (rule foldl_upt_invariant [where P = P and a = 1 and b = n])
    show "1 \<le> n" using n by simp
    show "P 1 s0" by (rule init)
    show "P (Suc i) (debt_step r pay t i)" if "1 \<le> i" "i < n" "P i t" for i t
      using that by (rule step)
  qed
  then show ?thesis
    unfolding generateDebtSchedule_def P_def s0_def r_def pay_def p0_def .
qed

subsection \<open>The working-capital schedule\<close>

lemma replicate_update_same [simp]: "(replicate n x)[i := x] = replicate n x"
  by (induction n arbitrary: i) (simp_all split: nat.split)

lemma wc_step_fields:
  assumes len: "length (wc_accountsReceivable t) = n" "length (wc_inventory t) = n"
      "length (wc_accountsPayable t) = n" "length (wc_netWorkingCapital t) = n"
      "length (wc_changeInWorkingCapital t) = n"
    and i: "i < n"
  shows "wc_accountsReceivable (workingCapital_step inputs t i) =
           (wc_accountsReceivable t)
             [i := monthlyRevenue * daysSalesOutstanding (workingCapital inputs) / Fin 30]"
    and "wc_inventory (workingCapital_step inputs t i) =
           (wc_inventory t)
             [i := monthlyCOGS * daysInventoryOutstanding (workingCapital inputs) / Fin 30]"
    and "wc_accountsPayable (workingCapital_step inputs t i) =
           (wc_accountsPayable t)
             [i := monthlyCOGS * daysPayablesOutstanding (workingCapital inputs) / Fin 30]"
    and "wc_netWorkingCapital (workingCapital_step inputs t i) =
           (wc_netWorkingCapital t)
             [i := monthlyRevenue * daysSalesOutstanding (workingCapital inputs) / Fin 30
                   + monthlyCOGS * daysInventoryOutstanding (workingCapital inputs) / Fin 30
                   - monthlyCOGS * daysPayablesOutstanding (workingCapital inputs) / Fin 30]"
    and "wc_changeInWorkingCapital (workingCapital_step inputs t i) =
           (if 0 < i
            then (wc_changeInWorkingCapital t)
                   [i := monthlyRevenue * daysSalesOutstanding (workingCapital inputs) / Fin 30
                         + monthlyCOGS * daysInventoryOutstanding (workingCapital inputs) / Fin 30
                         - monthlyCOGS * daysPayablesOutstanding (workingCapital inputs) / Fin 30
                         - wc_netWorkingCapital t ! (i - 1)]
            else wc_changeInWorkingCapital t)"
    and "wc_periods (workingCapital_step inputs t i) = wc_periods t"
  using len i
  by (simp_all add: workingCapital_step_def Let_def)

lemma take_Suc_update:
  "k < length xs \<Longrightarrow> take (Suc k) (xs[k := v]) = take k xs @ [v]"
  by (simp add: take_Suc_conv_app_nth)

lemma replicate_Suc_snoc: "replicate k v @ [v] = replicate (Suc k) v"
  by (simp add: replicate_append_same)

lemma nth_of_take_replicate:
  "take k xs = replicate k v \<Longrightarrow> j < k \<Longrightarrow> xs ! j = v"
  by (metis nth_replicate nth_take)

text \<open>
  The entries of the change array after \<open>k\<close> periods of the loop: the entry of period 0 is
  never written, a later entry is the difference \<open>z\<close> of two equal levels.
\<close>

lemma change_prefix_first:
  "0 < n \<Longrightarrow> (replicate (Suc 0) z @ replicate (n - Suc 0) (Fin 0))[0 := Fin 0] = replicate n (Fin 0)"
  by (cases n) simp_all

lemma change_prefix_step:
  assumes "0 < i" "i < n"
  shows "((replicate i z @ replicate (n - i) y)[0 := v])[i := z] =
         (replicate (Suc i) z @ replicate (n - Suc i) y)[0 := v]"
  using assms
  by (auto simp add: list_eq_iff_nth_eq nth_list_update nth_append)

lemma workingCapital_schedule_eq:
  "generateWorkingCapitalSchedule inputs n =
     \<lparr>wc_periods = n,
      wc_accountsReceivable =
        replicate n (monthlyRevenue * daysSalesOutstanding (workingCapital inputs) / Fin 30),
      wc_inventory =
        replicate n (monthlyCOGS * daysInventoryOutstanding (workingCapital inputs) / Fin 30),
      wc_accountsPayable =
        replicate n (monthlyCOGS * daysPayablesOutstanding (workingCapital inputs) / Fin 30),
      wc_netWorkingCapital =
        replicate n (monthlyRevenue * daysSalesOutstanding (workingCapital inputs) / Fin 30
                     + monthlyCOGS * daysInventoryOutstanding (workingCapital inputs) / Fin 30
                     - monthlyCOGS * daysPayablesOutstanding (workingCapital inputs) / Fin 30),
      wc_changeInWorkingCapital =
        (replicate n
           (monthlyRevenue * daysSalesOutstanding (workingCapital inputs) / Fin 30
            + monthlyCOGS * daysInventoryOutstanding (workingCapital inputs) / Fin 30
            - monthlyCOGS * daysPayablesOutstanding (workingCapital inputs) / Fin 30
            - (monthlyRevenue * daysSalesOutstanding (workingCapital inputs) / Fin 30
               + monthlyCOGS * daysInventoryOutstanding (workingCapital inputs) / Fin 30
               - monthlyCOGS * daysPayablesOutstanding (workingCapital inputs) / Fin 30)))
          [0 := Fin 0]\<rparr>"
proof -
  define a where "a = monthlyRevenue * daysSalesOutstanding (workingCapital inputs) / Fin 30"
  define b where "b = monthlyCOGS * daysInventoryOutstanding (workingCapital inputs) / Fin 30"
  define c where "c = monthlyCOGS * daysPayablesOutstanding (workingCapital inputs) / Fin 30"
  define w where "w = a + b - c"
  define z where "z = w - w"
  define P where "P = (\<lambda>(k::nat) (s::WorkingCapitalSchedule).
     wc_periods s = n \<and>
     length (wc_accountsReceivable s) = n \<and> length (wc_inventory s) = n \<and>
     length (wc_accountsPayable s) = n \<and> length (wc_netWorkingCapital s) = n \<and>
     wc_changeInWorkingCapital s = (replicate k z @ replicate (n - k) (Fin 0))[0 := Fin 0] \<and>
     take k (wc_accountsReceivable s) = replicate k a \<and>
     take k (wc_inventory s) = replicate k b \<and>
     take k (wc_accountsPayable s) = replicate k c \<and>
     take k (wc_netWorkingCapital s) = replicate k w)"
  define s0 where "s0 =
       \<lparr>wc_periods = n,
        wc_accountsReceivable = replicate n (Fin 0),
        wc_inventory = replicate n (Fin 0),
        wc_accountsPayable = replicate n (Fin 0),
        wc_netWorkingCapital = replicate n (Fin 0),
        wc_changeInWorkingCapital = replicate n (Fin 0)\<rparr>"
  have "P n (foldl (workingCapital_step inputs) s0 [0..<n])"
  proof (rule foldl_upt_invariant [where P = P and a = 0 and b = n])
    show "0 \<le> n" by simp
    show "P 0 s0" by (simp add: P_def s0_def)
    show "P (Suc i) (workingCapital_step inputs t i)" if "0 \<le> i" "i < n" "P i t" for i t
    proof -
      from \<open>P i t\<close> have chg: "wc_changeInWorkingCapital t =
            (replicate i z @ replicate (n - i) (Fin 0))[0 := Fin 0]"
        and per: "wc_periods t = n"
        and len4: "length (wc_accountsReceivable t) = n" "length (wc_inventory t) = n"
          "length (wc_accountsPayable t) = n" "length (wc_netWorkingCapital t) = n"
        and tk: "take i (wc_accountsReceivable t) = replicate i a"
          "take i (wc_inventory t) = replicate i b"
          "take i (wc_accountsPayable t) = replicate i c"
          "take i (wc_netWorkingCapital t) = replicate i w"
        by (simp_all add: P_def)
      from chg \<open>i < n\<close> have len5: "length (wc_changeInWorkingCapital t) = n" by simp
      note f = wc_step_fields [OF len4 len5 \<open>i < n\<close>, of inputs,
          folded a_def b_def c_def, folded w_def]
      have prev: "wc_netWorkingCapital t ! (i - 1) = w" if "0 < i"
        using nth_of_take_replicate [OF tk(4), of "i - 1"] that by simp
      have chg': "wc_changeInWorkingCapital (workingCapital_step inputs t i) =
            (replicate (Suc i) z @ replicate (n - Suc i) (Fin 0))[0 := Fin 0]"
      proof (cases "0 < i")
        case True
        have "wc_changeInWorkingCapital (workingCapital_step inputs t i) =
                ((replicate i z @ replicate (n - i) (Fin 0))[0 := Fin 0])[i := z]"
          using True by (simp only: f(5) chg prev [OF True] z_def if_True)
        also have "\<dots> = (replicate (Suc i) z @ replicate (n - Suc i) (Fin 0))[0 := Fin 0]"
          by (rule change_prefix_step [OF True \<open>i < n\<close>])
        finally show ?thesis .
      next
        case False
        then have i0: "i = 0" by simp
        have "wc_changeInWorkingCapital (workingCapital_step inputs t i) = replicate n (Fin 0)"
          using f(5) chg by (simp add: i0)
        also have "\<dots> = (replicate (Suc i) z @ replicate (n - Suc i) (Fin 0))[0 := Fin 0]"
          using change_prefix_first [of n z] \<open>i < n\<close> by (simp add: i0)
        finally show ?thesis .
      qed
      have rest: "wc_periods (workingCapital_step inputs t i) = n \<and>
         length (wc_accountsReceivable (workingCapital_step inputs t i)) = n \<and>
         length (wc_inventory (workingCapital_step inputs t i)) = n \<and>
         length (wc_accountsPayable (workingCapital_step inputs t i)) = n \<and>
         length (wc_netWorkingCapital (workingCapital_step inputs t i)) = n \<and>
         take (Suc i) (wc_accountsReceivable (workingCapital_step inputs t i)) = replicate (Suc i) a \<and>
         take (Suc i) (wc_inventory (workingCapital_step inputs t i)) = replicate (Suc i) b \<and>
         take (Suc i) (wc_accountsPayable (workingCapital_step inputs t i)) = replicate (Suc i) c \<and>
         take (Suc i) (wc_netWorkingCapital (workingCapital_step inputs t i)) = replicate (Suc i) w"
        using \<open>i < n\<close> len4 per tk
        by (simp add: f(1-4,6) take_Suc_update replicate_Suc_snoc del: replicate_Suc)
      show ?thesis
        unfolding P_def using rest chg' by blast
    qed
  qed
  then have Pn: "P n (generateWorkingCapitalSchedule inputs n)"
    by (simp add: generateWorkingCapitalSchedule_def s0_def)
  define s where "s = generateWorkingCapitalSchedule inputs n"
  from Pn have len: "length (wc_accountsReceivable s) = n" "length (wc_inventory s) = n"
      "length (wc_accountsPayable s) = n" "length (wc_netWorkingCapital s) = n"
    and per: "wc_periods s = n"
    and chg: "wc_changeInWorkingCapital s = (replicate n z)[0 := Fin 0]"
    and tk: "take n (wc_accountsReceivable s) = replicate n a"
      "take n (wc_inventory s) = replicate n b"
      "take n (wc_accountsPayable s) = replicate n c"
      "take n (wc_netWorkingCapital s) = replicate n w"
    by (simp_all add: P_def s_def)
  from tk len have full: "wc_accountsReceivable s = replicate n a"
      "wc_inventory s = replicate n b" "wc_accountsPayable s = replicate n c"
      "wc_netWorkingCapital s = replicate n w"
    by simp_all
  have "s = \<lparr>wc_periods = n, wc_accountsReceivable = replicate n a,
             wc_inventory = replicate n b, wc_accountsPayable = replicate n c,
             wc_netWorkingCapital = replicate n w,
             wc_changeInWorkingCapital = (replicate n z)[0 := Fin 0]\<rparr>"
    by (rule WorkingCapitalSchedule.equality) (simp_all add: per chg full)
  then show ?thesis
    unfolding s_def z_def w_def a_def b_def c_def .
qed

lemma finite_self_difference: "finite_num w \<Longrightarrow> w - w = Fin 0"
  by (cases w) simp_all

lemma nonfinite_self_difference: "\<not> finite_num w \<Longrightarrow> w - w = NaN"
  by (cases w) (simp_all add: minus_jsnum_def)

lemma monthlyCOGS_value: "monthlyCOGS = Fin 60000"
  by (simp add: monthlyCOGS_def monthlyRevenue_def)

subsection \<open>The depreciation schedule\<close>

lemma depreciation_step_fields:
  assumes h: "dep_head_ok n a t" and i: "i < n"
  shows "dep_beginningBalance (fst (depreciation_step inputs (t, c) i)) =
           (dep_beginningBalance t)[i := c]"
    and "dep_depreciation (fst (depreciation_step inputs (t, c) i)) =
           (dep_depreciation t)[i := (c + a) * (Fin (depreciationRate (capex inputs)) / Fin 12)]"
    and "dep_endingBalance (fst (depreciation_step inputs (t, c) i)) =
           (dep_endingBalance t)
             [i := c + a - (c + a) * (Fin (depreciationRate (capex inputs)) / Fin 12)]"
    and "dep_additions (fst (depreciation_step inputs (t, c) i)) = dep_additions t"
    and "dep_periods (fst (depreciation_step inputs (t, c) i)) = dep_periods t"
    and "snd (depreciation_step inputs (t, c) i) =
           c + a - (c + a) * (Fin (depreciationRate (capex inputs)) / Fin 12)"
  using h i by (simp_all add: depreciation_step_def Let_def dep_head_ok_def)

lemma depreciation_loop_invariant:
  "dep_head_ok n (Fin (annualCapex (capex inputs)) / Fin 12) (generateDepreciationSchedule inputs n) \<and>
   (\<forall>j<n. dep_row_ok (Fin (annualCapex (capex inputs)) / Fin 12)
             (Fin (depreciationRate (capex inputs)) / Fin 12)
             (generateDepreciationSchedule inputs n) j)"
proof -
  define a where "a = Fin (annualCapex (capex inputs)) / Fin 12"
  define rate where "rate = Fin (depreciationRate (capex inputs)) / Fin 12"
  define P where "P = (\<lambda>(k::nat) (st :: DepreciationSchedule \<times> jsnum).
     dep_head_ok n a (fst st) \<and> (\<forall>j<k. dep_row_ok a rate (fst st) j) \<and>
     snd st = (if k = 0 then Fin 0 else dep_endingBalance (fst st) ! (k - 1)))"
  define s0 where "s0 =
       \<lparr>dep_periods = n,
         dep_beginningBalance = replicate n (Fin 0),
         dep_additions = replicate n (Fin (annualCapex (capex inputs)) / Fin 12),
         dep_depreciation = replicate n (Fin 0),
         dep_endingBalance = replicate n (Fin 0)\<rparr>"
  have "P n (foldl (depreciation_step inputs) (s0, Fin 0) [0..<n])"
  proof (rule foldl_upt_invariant [where P = P and a = 0 and b = n])
    show "0 \<le> n" by simp
    show "P 0 (s0, Fin 0)" by (simp add: P_def s0_def dep_head_ok_def a_def)
    show "P (Suc i) (depreciation_step inputs st i)" if "0 \<le> i" "i < n" "P i st" for i st
    proof -
      obtain t c where st: "st = (t, c)" by (cases st)
      from \<open>P i st\<close> have h: "dep_head_ok n a t"
        and old: "\<And>j. j < i \<Longrightarrow> dep_row_ok a rate t j"
        and c: "c = (if i = 0 then Fin 0 else dep_endingBalance t ! (i - 1))"
        by (auto simp add: P_def st)
      note f = depreciation_step_fields [OF h, of _ inputs, folded rate_def]
      from h have len: "length (dep_beginningBalance t) = n" "length (dep_depreciation t) = n"
          "length (dep_endingBalance t) = n"
        by (simp_all add: dep_head_ok_def)
      have h': "dep_head_ok n a (fst (depreciation_step inputs (t, c) i))"
        using h \<open>i < n\<close> by (simp add: dep_head_ok_def f)
      have rows: "dep_row_ok a rate (fst (depreciation_step inputs (t, c) i)) j"
        if j: "j < Suc i" for j
      proof (cases "j = i")
        case True
        show ?thesis
        proof (cases "i = 0")
          case True
          with c have "c = Fin 0" by simp
          with \<open>j = i\<close> \<open>i = 0\<close> \<open>i < n\<close> len show ?thesis
            by (simp add: dep_row_ok_def f)
        next
          case False
          with c have "dep_endingBalance t ! (i - 1) = c" by simp
          with \<open>j = i\<close> \<open>i \<noteq> 0\<close> \<open>i < n\<close> len show ?thesis
            by (simp add: dep_row_ok_def f)
        qed
      next
        case False
        with j have ji: "j < i" by simp
        then have ne: "j \<noteq> i" "j - 1 \<noteq> i" by simp_all
        show ?thesis
          using old [OF ji] ne \<open>i < n\<close> by (simp add: dep_row_ok_def f)
      qed
      have acc: "snd (depreciation_step inputs (t, c) i) =
                   dep_endingBalance (fst (depreciation_step inputs (t, c) i)) ! i"
        using \<open>i < n\<close> len by (simp add: f)
      show ?thesis
        unfolding P_def st using h' rows acc by simp
    qed
  qed
  then show ?thesis
    unfolding generateDepreciationSchedule_def P_def s0_def a_def rate_def by simp
qed

subsection \<open>The template engine\<close>

lemma digit_of_simps [simp]:
  "digit_of CHR ''0'' = Some 0" "digit_of CHR ''1'' = Some 1" "digit_of CHR ''2'' = Some 2"
  "digit_of CHR ''3'' = Some 3" "digit_of CHR ''4'' = Some 4" "digit_of CHR ''5'' = Some 5"
  "digit_of CHR ''6'' = Some 6" "digit_of CHR ''7'' = Some 7" "digit_of CHR ''8'' = Some 8"
  "digit_of CHR ''9'' = Some 9"
  by (simp_all add: digit_of_def)

lemma val_or_the_fin: "val_or v d = Fin (the_fin (val_or v d))"
  by (cases v) simp_all

lemma te_calculateRevenue_length [simp]: "length (te_calculateRevenue p n) = n"
  by (simp add: te_calculateRevenue_eq)

lemma te_calculateRevenue_nth:
  "j < n \<Longrightarrow> te_calculateRevenue p n ! j =
     Fin (the_fin (val_or (member p ''initial_revenue'') 100000)
          * (1 + the_fin (val_or (member p ''revenue_growth_rate'') 0) / 12) ^ j)"
proof -
  obtain g where g: "val_or (member p ''revenue_growth_rate'') 0 = Fin g"
    using val_or_Fin by blast
  obtain r0 where r0: "val_or (member p ''initial_revenue'') 100000 = Fin r0"
    using val_or_Fin by blast
  assume "j < n"
  then show ?thesis
    by (simp add: te_calculateRevenue_eq g r0 foldl_mul_Fin)
qed

subsection \<open>Schedules of a template\<close>

lemma foldl_map_upd_None:
  "(foldl (\<lambda>m d. m(key d \<mapsto> val d)) m0 ds) k = None \<longleftrightarrow> m0 k = None \<and> k \<notin> key ` set ds"
  by (induction ds arbitrary: m0) auto

lemma calculateSchedules_None:
  "calculateSchedules t p k = None \<longleftrightarrow> k \<notin> schedule_id ` set (schedule_defs t)"
  by (simp add: calculateSchedules_def foldl_map_upd_None)

lemma add_sub_zero [simp]: "x + Fin 0 - Fin 0 = (x::jsnum)"
  by (cases x) (simp_all add: plus_jsnum_def minus_jsnum_def)

lemma map_err_Inr: "(\<And>i. i \<in> set is \<Longrightarrow> f i = Inr (g i)) \<Longrightarrow> map_err f is = Inr (map g is)"
  by (induction "is") simp_all

lemma te_operatingCashFlow_plain:
  assumes "schs ''depreciation'' = None" "schs ''workingCapital'' = None"
  shows "te_operatingCashFlow schs ist = Inr (netIncome ist)"
proof -
  have "te_operatingCashFlow schs ist =
          Inr (map (\<lambda>i. netIncome ist ! i) [0..<length (netIncome ist)])"
    unfolding te_operatingCashFlow_def
    by (rule map_err_Inr) (simp add: schedule_entry_def assms num_or_def)
  then show ?thesis by (simp add: map_nth)
qed

lemma te_generateCashFlowStatement_plain:
  assumes "schs ''depreciation'' = None" "schs ''workingCapital'' = None"
  shows "te_generateCashFlowStatement p schs ist bsh n =
     Inr \<lparr>cf_periods = n,
          operatingCashFlow = netIncome ist,
          investingCashFlow = replicate n (Fin 0),
          financingCashFlow = schedule_array_or_zeros schs ''debt'' ''netCashFlow'' n,
          netCashFlow = mapi (\<lambda>x i. x + arr_get (replicate n (Fin 0)) i
                          + arr_get (schedule_array_or_zeros schs ''debt'' ''netCashFlow'' n) i)
                         (netIncome ist),
          endingCash = calculateEndingCash
                         (mapi (\<lambda>x i. x + arr_get (replicate n (Fin 0)) i
                          + arr_get (schedule_array_or_zeros schs ''debt'' ''netCashFlow'' n) i)
                         (netIncome ist))\<rparr>"
  by (simp add: te_generateCashFlowStatement_def te_operatingCashFlow_plain [OF assms]
        te_investingCashFlow_def assms Let_def)

lemma applyTemplate_plain:
  assumes p: "processInputs t raw = Inr p"
    and d: "''depreciation'' \<notin> schedule_id ` set (schedule_defs t)"
    and w: "''workingCapital'' \<notin> schedule_id ` set (schedule_defs t)"
  shows "applyTemplate t raw =
     Inr \<lparr>incomeStatement = te_generateIncomeStatement p (calculateSchedules t p) 60,
          balanceSheet = te_generateBalanceSheet p (calculateSchedules t p)
                           (te_generateIncomeStatement p (calculateSchedules t p) 60) 60,
          cashFlowStatement =
            projr (te_generateCashFlowStatement p (calculateSchedules t p)
                     (te_generateIncomeStatement p (calculateSchedules t p) 60)
                     (te_generateBalanceSheet p (calculateSchedules t p)
                           (te_generateIncomeStatement p (calculateSchedules t p) 60) 60) 60),
          schedules = calculateSchedules t p,
          scenarios = te_generateScenarios,
          auditChecks = te_generateAuditChecks t\<rparr>"
proof -
  have "calculateSchedules t p ''depreciation'' = None"
       "calculateSchedules t p ''workingCapital'' = None"
    using d w by (simp_all add: calculateSchedules_None)
  then show ?thesis
    by (simp add: applyTemplate_def p Let_def te_generateCashFlowStatement_plain)
qed

subsection \<open>Finite arrays\<close>

lemma finite_num_iff: "finite_num x \<longleftrightarrow> (\<exists>a. x = Fin a)"
  by (cases x) simp_all

lemma finite_arith [simp]:
  "finite_num x \<Longrightarrow> finite_num y \<Longrightarrow> finite_num (x + y)"
  "finite_num x \<Longrightarrow> finite_num y \<Longrightarrow> finite_num (x - y)"
  "finite_num x \<Longrightarrow> finite_num y \<Longrightarrow> finite_num (x * y)"
  "finite_num x \<Longrightarrow> finite_num y \<Longrightarrow> finite_num (Math_min x y)"
  "finite_num x \<Longrightarrow> finite_num y \<Longrightarrow> finite_num (Math_max x y)"
  "finite_num x \<Longrightarrow> finite_num (- x)"
  "finite_num x \<Longrightarrow> c \<noteq> 0 \<Longrightarrow> finite_num (x / Fin c)"
  by (auto simp add: finite_num_iff)

lemma fin_arr_replicate [simp]: "finite_num v \<Longrightarrow> fin_arr n (replicate n v)"
  by (simp add: fin_arr_def)

lemma fin_arr_length: "fin_arr n xs \<Longrightarrow> length xs = n"
  by (simp add: fin_arr_def)

lemma fin_arr_nth: "fin_arr n xs \<Longrightarrow> i < n \<Longrightarrow> finite_num (xs ! i)"
  by (simp add: fin_arr_def)

lemma fin_arr_get [simp]: "fin_arr n xs \<Longrightarrow> i < n \<Longrightarrow> finite_num (arr_get xs i)"
  by (simp add: fin_arr_def)

lemma fin_arr_set [simp]:
  "fin_arr n xs \<Longrightarrow> i < n \<Longrightarrow> finite_num v \<Longrightarrow> fin_arr n (arr_set xs i v)"
  by (auto simp add: fin_arr_def dest: set_update_subset_insert [THEN subsetD])

lemma fin_arr_update [simp]:
  "fin_arr n xs \<Longrightarrow> finite_num v \<Longrightarrow> fin_arr n (xs[i := v])"
  by (auto simp add: fin_arr_def dest: set_update_subset_insert [THEN subsetD])

lemma fin_arr_map:
  "fin_arr n xs \<Longrightarrow> (\<And>x. finite_num x \<Longrightarrow> finite_num (f x)) \<Longrightarrow> fin_arr n (map f xs)"
  by (auto simp add: fin_arr_def)

lemma fin_arr_mapi:
  "fin_arr n xs \<Longrightarrow> (\<And>x i. finite_num x \<Longrightarrow> i < n \<Longrightarrow> finite_num (f x i))
     \<Longrightarrow> fin_arr n (mapi f xs)"
  by (auto simp add: fin_arr_def mapi_def)

lemma fin_arr_map_upt:
  "(\<And>j. j < n \<Longrightarrow> finite_num (g j)) \<Longrightarrow> fin_arr n (map g [0..<n])"
  by (auto simp add: fin_arr_def)

lemma finite_foldl:
  "finite_num c \<Longrightarrow> (\<And>x i. finite_num x \<Longrightarrow> i < k \<Longrightarrow> finite_num (nxt x i))
     \<Longrightarrow> finite_num (foldl nxt c [0..<k])"
  by (induction k) simp_all

lemma finite_sum_arr: "fin_arr n xs \<Longrightarrow> finite_num (sum_arr xs)"
proof -
  have "finite_num c \<Longrightarrow> \<forall>x\<in>set xs. finite_num x \<Longrightarrow> finite_num (foldl (+) c xs)" for c
    by (induction xs arbitrary: c) simp_all
  then show "fin_arr n xs \<Longrightarrow> finite_num (sum_arr xs)"
    by (simp add: sum_arr_def fin_arr_def)
qed

lemma fin_arr_take: "fin_arr n xs \<Longrightarrow> fin_arr (min k n) (take k xs)"
  by (auto simp add: fin_arr_def dest: in_set_takeD)

lemma fin_arrI:
  "length xs = n \<Longrightarrow> (\<And>j. j < n \<Longrightarrow> finite_num (xs ! j)) \<Longrightarrow> fin_arr n xs"
  by (auto simp add: fin_arr_def in_set_conv_nth)

lemma depreciation_finite:
  "fin_arr n (dep_beginningBalance (generateDepreciationSchedule inputs n)) \<and>
   fin_arr n (dep_additions (generateDepreciationSchedule inputs n)) \<and>
   fin_arr n (dep_depreciation (generateDepreciationSchedule inputs n)) \<and>
   fin_arr n (dep_endingBalance (generateDepreciationSchedule inputs n))"
proof -
  define s where "s = generateDepreciationSchedule inputs n"
  define a where "a = Fin (annualCapex (capex inputs)) / Fin 12"
  define rate where "rate = Fin (depreciationRate (capex inputs)) / Fin 12"
  have fa: "finite_num a" and fr: "finite_num rate"
    by (simp_all add: a_def rate_def)
  from depreciation_loop_invariant [of n inputs]
  have h: "dep_head_ok n a s" and rows: "\<And>j. j < n \<Longrightarrow> dep_row_ok a rate s j"
    by (simp_all add: s_def a_def rate_def)
  have fin: "finite_num (dep_beginningBalance s ! j) \<and> finite_num (dep_depreciation s ! j)
             \<and> finite_num (dep_endingBalance s ! j)" if "j < n" for j
    using that
  proof (induction j)
    case 0
    with rows [of 0] fa fr show ?case
      by (simp add: dep_row_ok_def)
  next
    case (Suc j)
    then have "finite_num (dep_endingBalance s ! j)" by simp
    with rows [OF Suc.prems] fa fr show ?case
      by (simp add: dep_row_ok_def)
  qed
  from h have len: "length (dep_beginningBalance s) = n" "length (dep_depreciation s) = n"
      "length (dep_endingBalance s) = n" and add: "dep_additions s = replicate n a"
    by (simp_all add: dep_head_ok_def)
  show ?thesis
    unfolding s_def [symmetric]
    using fin len fa by (auto intro!: fin_arrI simp add: add)
qed

lemma js_sign_inf_not_finite [simp]: "\<not> finite_num (js_sign_inf b)"
  by (cases b) simp_all

lemma finite_scaled [simp]:
  "c \<noteq> 0 \<Longrightarrow> d \<noteq> 0 \<Longrightarrow> finite_num (Fin c * x / Fin d) \<longleftrightarrow> finite_num x"
  by (cases x; cases "0 < c") (simp_all add: times_jsnum_def divide_jsnum_def)

lemma workingCapital_finite:
  assumes "finite_num (daysSalesOutstanding (workingCapital inputs))"
    "finite_num (daysInventoryOutstanding (workingCapital inputs))"
    "finite_num (daysPayablesOutstanding (workingCapital inputs))"
  shows "fin_arr n (wc_accountsReceivable (generateWorkingCapitalSchedule inputs n)) \<and>
   fin_arr n (wc_inventory (generateWorkingCapitalSchedule inputs n)) \<and>
   fin_arr n (wc_accountsPayable (generateWorkingCapitalSchedule inputs n)) \<and>
   fin_arr n (wc_netWorkingCapital (generateWorkingCapitalSchedule inputs n)) \<and>
   fin_arr n (wc_changeInWorkingCapital (generateWorkingCapitalSchedule inputs n))"
proof -
  have a: "finite_num (monthlyRevenue * daysSalesOutstanding (workingCapital inputs) / Fin 30)"
    and b: "finite_num (monthlyCOGS * daysInventoryOutstanding (workingCapital inputs) / Fin 30)"
    and c: "finite_num (monthlyCOGS * daysPayablesOutstanding (workingCapital inputs) / Fin 30)"
    using assms by (simp_all add: monthlyRevenue_def monthlyCOGS_value)
  then have w: "finite_num
     (monthlyRevenue * daysSalesOutstanding (workingCapital inputs) / Fin 30
      + monthlyCOGS * daysInventoryOutstanding (workingCapital inputs) / Fin 30
      - monthlyCOGS * daysPayablesOutstanding (workingCapital inputs) / Fin 30)"
    by simp
  show ?thesis
    by (simp add: workingCapital_schedule_eq a b c w finite_self_difference [OF w])
qed

lemma workingCapital_change_zero:
  assumes "finite_num (daysSalesOutstanding (workingCapital inputs))"
    "finite_num (daysInventoryOutstanding (workingCapital inputs))"
    "finite_num (daysPayablesOutstanding (workingCapital inputs))"
  shows "wc_changeInWorkingCapital (generateWorkingCapitalSchedule inputs n) = replicate n (Fin 0)"
proof -
  have "finite_num
     (monthlyRevenue * daysSalesOutstanding (workingCapital inputs) / Fin 30
      + monthlyCOGS * daysInventoryOutstanding (workingCapital inputs) / Fin 30
      - monthlyCOGS * daysPayablesOutstanding (workingCapital inputs) / Fin 30)"
    using assms by (simp add: monthlyRevenue_def monthlyCOGS_value)
  from finite_self_difference [OF this] show ?thesis
    by (simp add: workingCapital_schedule_eq)
qed

lemma revenue_finite:
  assumes "revenueGrowth inputs \<noteq> []"
  shows "fin_arr n (calculateRevenue inputs n)"
  unfolding calculateRevenue_eq
  by (intro fin_arr_map_upt finite_foldl) (simp_all add: growthRateAt_def assms)

lemma cashBalance_finite:
  "fin_arr n (netIncome ist) \<Longrightarrow> fin_arr n (calculateCashBalance ist n)"
  unfolding calculateCashBalance_eq
  by (intro fin_arr_map_upt finite_foldl) simp_all

lemma running_sum_finite:
  assumes "fin_arr n xs" "finite_num c" "j < n"
  shows "finite_num (foldl (\<lambda>c i. c + arr_get xs i) c [0..<Suc j])"
  using assms by (intro finite_foldl) simp_all

lemma retainedEarnings_finite:
  assumes "fin_arr n (netIncome ist)" "is_periods ist = n"
  shows "fin_arr n (calculateRetainedEarnings ist)"
  unfolding calculateRetainedEarnings_eq assms(2)
  by (rule fin_arr_map_upt) (rule running_sum_finite [OF assms(1)], simp_all)

lemma endingCash_finite:
  assumes "fin_arr n ncf"
  shows "fin_arr n (calculateEndingCash ncf)"
  unfolding calculateEndingCash_eq fin_arr_length [OF assms]
  by (rule fin_arr_map_upt) (rule running_sum_finite [OF assms], simp_all)

lemma incomeStatement_finite:
  fixes dep :: DepreciationSchedule
  assumes ie: "fin_arr n (debt_interestPayments dbt)" and rg: "revenueGrowth inputs \<noteq> []"
  defines "ist \<equiv> generateIncomeStatement inputs n dep dbt"
  shows "is_periods ist = n" "fin_arr n (revenue ist)" "fin_arr n (is_costOfGoodsSold ist)"
    "fin_arr n (grossProfit ist)" "fin_arr n (opex_salesAndMarketing ist)"
    "fin_arr n (opex_researchAndDevelopment ist)" "fin_arr n (opex_generalAndAdministrative ist)"
    "fin_arr n (operatingIncome ist)" "fin_arr n (interestExpense ist)"
    "fin_arr n (taxes ist)" "fin_arr n (netIncome ist)"
proof -
  define revs where "revs = calculateRevenue inputs n"
  define cogs where "cogs = calculateCostOfGoodsSold inputs revs"
  define gp where "gp = mapi (\<lambda>r i. r - arr_get cogs i) revs"
  define sm where "sm = calculateOperatingExpense (salesAndMarketing (operatingExpenses inputs)) revs"
  define rd where "rd = calculateOperatingExpense (researchAndDevelopment (operatingExpenses inputs)) revs"
  define ga where "ga = calculateOperatingExpense (generalAndAdministrative (operatingExpenses inputs)) revs"
  define tot where "tot = mapi (\<lambda>_ i. arr_get sm i + arr_get rd i + arr_get ga i) revs"
  define oi where "oi = mapi (\<lambda>g i. g - arr_get tot i) gp"
  define ie where "ie = debt_interestPayments dbt"
  define tx where "tx = mapi (\<lambda>x i. Math_max (Fin 0) (x - arr_get ie i) * Fin (taxRate inputs)) oi"
  define ni where "ni = mapi (\<lambda>x i. x - arr_get ie i - arr_get tx i) oi"
  have ist: "ist = \<lparr>is_periods = n, revenue = revs, is_costOfGoodsSold = cogs, grossProfit = gp,
          opex_salesAndMarketing = sm, opex_researchAndDevelopment = rd,
          opex_generalAndAdministrative = ga, operatingIncome = oi, interestExpense = ie,
          taxes = tx, netIncome = ni\<rparr>"
    unfolding ist_def generateIncomeStatement_def Let_def
      revs_def cogs_def gp_def sm_def rd_def ga_def tot_def oi_def ie_def tx_def ni_def ..
  have revs: "fin_arr n revs"
    by (simp add: revs_def revenue_finite rg)
  have cogs: "fin_arr n cogs"
    unfolding cogs_def calculateCostOfGoodsSold_def by (rule fin_arr_map [OF revs]) simp
  have gp: "fin_arr n gp"
    unfolding gp_def by (rule fin_arr_mapi [OF revs]) (simp add: fin_arr_get [OF cogs])
  have sm: "fin_arr n sm"
    unfolding sm_def calculateOperatingExpense_def by (rule fin_arr_map [OF revs]) simp
  have rd: "fin_arr n rd"
    unfolding rd_def calculateOperatingExpense_def by (rule fin_arr_map [OF revs]) simp
  have ga: "fin_arr n ga"
    unfolding ga_def calculateOperatingExpense_def by (rule fin_arr_map [OF revs]) simp
  have tot: "fin_arr n tot"
    unfolding tot_def by (rule fin_arr_mapi [OF revs]) (simp add: fin_arr_get [OF sm] fin_arr_get [OF rd] fin_arr_get [OF ga])
  have oi: "fin_arr n oi"
    unfolding oi_def by (rule fin_arr_mapi [OF gp]) (simp add: fin_arr_get [OF tot])
  have ie: "fin_arr n ie"
    using assms(1) by (simp add: ie_def)
  have tx: "fin_arr n tx"
    unfolding tx_def by (rule fin_arr_mapi [OF oi]) (simp add: fin_arr_get [OF ie])
  have ni: "fin_arr n ni"
    unfolding ni_def by (rule fin_arr_mapi [OF oi]) (simp add: fin_arr_get [OF ie] fin_arr_get [OF tx])
  show "is_periods ist = n" "fin_arr n (revenue ist)" "fin_arr n (is_costOfGoodsSold ist)"
    "fin_arr n (grossProfit ist)" "fin_arr n (opex_salesAndMarketing ist)"
    "fin_arr n (opex_researchAndDevelopment ist)" "fin_arr n (opex_generalAndAdministrative ist)"
    "fin_arr n (operatingIncome ist)" "fin_arr n (interestExpense ist)"
    "fin_arr n (taxes ist)" "fin_arr n (netIncome ist)"
    by (simp_all add: ist revs cogs gp sm rd ga oi ie tx ni)
qed

lemma balanceSheet_finite:
  fixes inputs :: FinancialInputs
  assumes ni: "fin_arr n (netIncome ist)" and per: "is_periods ist = n"
    and wc: "fin_arr n (wc_accountsReceivable wcs)" "fin_arr n (wc_inventory wcs)"
            "fin_arr n (wc_accountsPayable wcs)"
    and dp: "fin_arr n (dep_depreciation dep)" "fin_arr n (dep_endingBalance dep)"
    and db: "fin_arr n (debt_endingBalance dbt)"
  defines "bsh \<equiv> generateBalanceSheet inputs n ist wcs dep dbt"
  shows "fin_arr n (cash bsh)" "fin_arr n (accountsReceivable bsh)" "fin_arr n (inventory bsh)"
    "fin_arr n (fixedAssets bsh)" "fin_arr n (accumulatedDepreciation bsh)"
    "fin_arr n (totalAssets bsh)" "fin_arr n (accountsPayable bsh)" "fin_arr n (debt bsh)"
    "fin_arr n (totalLiabilities bsh)" "fin_arr n (commonStock bsh)"
    "fin_arr n (retainedEarnings bsh)" "fin_arr n (totalEquity bsh)"
proof -
  define csh where "csh = calculateCashBalance ist n"
  define ad where "ad = mapi (\<lambda>_ i. sum_arr (take (i + 1) (dep_depreciation dep)))
                 (dep_depreciation dep)"
  define ta where "ta = mapi (\<lambda>c i. c + arr_get (wc_accountsReceivable wcs) i
          + arr_get (wc_inventory wcs) i + arr_get (dep_endingBalance dep) i - arr_get ad i) csh"
  define tl where "tl = mapi (\<lambda>a i. a + arr_get (debt_endingBalance dbt) i) (wc_accountsPayable wcs)"
  define cs where "cs = replicate n (Fin (initialDebt (debtStructure inputs)) * Fin 0.3)"
  define re where "re = calculateRetainedEarnings ist"
  define te where "te = mapi (\<lambda>c i. c + arr_get re i) cs"
  have bsh: "bsh = \<lparr>bs_periods = n, cash = csh, accountsReceivable = wc_accountsReceivable wcs,
          inventory = wc_inventory wcs, fixedAssets = dep_endingBalance dep,
          accumulatedDepreciation = ad, totalAssets = ta,
          accountsPayable = wc_accountsPayable wcs, debt = debt_endingBalance dbt,
          totalLiabilities = tl, commonStock = cs, retainedEarnings = re, totalEquity = te\<rparr>"
    unfolding bsh_def generateBalanceSheet_def Let_def
      csh_def ad_def ta_def tl_def cs_def re_def te_def ..
  have csh: "fin_arr n csh"
    by (simp add: csh_def cashBalance_finite ni)
  have ad: "fin_arr n ad"
    unfolding ad_def
    by (rule fin_arr_mapi [OF dp(1)]) (rule finite_sum_arr, rule fin_arr_take [OF dp(1)])
  have ta: "fin_arr n ta"
    unfolding ta_def by (rule fin_arr_mapi [OF csh]) (simp add: fin_arr_get [OF wc(1)] fin_arr_get [OF wc(2)] fin_arr_get [OF dp(2)] fin_arr_get [OF ad])
  have tl: "fin_arr n tl"
    unfolding tl_def by (rule fin_arr_mapi [OF wc(3)]) (simp add: fin_arr_get [OF db])
  have cs: "fin_arr n cs"
    by (simp add: cs_def)
  have re: "fin_arr n re"
    by (simp add: re_def retainedEarnings_finite ni per)
  have te: "fin_arr n te"
    unfolding te_def by (rule fin_arr_mapi [OF cs]) (simp add: fin_arr_get [OF re])
  show "fin_arr n (cash bsh)" "fin_arr n (accountsReceivable bsh)" "fin_arr n (inventory bsh)"
    "fin_arr n (fixedAssets bsh)" "fin_arr n (accumulatedDepreciation bsh)"
    "fin_arr n (totalAssets bsh)" "fin_arr n (accountsPayable bsh)" "fin_arr n (debt bsh)"
    "fin_arr n (totalLiabilities bsh)" "fin_arr n (commonStock bsh)"
    "fin_arr n (retainedEarnings bsh)" "fin_arr n (totalEquity bsh)"
    by (simp_all add: bsh csh wc dp ad ta db tl cs re te)
qed

lemma cashFlowStatement_finite:
  fixes inputs :: FinancialInputs and bsh :: BalanceSheet
  assumes ni: "fin_arr n (netIncome ist)"
    and dp: "fin_arr n (dep_depreciation dep)" "fin_arr n (dep_additions dep)"
    and wc: "fin_arr n (wc_changeInWorkingCapital wcs)"
    and db: "fin_arr n (debt_newDebt dbt)" "fin_arr n (debt_principalPayments dbt)"
            "fin_arr n (debt_interestPayments dbt)"
  defines "cfs \<equiv> generateCashFlowStatement inputs n ist bsh dep dbt wcs"
  shows "fin_arr n (operatingCashFlow cfs)" "fin_arr n (investingCashFlow cfs)"
    "fin_arr n (financingCashFlow cfs)" "fin_arr n (netCashFlow cfs)" "fin_arr n (endingCash cfs)"
proof -
  define ocf where "ocf = mapi (\<lambda>n i. n + arr_get (dep_depreciation dep) i
                         - arr_get (wc_changeInWorkingCapital wcs) i) (netIncome ist)"
  define icf where "icf = map (\<lambda>add. - add) (dep_additions dep)"
  define fcf where "fcf = mapi (\<lambda>nd i. nd - arr_get (debt_principalPayments dbt) i
                         - arr_get (debt_interestPayments dbt) i) (debt_newDebt dbt)"
  define ncf where "ncf = mapi (\<lambda>x i. x + arr_get icf i + arr_get fcf i) ocf"
  have cfs: "cfs = \<lparr>cf_periods = n, operatingCashFlow = ocf, investingCashFlow = icf,
          financingCashFlow = fcf, netCashFlow = ncf, endingCash = calculateEndingCash ncf\<rparr>"
    unfolding cfs_def generateCashFlowStatement_def Let_def ocf_def icf_def fcf_def ncf_def ..
  have ocf: "fin_arr n ocf"
    unfolding ocf_def by (rule fin_arr_mapi [OF ni]) (simp add: fin_arr_get [OF dp(1)] fin_arr_get [OF wc])
  have icf: "fin_arr n icf"
    unfolding icf_def by (rule fin_arr_map [OF dp(2)]) simp
  have fcf: "fin_arr n fcf"
    unfolding fcf_def
    by (rule fin_arr_mapi [OF db(1)]) (simp add: fin_arr_get [OF db(2)] fin_arr_get [OF db(3)])
  have ncf: "fin_arr n ncf"
    unfolding ncf_def by (rule fin_arr_mapi [OF ocf]) (simp add: fin_arr_get [OF icf] fin_arr_get [OF fcf])
  show "fin_arr n (operatingCashFlow cfs)" "fin_arr n (investingCashFlow cfs)"
    "fin_arr n (financingCashFlow cfs)" "fin_arr n (netCashFlow cfs)" "fin_arr n (endingCash cfs)"
    by (simp_all add: cfs ocf icf fcf ncf endingCash_finite)
qed

subsection \<open>The annuity payment\<close>

lemma pow_fin_nat: "x \<noteq> 0 \<Longrightarrow> pow_fin x (real k) = Fin (x ^ k)"
  by (simp add: pow_fin_def is_int_def)

lemma monthlyRate_Fin: "monthlyRate inputs = Fin (interestRate (debtStructure inputs) / 12)"
  by (simp add: monthlyRate_def)

lemma totalPayments_years:
  assumes "0 < interestRate (debtStructure inputs)"
    and "debtMaturity (debtStructure inputs) = real m" and "0 < m"
  shows "totalPayments inputs =
           Fin (initialDebt (debtStructure inputs)
                * (interestRate (debtStructure inputs) / 12
                   * (1 + interestRate (debtStructure inputs) / 12) ^ (m * 12))
                / ((1 + interestRate (debtStructure inputs) / 12) ^ (m * 12) - 1))"
proof -
  let ?x = "1 + interestRate (debtStructure inputs) / 12"
  have x: "1 < ?x" using assms(1) by simp
  have "real m * 12 = real (m * 12)" by simp
  then have p: "pow_fin ?x (real m * 12) = Fin (?x ^ (m * 12))"
    using x pow_fin_nat [of ?x "m * 12"] by simp
  have "1 < ?x ^ (m * 12)"
    using x assms(3) by (intro one_less_power) simp_all
  then show ?thesis
    by (simp add: totalPayments_def monthlyRate_Fin assms(2) p)
qed

lemma annuity_covers_interest:
  fixes p r q b :: real
  assumes "0 \<le> p" "0 < r" "1 < q" "b \<le> p"
  shows "b * r \<le> p * (r * q) / (q - 1)"
proof -
  have "b * r \<le> p * r" using assms by simp
  also have "p * r = p * r * (q - 1) / (q - 1)" using assms by simp
  also have "\<dots> \<le> p * r * q / (q - 1)"
    using assms by (intro divide_right_mono mult_left_mono) simp_all
  finally show ?thesis by (simp add: mult.assoc)
qed

subsection \<open>Validation\<close>




lemma getTemplate_registered:
  "getTemplate ''saas'' = Some saas_template"
  "getTemplate ''ecommerce'' = Some ecommerce_template"
  by (simp_all add: getTemplate_def initializeTemplates_def)


subsection \<open>The registry and the concrete scenarios\<close>

lemma getTemplate_unregistered:
  "initializeTemplates businessType = None \<Longrightarrow> getTemplate businessType = Some default_template"
  by (simp add: getTemplate_def) (simp add: initializeTemplates_def)

lemma not_a_real_type_unregistered: "initializeTemplates ''not_a_real_type'' = None"
  by (simp add: initializeTemplates_def)

lemma schedule_ids_plain:
  "''depreciation'' \<notin> schedule_id ` set (schedule_defs saas_template)"
  "''workingCapital'' \<notin> schedule_id ` set (schedule_defs saas_template)"
  "''depreciation'' \<notin> schedule_id ` set (schedule_defs default_template)"
  "''workingCapital'' \<notin> schedule_id ` set (schedule_defs default_template)"
  "''depreciation'' \<notin> schedule_id ` set (schedule_defs ecommerce_template)"
  "''workingCapital'' \<notin> schedule_id ` set (schedule_defs ecommerce_template)"
  by (simp_all add: saas_template_def default_template_def ecommerce_template_def)

lemma te_statement_periods [simp]:
  "is_periods (te_generateIncomeStatement p schs n) = n"
  "length (revenue (te_generateIncomeStatement p schs n)) = n"
  "bs_periods (te_generateBalanceSheet p schs ist n) = n"
  by (simp_all add: te_generateIncomeStatement_def te_generateBalanceSheet_def Let_def)

lemma te_cashflow_periods:
  "te_generateCashFlowStatement p schs ist bsh n = Inr cfs \<Longrightarrow> cf_periods cfs = n"
  by (auto simp add: te_generateCashFlowStatement_def Let_def split: sum.splits)

lemma applyTemplate_periods:
  assumes "applyTemplate t raw = Inr m"
  shows "is_periods (incomeStatement m) = 60" "bs_periods (balanceSheet m) = 60"
    "cf_periods (cashFlowStatement m) = 60" "length (revenue (incomeStatement m)) = 60"
  using assms
  by (auto simp add: applyTemplate_def Let_def te_cashflow_periods split: sum.splits)

lemma processInputs_default:
  "processInputs default_template unknown_template_inputs = Inr unknown_template_inputs"
  by (simp add: processInputs_def default_template_def validateInput_def member_def
        is_empty_value_def Let_def unknown_template_inputs_def)

lemma generate_unknown:
  "generate ''not_a_real_type'' unknown_template_inputs =
     applyTemplate default_template unknown_template_inputs"
  by (simp add: generate_def getTemplate_unregistered not_a_real_type_unregistered)

lemmas unknown_model =
  generate_unknown [unfolded applyTemplate_plain [OF processInputs_default schedule_ids_plain(3,4)]]


lemma schedule_array_or_zeros_None [simp]:
  "schs s = None \<Longrightarrow> schedule_array_or_zeros schs s f n = replicate n (Fin 0)"
  by (simp add: schedule_array_or_zeros_def)

lemma calculateCashBalance_length [simp]: "length (calculateCashBalance ist n) = n"
  by (simp add: calculateCashBalance_eq)

lemma calculateCashBalance_0: "0 < n \<Longrightarrow> calculateCashBalance ist n ! 0 = Fin 50000"
  by (simp add: calculateCashBalance_eq)

lemma calculateRetainedEarnings_length [simp]:
  "length (calculateRetainedEarnings ist) = is_periods ist"
  by (simp add: calculateRetainedEarnings_eq)

lemma calculateRetainedEarnings_0:
  "0 < is_periods ist \<Longrightarrow> 0 < length (netIncome ist) \<Longrightarrow>
     calculateRetainedEarnings ist ! 0 = Fin 0 + netIncome ist ! 0"
  by (simp add: calculateRetainedEarnings_eq)

lemma te_cogs_length [simp]: "length (te_calculateCostOfGoodsSold p revs) = length revs"
  by (simp add: te_calculateCostOfGoodsSold_def)

lemma te_opex_length [simp]: "length (te_calculateOperatingExpense b revs) = length revs"
  by (simp add: te_calculateOperatingExpense_def)

lemma te_netIncome_length [simp]: "length (netIncome (te_generateIncomeStatement p schs n)) = n"
  by (simp add: te_generateIncomeStatement_def Let_def)

text \<open>Period 0 of a template model without debt, depreciation and working-capital schedules.\<close>

lemma te_period0:
  assumes s: "schs ''debt'' = None" "schs ''depreciation'' = None" "schs ''workingCapital'' = None"
    and r0: "val_or (member p ''initial_revenue'') 100000 = Fin r0"
    and cp: "val_or (member p ''cogs_percentage'') 0.6 = Fin cp"
    and sm: "val_or (member p ''sales_marketing_budget'') 0 = Fin sm"
    and rd: "val_or (member p ''research_development_budget'') 0 = Fin rd"
    and ga: "val_or (member p ''general_administrative_budget'') 0 = Fin ga"
    and tr: "val_or (member p ''tax_rate'') 0.25 = Fin tr"
    and eq: "val_or (member p ''initial_equity'') 100000 = Fin eq"
    and n: "0 < n"
  defines "ist \<equiv> te_generateIncomeStatement p schs n"
  defines "oi \<equiv> r0 - r0 * cp - (r0 * (sm / 100) + r0 * (rd / 100) + r0 * (ga / 100))"
  defines "ni \<equiv> oi - max 0 oi * tr"
  shows "revenue ist ! 0 = Fin r0"
    and "grossProfit ist ! 0 = Fin (r0 - r0 * cp)"
    and "netIncome ist ! 0 = Fin ni"
    and "totalAssets (te_generateBalanceSheet p schs ist n) ! 0 = Fin 50000"
    and "totalLiabilities (te_generateBalanceSheet p schs ist n) ! 0 = Fin 0"
    and "totalEquity (te_generateBalanceSheet p schs ist n) ! 0 = Fin (eq + ni)"
    and "netCashFlow (projr (te_generateCashFlowStatement p schs ist bsh n)) ! 0 = Fin ni"
    and "endingCash (projr (te_generateCashFlowStatement p schs ist bsh n)) ! 0 = Fin (50000 + ni)"
proof -
  show rev: "revenue ist ! 0 = Fin r0"
    using n by (simp add: ist_def te_generateIncomeStatement_def Let_def te_calculateRevenue_nth r0)
  show "grossProfit ist ! 0 = Fin (r0 - r0 * cp)"
    using n cp
    by (simp add: ist_def te_generateIncomeStatement_def Let_def te_calculateRevenue_nth r0
          te_calculateCostOfGoodsSold_def)
  show ni: "netIncome ist ! 0 = Fin ni"
    using n cp tr
    by (simp add: ist_def te_generateIncomeStatement_def Let_def te_calculateRevenue_nth r0
          te_calculateCostOfGoodsSold_def te_calculateOperatingExpense_def sm rd ga s
          ni_def oi_def)
  have len: "length (netIncome ist) = n" "is_periods ist = n"
    by (simp_all add: ist_def)
  show "totalAssets (te_generateBalanceSheet p schs ist n) ! 0 = Fin 50000"
    using n by (simp add: te_generateBalanceSheet_def Let_def s calculateCashBalance_0)
  show "totalLiabilities (te_generateBalanceSheet p schs ist n) ! 0 = Fin 0"
    using n by (simp add: te_generateBalanceSheet_def Let_def s)
  show "totalEquity (te_generateBalanceSheet p schs ist n) ! 0 = Fin (eq + ni)"
    using n by (simp add: te_generateBalanceSheet_def Let_def s eq len
          calculateRetainedEarnings_0 ni)
  show "netCashFlow (projr (te_generateCashFlowStatement p schs ist bsh n)) ! 0 = Fin ni"
    using n by (simp add: te_generateCashFlowStatement_plain s len ni)
  show "endingCash (projr (te_generateCashFlowStatement p schs ist bsh n)) ! 0 = Fin (50000 + ni)"
    using n by (simp add: te_generateCashFlowStatement_plain s len ni calculateEndingCash_0)
qed

lemma processInputs_saas:
  "processInputs saas_template saas_scenario_inputs = Inr saas_processed"
  by (simp add: processInputs_def saas_template_def validateInput_def member_def
        is_empty_value_def Let_def evaluateValidationRule_def Number_of_string_def
        unsigned_decimal_def arr_get_def less_eq_jsnum_def saas_scenario_inputs_def
        saas_processed_def)


lemma schedule_ids_debt:
  "''debt'' \<notin> schedule_id ` set (schedule_defs saas_template)"
  "''debt'' \<notin> schedule_id ` set (schedule_defs default_template)"
  "''debt'' \<notin> schedule_id ` set (schedule_defs ecommerce_template)"
  by (simp_all add: saas_template_def default_template_def ecommerce_template_def)

lemma default_values:
  "val_or (member unknown_template_inputs ''initial_revenue'') 100000 = Fin 10000"
  "val_or (member unknown_template_inputs ''revenue_growth_rate'') 0 = Fin 0.05"
  "val_or (member unknown_template_inputs ''cogs_percentage'') 0.6 = Fin 0.6"
  "val_or (member unknown_template_inputs ''sales_marketing_budget'') 0 = Fin 0"
  "val_or (member unknown_template_inputs ''research_development_budget'') 0 = Fin 0"
  "val_or (member unknown_template_inputs ''general_administrative_budget'') 0 = Fin 0"
  "val_or (member unknown_template_inputs ''tax_rate'') 0.25 = Fin 0.25"
  "val_or (member unknown_template_inputs ''initial_equity'') 100000 = Fin 100000"
  by (simp_all add: member_def unknown_template_inputs_def)

lemma saas_values:
  "val_or (member saas_processed ''initial_revenue'') 100000 = Fin 100000"
  "val_or (member saas_processed ''revenue_growth_rate'') 0 = Fin 0.05"
  "val_or (member saas_processed ''cogs_percentage'') 0.6 = Fin 0.6"
  "val_or (member saas_processed ''sales_marketing_budget'') 0 = Fin 0.3"
  "val_or (member saas_processed ''research_development_budget'') 0 = Fin 0.15"
  "val_or (member saas_processed ''general_administrative_budget'') 0 = Fin 0"
  "val_or (member saas_processed ''tax_rate'') 0.25 = Fin 0.25"
  "val_or (member saas_processed ''initial_equity'') 100000 = Fin 100000"
  by (simp_all add: member_def saas_processed_def)


lemma generate_saas:
  "generate ''saas'' saas_scenario_inputs = applyTemplate saas_template saas_scenario_inputs"
  by (simp add: generate_def getTemplate_registered)


lemmas saas_model =
  generate_saas [unfolded applyTemplate_plain [OF processInputs_saas schedule_ids_plain(1,2)]]


lemmas default_period0 =
  te_period0 [where p = unknown_template_inputs
      and schs = "calculateSchedules default_template unknown_template_inputs" and n = 60,
    OF _ _ _ default_values(1,3,4,5,6,7,8), simplified calculateSchedules_None,
    OF schedule_ids_debt(2) schedule_ids_plain(3,4), simplified]

lemmas saas_period0 =
  te_period0 [where p = saas_processed
      and schs = "calculateSchedules saas_template saas_processed" and n = 60,
    OF _ _ _ saas_values(1,3,4,5,6,7,8), simplified calculateSchedules_None,
    OF schedule_ids_debt(1) schedule_ids_plain(1,2), simplified]


lemma saas_revenue_11:
  "revenue (te_generateIncomeStatement saas_processed
      (calculateSchedules saas_template saas_processed) 60) ! 11 = Fin (100000 * (1 + 0.05 / 12) ^ 11)"
  using saas_values(1,2)
  by (simp add: te_generateIncomeStatement_def Let_def te_calculateRevenue_nth)

lemma calculateRevenue_length [simp]: "length (calculateRevenue inputs n) = n"
  by (simp add: calculateRevenue_eq)

lemma calculateRevenue_0: "0 < n \<Longrightarrow> calculateRevenue inputs n ! 0 = Fin 100000"
  by (simp add: calculateRevenue_eq)

lemma engine_lengths [simp]:
  "length (calculateCostOfGoodsSold inputs revs) = length revs"
  "length (calculateOperatingExpense cfg revs) = length revs"
  by (simp_all add: calculateCostOfGoodsSold_def calculateOperatingExpense_def)

lemma generateIncomeStatement_fields [simp]:
  "is_periods (generateIncomeStatement inputs n dep dbt) = n"
  "length (netIncome (generateIncomeStatement inputs n dep dbt)) = n"
  "length (revenue (generateIncomeStatement inputs n dep dbt)) = n"
  "interestExpense (generateIncomeStatement inputs n dep dbt) = debt_interestPayments dbt"
  by (simp_all add: generateIncomeStatement_def Let_def)

text \<open>Period 0 of a model of the modelling engine.\<close>

lemma engine_netIncome_0:
  assumes n: "0 < n" and ie: "length (debt_interestPayments dbt) = n"
    "debt_interestPayments dbt ! 0 = Fin 0"
  shows "netIncome (generateIncomeStatement inputs n dep dbt) ! 0 =
     Fin ((100000 - (100000 * percentage (costOfGoodsSold (costStructure inputs))
                     + fixedCosts (costOfGoodsSold (costStructure inputs)))
           - (100000 * percentage (salesAndMarketing (operatingExpenses inputs))
                + fixedCosts (salesAndMarketing (operatingExpenses inputs))
              + (100000 * percentage (researchAndDevelopment (operatingExpenses inputs))
                + fixedCosts (researchAndDevelopment (operatingExpenses inputs)))
              + (100000 * percentage (generalAndAdministrative (operatingExpenses inputs))
                + fixedCosts (generalAndAdministrative (operatingExpenses inputs)))))
          - max 0 (100000 - (100000 * percentage (costOfGoodsSold (costStructure inputs))
                     + fixedCosts (costOfGoodsSold (costStructure inputs)))
           - (100000 * percentage (salesAndMarketing (operatingExpenses inputs))
                + fixedCosts (salesAndMarketing (operatingExpenses inputs))
              + (100000 * percentage (researchAndDevelopment (operatingExpenses inputs))
                + fixedCosts (researchAndDevelopment (operatingExpenses inputs)))
              + (100000 * percentage (generalAndAdministrative (operatingExpenses inputs))
                + fixedCosts (generalAndAdministrative (operatingExpenses inputs)))))
            * taxRate inputs)"
  using n ie
  by (simp add: generateIncomeStatement_def Let_def calculateRevenue_0
        calculateCostOfGoodsSold_def calculateOperatingExpense_def)

lemma debt_schedule_head:
  assumes "0 < n"
  shows "length (debt_interestPayments (generateDebtSchedule inputs n)) = n"
    "length (debt_endingBalance (generateDebtSchedule inputs n)) = n"
    "length (debt_beginningBalance (generateDebtSchedule inputs n)) = n"
    "length (debt_principalPayments (generateDebtSchedule inputs n)) = n"
    "debt_interestPayments (generateDebtSchedule inputs n) ! 0 = Fin 0"
    "debt_principalPayments (generateDebtSchedule inputs n) ! 0 = Fin 0"
    "debt_endingBalance (generateDebtSchedule inputs n) ! 0 = Fin (initialDebt (debtStructure inputs))"
    "debt_beginningBalance (generateDebtSchedule inputs n) ! 0 = Fin (initialDebt (debtStructure inputs))"
  using debt_loop_invariant [OF assms, of inputs] by (simp_all add: debt_head_ok_def)

lemma depreciation_schedule_head:
  assumes "0 < n"
  shows "length (dep_depreciation (generateDepreciationSchedule inputs n)) = n"
    "length (dep_endingBalance (generateDepreciationSchedule inputs n)) = n"
    "dep_depreciation (generateDepreciationSchedule inputs n) ! 0 =
       Fin (annualCapex (capex inputs) / 12 * (depreciationRate (capex inputs) / 12))"
    "dep_endingBalance (generateDepreciationSchedule inputs n) ! 0 =
       Fin (annualCapex (capex inputs) / 12
            - annualCapex (capex inputs) / 12 * (depreciationRate (capex inputs) / 12))"
proof -
  from depreciation_loop_invariant [of n inputs] assms
  have h: "dep_head_ok n (Fin (annualCapex (capex inputs)) / Fin 12)
             (generateDepreciationSchedule inputs n)"
    and r: "dep_row_ok (Fin (annualCapex (capex inputs)) / Fin 12)
             (Fin (depreciationRate (capex inputs)) / Fin 12)
             (generateDepreciationSchedule inputs n) 0"
    by simp_all
  from h show "length (dep_depreciation (generateDepreciationSchedule inputs n)) = n"
    "length (dep_endingBalance (generateDepreciationSchedule inputs n)) = n"
    by (simp_all add: dep_head_ok_def)
  from r show "dep_depreciation (generateDepreciationSchedule inputs n) ! 0 =
       Fin (annualCapex (capex inputs) / 12 * (depreciationRate (capex inputs) / 12))"
    "dep_endingBalance (generateDepreciationSchedule inputs n) ! 0 =
       Fin (annualCapex (capex inputs) / 12
            - annualCapex (capex inputs) / 12 * (depreciationRate (capex inputs) / 12))"
    by (simp_all add: dep_row_ok_def)
qed

lemma engine_balance_0:
  fixes inputs :: FinancialInputs
  assumes n: "0 < n"
  defines "dep \<equiv> generateDepreciationSchedule inputs n"
    and "dbt \<equiv> generateDebtSchedule inputs n"
    and "wcs \<equiv> generateWorkingCapitalSchedule inputs n"
  defines "ist \<equiv> generateIncomeStatement inputs n dep dbt"
  defines "bsh \<equiv> generateBalanceSheet inputs n ist wcs dep dbt"
  assumes wcd: "daysSalesOutstanding (workingCapital inputs) = Fin d1"
    "daysInventoryOutstanding (workingCapital inputs) = Fin d2"
    "daysPayablesOutstanding (workingCapital inputs) = Fin d3"
  shows "totalAssets bsh ! 0 =
           Fin (50000 + 100000 * d1 / 30
                + 60000 * d2 / 30
                + (annualCapex (capex inputs) / 12
                   - annualCapex (capex inputs) / 12 * (depreciationRate (capex inputs) / 12))
                - (0 + annualCapex (capex inputs) / 12 * (depreciationRate (capex inputs) / 12)))"
    and "totalLiabilities bsh ! 0 =
           Fin (60000 * d3 / 30
                + initialDebt (debtStructure inputs))"
    and "totalEquity bsh ! 0 =
           Fin (initialDebt (debtStructure inputs) * 0.3) + (Fin 0 + netIncome ist ! 0)"
proof -
  note dh = depreciation_schedule_head [OF n, of inputs, folded dep_def]
  note bh = debt_schedule_head [OF n, of inputs, folded dbt_def]
  have wc: "wc_accountsReceivable wcs =
        replicate n (Fin (100000 * d1 / 30))"
      "wc_inventory wcs =
        replicate n (Fin (60000 * d2 / 30))"
      "wc_accountsPayable wcs =
        replicate n (Fin (60000 * d3 / 30))"
    by (simp_all add: wcs_def workingCapital_schedule_eq wcd monthlyRevenue_def monthlyCOGS_value)
  show "totalAssets bsh ! 0 =
           Fin (50000 + 100000 * d1 / 30
                + 60000 * d2 / 30
                + (annualCapex (capex inputs) / 12
                   - annualCapex (capex inputs) / 12 * (depreciationRate (capex inputs) / 12))
                - (0 + annualCapex (capex inputs) / 12 * (depreciationRate (capex inputs) / 12)))"
    using n
    by (simp add: bsh_def generateBalanceSheet_def Let_def calculateCashBalance_0 wc dh
          sum_arr_def take_Suc_conv_app_nth)
  show "totalLiabilities bsh ! 0 =
           Fin (60000 * d3 / 30
                + initialDebt (debtStructure inputs))"
    using n by (simp add: bsh_def generateBalanceSheet_def Let_def wc bh)
  show "totalEquity bsh ! 0 =
           Fin (initialDebt (debtStructure inputs) * 0.3) + (Fin 0 + netIncome ist ! 0)"
    using n
    by (simp add: bsh_def generateBalanceSheet_def Let_def calculateRetainedEarnings_0 ist_def)
qed

lemma generateFinancialModel_parts:
  "incomeStatement (generateFinancialModel inputs) =
     generateIncomeStatement inputs 60 (generateDepreciationSchedule inputs 60)
       (generateDebtSchedule inputs 60)"
  "balanceSheet (generateFinancialModel inputs) =
     generateBalanceSheet inputs 60
       (generateIncomeStatement inputs 60 (generateDepreciationSchedule inputs 60)
          (generateDebtSchedule inputs 60))
       (generateWorkingCapitalSchedule inputs 60) (generateDepreciationSchedule inputs 60)
       (generateDebtSchedule inputs 60)"
  "cashFlowStatement (generateFinancialModel inputs) =
     generateCashFlowStatement inputs 60
       (generateIncomeStatement inputs 60 (generateDepreciationSchedule inputs 60)
          (generateDebtSchedule inputs 60))
       (generateBalanceSheet inputs 60
          (generateIncomeStatement inputs 60 (generateDepreciationSchedule inputs 60)
             (generateDebtSchedule inputs 60))
          (generateWorkingCapitalSchedule inputs 60) (generateDepreciationSchedule inputs 60)
          (generateDebtSchedule inputs 60))
       (generateDepreciationSchedule inputs 60) (generateDebtSchedule inputs 60)
       (generateWorkingCapitalSchedule inputs 60)"
  "depreciation (schedules (generateFinancialModel inputs)) = generateDepreciationSchedule inputs 60"
  "debtSchedule (schedules (generateFinancialModel inputs)) = generateDebtSchedule inputs 60"
  "workingCapitalSchedule (schedules (generateFinancialModel inputs)) =
     generateWorkingCapitalSchedule inputs 60"
  by (simp_all add: generateFinancialModel_def Let_def)

lemma test_inputs_fields:
  "percentage (costOfGoodsSold (costStructure test_inputs)) = 0.2"
  "fixedCosts (costOfGoodsSold (costStructure test_inputs)) = 10000"
  "percentage (salesAndMarketing (operatingExpenses test_inputs)) = 0.3"
  "fixedCosts (salesAndMarketing (operatingExpenses test_inputs)) = 50000"
  "percentage (researchAndDevelopment (operatingExpenses test_inputs)) = 0.15"
  "fixedCosts (researchAndDevelopment (operatingExpenses test_inputs)) = 30000"
  "percentage (generalAndAdministrative (operatingExpenses test_inputs)) = 0.1"
  "fixedCosts (generalAndAdministrative (operatingExpenses test_inputs)) = 20000"
  "daysSalesOutstanding (workingCapital test_inputs) = Fin 30"
  "daysInventoryOutstanding (workingCapital test_inputs) = Fin 0"
  "daysPayablesOutstanding (workingCapital test_inputs) = Fin 15"
  "annualCapex (capex test_inputs) = 50000"
  "depreciationRate (capex test_inputs) = 0.1"
  "initialDebt (debtStructure test_inputs) = 100000"
  "interestRate (debtStructure test_inputs) = 0.05"
  "debtMaturity (debtStructure test_inputs) = 5"
  "taxRate test_inputs = 0.25"
  "revenueGrowth test_inputs = [0.05, 0.04, 0.03, 0.02, 0.01]"
  by (simp_all add: test_inputs_def)

lemma test_model_period0:
  "totalAssets (balanceSheet (generateFinancialModel test_inputs)) ! 0 = Fin (1386875 / 9)"
  "totalLiabilities (balanceSheet (generateFinancialModel test_inputs)) ! 0 = Fin 130000"
  "totalEquity (balanceSheet (generateFinancialModel test_inputs)) ! 0 = Fin (- 55000)"
  by (simp_all add: generateFinancialModel_parts
        engine_balance_0 [OF _ test_inputs_fields(9,10,11)] engine_netIncome_0
        debt_schedule_head test_inputs_fields)

lemma default_auditChecks: "te_generateAuditChecks default_template = []"
  by (simp add: te_generateAuditChecks_def default_template_def)

subsection \<open>Cash continuity\<close>





lemma engine_cashflow_shape:
  "endingCash (cashFlowStatement (generateFinancialModel inputs)) =
     calculateEndingCash (netCashFlow (cashFlowStatement (generateFinancialModel inputs)))"
  "length (netCashFlow (cashFlowStatement (generateFinancialModel inputs))) = 60"
  by (simp_all add: generateFinancialModel_parts generateCashFlowStatement_def Let_def)

lemma applyTemplate_default_succeeds:
  "applyTemplate default_template unknown_template_inputs =
     Inr (projr (applyTemplate default_template unknown_template_inputs))"
  by (simp add: applyTemplate_plain [OF processInputs_default schedule_ids_plain(3,4)])

subsection \<open>Audit checks\<close>

lemma registered_templates:
  assumes "getTemplate bt = Some t"
  shows "t \<in> {saas_template, ecommerce_template, marketplace_template, services_template,
           hardware_template, manufacturing_template, real_estate_template,
           financial_template, default_template}"
  using assms
  by (auto simp add: getTemplate_def initializeTemplates_def split: option.splits if_splits)

lemma registered_schedule_ids:
  assumes "getTemplate bt = Some t"
  shows "''depreciation'' \<notin> schedule_id ` set (schedule_defs t)"
    and "''workingCapital'' \<notin> schedule_id ` set (schedule_defs t)"
proof -
  have a: "schedule_defs marketplace_template = []" "schedule_defs services_template = []"
    "schedule_defs hardware_template = []" "schedule_defs manufacturing_template = []"
    "schedule_defs real_estate_template = []" "schedule_defs financial_template = []"
    by (simp_all add: marketplace_template_def services_template_def hardware_template_def
          manufacturing_template_def real_estate_template_def financial_template_def)
  from registered_templates [OF assms]
  show "''depreciation'' \<notin> schedule_id ` set (schedule_defs t)"
    and "''workingCapital'' \<notin> schedule_id ` set (schedule_defs t)"
    using schedule_ids_plain by (auto simp add: a)
qed

lemma generate_completes:
  assumes t: "getTemplate bt = Some t" and p: "processInputs t raw = Inr p"
  shows "generate bt raw = Inr (projr (generate bt raw))"
    and "auditChecks (projr (generate bt raw)) = te_generateAuditChecks t"
  by (simp_all add: generate_def t applyTemplate_plain [OF p registered_schedule_ids [OF t]])

lemma te_auditChecks_shape:
  "map check_id (te_generateAuditChecks t) = map field (template_validation t)"
  "map status (te_generateAuditChecks t) = replicate (length (template_validation t)) Pass"
  by (simp_all add: te_generateAuditChecks_def comp_def map_replicate_const)

lemma engine_auditChecks:
  "auditChecks (generateFinancialModel inputs) =
     generateAuditChecks inputs (incomeStatement (generateFinancialModel inputs))
       (balanceSheet (generateFinancialModel inputs))
       (cashFlowStatement (generateFinancialModel inputs))"
  by (simp add: generateFinancialModel_def Let_def)

lemma saas_validation: "map field (template_validation saas_template) = [''revenue_growth_rate'']"
  by (simp add: saas_template_def)

subsection \<open>The rows of the debt schedule\<close>

lemma debt_rows:
  assumes "0 < n" "1 \<le> t" "t < n"
  shows "debt_beginningBalance (generateDebtSchedule inputs n) ! t =
           debt_endingBalance (generateDebtSchedule inputs n) ! (t - 1)"
    and "debt_interestPayments (generateDebtSchedule inputs n) ! t =
           debt_beginningBalance (generateDebtSchedule inputs n) ! t * monthlyRate inputs"
    and "debt_principalPayments (generateDebtSchedule inputs n) ! t =
           Math_min (totalPayments inputs - debt_interestPayments (generateDebtSchedule inputs n) ! t)
             (debt_beginningBalance (generateDebtSchedule inputs n) ! t)"
    and "debt_endingBalance (generateDebtSchedule inputs n) ! t =
           debt_beginningBalance (generateDebtSchedule inputs n) ! t
           - debt_principalPayments (generateDebtSchedule inputs n) ! t"
proof -
  from debt_loop_invariant [OF assms(1), of inputs] assms(2,3)
  have "debt_row_ok (monthlyRate inputs) (totalPayments inputs) (generateDebtSchedule inputs n) t"
    by blast
  then show "debt_beginningBalance (generateDebtSchedule inputs n) ! t =
           debt_endingBalance (generateDebtSchedule inputs n) ! (t - 1)"
    and "debt_interestPayments (generateDebtSchedule inputs n) ! t =
           debt_beginningBalance (generateDebtSchedule inputs n) ! t * monthlyRate inputs"
    and "debt_principalPayments (generateDebtSchedule inputs n) ! t =
           Math_min (totalPayments inputs - debt_interestPayments (generateDebtSchedule inputs n) ! t)
             (debt_beginningBalance (generateDebtSchedule inputs n) ! t)"
    and "debt_endingBalance (generateDebtSchedule inputs n) ! t =
           debt_beginningBalance (generateDebtSchedule inputs n) ! t
           - debt_principalPayments (generateDebtSchedule inputs n) ! t"
    by (simp_all add: debt_row_ok_def)
qed

subsection \<open>Net present value and rate of return\<close>

lemma foldl_index_eq:
  "foldl (\<lambda>acc i. acc + arr_get xs i) a [0..<length xs] = foldl (+) a xs"
proof (induction xs rule: rev_induct)
  case Nil
  show ?case by simp
next
  case (snoc x xs)
  have "foldl (\<lambda>acc i. acc + arr_get (xs @ [x]) i) a [0..<length xs] =
        foldl (\<lambda>acc i. acc + arr_get xs i) a [0..<length xs]"
    by (rule foldl_cong) (simp_all add: arr_get_def nth_append)
  with snoc show ?case by (simp add: arr_get_def)
qed

lemma Math_pow_one: "Math_pow (Fin 1 + Fin 0 / Fin 12) (Fin (real i)) = Fin 1"
  by (simp add: pow_fin_def is_int_def)

lemma calculateNPV_zero: "calculateNPV cfs (Fin 0) = sum_arr cfs"
  by (simp only: calculateNPV_def Math_pow_one div_Fin_one sum_arr_def foldl_index_eq)

lemma calculateIRR_nonpositive: "\<not> Fin 0 < sum_arr cfs \<Longrightarrow> calculateIRR cfs = Fin 0"
  by (simp add: calculateIRR_def Let_def)

lemma foldl_add_const:
  "\<forall>x\<in>set xs. x = Fin c \<Longrightarrow> foldl (+) (Fin a) xs = Fin (a + real (length xs) * c)"
  by (induction xs arbitrary: a) (simp_all add: algebra_simps)

lemma sum_arr_const:
  assumes "\<And>i. i < length xs \<Longrightarrow> xs ! i = Fin c"
  shows "sum_arr xs = Fin (real (length xs) * c)"
proof -
  from assms have "\<forall>x\<in>set xs. x = Fin c" by (auto simp add: in_set_conv_nth)
  from foldl_add_const [OF this, of 0] show ?thesis by (simp add: sum_arr_def)
qed

lemma engine_scenarios_irr:
  "map (\<lambda>s. irr (results s)) (scenarios (generateFinancialModel inputs)) =
     replicate 3 (calculateIRR (netCashFlow (cashFlowStatement (generateFinancialModel inputs))))"
  by (simp add: generateFinancialModel_def Let_def generateScenarios_def
        calculateScenarioResults_def numeral_3_eq_3)

lemma template_scenarios_irr:
  "applyTemplate t raw = Inr m \<Longrightarrow> map (\<lambda>s. irr (results s)) (scenarios m) = [Fin 0]"
  by (auto simp add: applyTemplate_def Let_def te_generateScenarios_def split: sum.splits)

subsection \<open>A business that loses the same amount every period\<close>

lemma debt_schedule_zero:
  assumes n: "0 < n" and P: "initialDebt (debtStructure inputs) = 0"
    and pay: "totalPayments inputs = Fin 0" and j: "j < n"
  shows "debt_endingBalance (generateDebtSchedule inputs n) ! j = Fin 0 \<and>
         debt_interestPayments (generateDebtSchedule inputs n) ! j = Fin 0 \<and>
         debt_principalPayments (generateDebtSchedule inputs n) ! j = Fin 0"
  using j
proof (induction j)
  case 0
  show ?case by (simp add: debt_schedule_head [OF n] P)
next
  case (Suc j)
  then have e: "debt_endingBalance (generateDebtSchedule inputs n) ! j = Fin 0" by simp
  have t: "1 \<le> Suc j" by simp
  note rows = debt_rows [OF n t Suc.prems, of inputs]
  have b: "debt_beginningBalance (generateDebtSchedule inputs n) ! Suc j = Fin 0"
    using rows(1) e by simp
  have i: "debt_interestPayments (generateDebtSchedule inputs n) ! Suc j = Fin 0"
    using rows(2) b by (simp add: monthlyRate_Fin)
  have p: "debt_principalPayments (generateDebtSchedule inputs n) ! Suc j = Fin 0"
    using rows(3) b i pay by simp
  have "debt_endingBalance (generateDebtSchedule inputs n) ! Suc j = Fin 0"
    using rows(4) b p by simp
  with i p show ?case by simp
qed

lemma depreciation_zero:
  assumes c: "annualCapex (capex inputs) = 0" and j: "j < n"
  shows "dep_endingBalance (generateDepreciationSchedule inputs n) ! j = Fin 0 \<and>
         dep_depreciation (generateDepreciationSchedule inputs n) ! j = Fin 0"
  using j
proof (induction j)
  case 0
  from depreciation_loop_invariant [of n inputs] 0
  have "dep_row_ok (Fin (annualCapex (capex inputs)) / Fin 12)
          (Fin (depreciationRate (capex inputs)) / Fin 12) (generateDepreciationSchedule inputs n) 0"
    by blast
  then show ?case by (simp add: dep_row_ok_def c)
next
  case (Suc j)
  then have e: "dep_endingBalance (generateDepreciationSchedule inputs n) ! j = Fin 0" by simp
  from depreciation_loop_invariant [of n inputs] Suc.prems
  have "dep_row_ok (Fin (annualCapex (capex inputs)) / Fin 12)
          (Fin (depreciationRate (capex inputs)) / Fin 12) (generateDepreciationSchedule inputs n)
          (Suc j)"
    by blast
  then show ?case by (simp add: dep_row_ok_def c e)
qed

lemma depreciation_additions:
  "dep_additions (generateDepreciationSchedule inputs n)
     = replicate n (Fin (annualCapex (capex inputs) / 12))"
  using depreciation_loop_invariant [of n inputs] by (simp add: dep_head_ok_def)

lemma debt_newDebt_zero: "0 < n \<Longrightarrow> debt_newDebt (generateDebtSchedule inputs n) = replicate n (Fin 0)"
  using debt_loop_invariant [of n inputs] by (simp add: debt_head_ok_def)

lemma revenue_flat:
  assumes "revenueGrowth inputs = [0]" "i < n"
  shows "calculateRevenue inputs n ! i = Fin 100000"
proof -
  have "foldl (\<lambda>c k. c * (Fin 1 + growthRateAt (revenueGrowth inputs) k / Fin 12)) (Fin 100000) [0..<i]
        = foldl (\<lambda>c k. c * Fin 1) (Fin 100000) [0..<i]"
    by (rule foldl_cong) (simp_all add: growthRateAt_def assms(1))
  also have "\<dots> = Fin 100000" by (simp add: foldl_mul_Fin)
  finally show ?thesis using assms(2) by (simp add: calculateRevenue_eq)
qed

lemma flat_loss_fields:
  "revenueGrowth flat_loss_inputs = [0]"
  "percentage (costOfGoodsSold (costStructure flat_loss_inputs)) = 0.6"
  "fixedCosts (costOfGoodsSold (costStructure flat_loss_inputs)) = 0"
  "percentage (salesAndMarketing (operatingExpenses flat_loss_inputs)) = 0.5"
  "fixedCosts (salesAndMarketing (operatingExpenses flat_loss_inputs)) = 0"
  "percentage (researchAndDevelopment (operatingExpenses flat_loss_inputs)) = 0"
  "fixedCosts (researchAndDevelopment (operatingExpenses flat_loss_inputs)) = 0"
  "percentage (generalAndAdministrative (operatingExpenses flat_loss_inputs)) = 0"
  "fixedCosts (generalAndAdministrative (operatingExpenses flat_loss_inputs)) = 0"
  "annualCapex (capex flat_loss_inputs) = 0"
  "initialDebt (debtStructure flat_loss_inputs) = 0"
  "interestRate (debtStructure flat_loss_inputs) = 0.06"
  "debtMaturity (debtStructure flat_loss_inputs) = 5"
  "taxRate flat_loss_inputs = 0.25"
  by (simp_all add: flat_loss_inputs_def)

lemma flat_loss_payment: "totalPayments flat_loss_inputs = Fin 0"
proof -
  have "0 < interestRate (debtStructure flat_loss_inputs)"
    "debtMaturity (debtStructure flat_loss_inputs) = real 5" "(0::nat) < 5"
    by (simp_all add: flat_loss_fields)
  from totalPayments_years [OF this] show ?thesis by (simp add: flat_loss_fields)
qed

lemma flat_loss_netIncome:
  assumes i: "i < n" and ie: "length (debt_interestPayments dbt) = n"
    "debt_interestPayments dbt ! i = Fin 0"
  shows "netIncome (generateIncomeStatement flat_loss_inputs n dep dbt) ! i = Fin (- 10000)"
  using i ie
  by (simp add: generateIncomeStatement_def Let_def calculateCostOfGoodsSold_def
        calculateOperatingExpense_def revenue_flat [OF flat_loss_fields(1)] flat_loss_fields)

lemma flat_loss_netCashFlow:
  assumes i: "i < 60"
  shows "netCashFlow (cashFlowStatement (generateFinancialModel flat_loss_inputs)) ! i
           = Fin (- 10000)"
proof -
  have n: "(0::nat) < 60" by simp
  note d = debt_schedule_zero [OF n flat_loss_fields(11) flat_loss_payment i]
  note dp = depreciation_zero [OF flat_loss_fields(10) i, of]
  note len = debt_schedule_head(1,4) [OF n, of flat_loss_inputs]
    depreciation_schedule_head(1) [OF n, of flat_loss_inputs]
  have ni: "netIncome (generateIncomeStatement flat_loss_inputs 60
               (generateDepreciationSchedule flat_loss_inputs 60)
               (generateDebtSchedule flat_loss_inputs 60)) ! i = Fin (- 10000)"
    by (rule flat_loss_netIncome [OF i len(1)]) (simp add: d)
  have wz: "wc_changeInWorkingCapital (generateWorkingCapitalSchedule flat_loss_inputs 60)
              = replicate 60 (Fin 0)"
    by (rule workingCapital_change_zero) (simp_all add: flat_loss_inputs_def)
  show ?thesis
    using i ni
    by (simp add: generateFinancialModel_parts generateCashFlowStatement_def Let_def
          depreciation_additions debt_newDebt_zero wz
          flat_loss_fields(10) d dp len)
qed

lemma flat_loss_total:
  "sum_arr (netCashFlow (cashFlowStatement (generateFinancialModel flat_loss_inputs)))
     = Fin (- 600000)"
proof -
  have "sum_arr (netCashFlow (cashFlowStatement (generateFinancialModel flat_loss_inputs)))
      = Fin (real (length (netCashFlow (cashFlowStatement (generateFinancialModel flat_loss_inputs))))
             * (- 10000))"
    by (rule sum_arr_const) (simp add: engine_cashflow_shape(2) flat_loss_netCashFlow)
  then show ?thesis by (simp add: engine_cashflow_shape(2))
qed

subsection \<open>Finite and non-finite output\<close>

lemma no_debt_fields:
  "initialDebt (debtStructure no_debt_inputs) = 0"
  "interestRate (debtStructure no_debt_inputs) = 0.05"
  "debtMaturity (debtStructure no_debt_inputs) = 0"
  by (simp_all add: no_debt_inputs_def)

lemma no_debt_payment: "totalPayments no_debt_inputs = NaN"
  by (simp add: totalPayments_def monthlyRate_Fin no_debt_fields pow_fin_def)

lemma NaN_min [simp]: "Math_min NaN x = NaN"
  by (cases x) simp_all

lemma infinite_dso_fields:
  "daysSalesOutstanding (workingCapital infinite_dso_inputs) = PInf"
  "daysInventoryOutstanding (workingCapital infinite_dso_inputs) = Fin 0"
  "daysPayablesOutstanding (workingCapital infinite_dso_inputs) = Fin 15"
  by (simp_all add: infinite_dso_inputs_def)

lemma infinite_dso_levels:
  "monthlyRevenue * daysSalesOutstanding (workingCapital infinite_dso_inputs) / Fin 30 = PInf"
  "monthlyRevenue * daysSalesOutstanding (workingCapital infinite_dso_inputs) / Fin 30
     + monthlyCOGS * daysInventoryOutstanding (workingCapital infinite_dso_inputs) / Fin 30
     - monthlyCOGS * daysPayablesOutstanding (workingCapital infinite_dso_inputs) / Fin 30 = PInf"
  by (simp_all add: infinite_dso_fields monthlyRevenue_def monthlyCOGS_value
        times_jsnum_def divide_jsnum_def plus_jsnum_def minus_jsnum_def)

lemma test_inputs_level:
  "monthlyRevenue * daysSalesOutstanding (workingCapital test_inputs) / Fin 30
     + monthlyCOGS * daysInventoryOutstanding (workingCapital test_inputs) / Fin 30
     - monthlyCOGS * daysPayablesOutstanding (workingCapital test_inputs) / Fin 30 = Fin 70000"
  by (simp add: test_inputs_fields monthlyRevenue_def monthlyCOGS_value)

lemma principal_nonneg:
  "Fin 0 \<le> Math_min x y \<longleftrightarrow> Fin 0 \<le> y \<and> Fin 0 \<le> x"
  by (cases x; cases y) (auto simp add: less_eq_jsnum_def)

lemma finite_principal:
  "p \<noteq> NaN \<Longrightarrow> p \<noteq> NInf \<Longrightarrow> finite_num i \<Longrightarrow> finite_num b \<Longrightarrow> finite_num (Math_min (p - i) b)"
  by (cases p; cases i; cases b) (simp_all add: minus_jsnum_def plus_jsnum_def uminus_jsnum_def)

lemma nonfinite_principal:
  "p = NaN \<or> p = NInf \<Longrightarrow> finite_num i \<Longrightarrow> finite_num b \<Longrightarrow> \<not> finite_num (Math_min (p - i) b)"
  by (cases p; cases i; cases b) (simp_all add: minus_jsnum_def plus_jsnum_def uminus_jsnum_def)

lemma debt_schedule_finite:
  assumes pay: "totalPayments inputs \<noteq> NaN" "totalPayments inputs \<noteq> NInf" and n: "0 < n"
  shows "fin_arr n (debt_beginningBalance (generateDebtSchedule inputs n)) \<and>
   fin_arr n (debt_newDebt (generateDebtSchedule inputs n)) \<and>
   fin_arr n (debt_principalPayments (generateDebtSchedule inputs n)) \<and>
   fin_arr n (debt_interestPayments (generateDebtSchedule inputs n)) \<and>
   fin_arr n (debt_endingBalance (generateDebtSchedule inputs n))"
proof -
  define s where "s = generateDebtSchedule inputs n"
  define r where "r = monthlyRate inputs"
  define p where "p = totalPayments inputs"
  have fr: "finite_num r" by (simp add: r_def monthlyRate_def)
  have fp: "p \<noteq> NaN" "p \<noteq> NInf" using pay by (simp_all add: p_def)
  from debt_loop_invariant [OF n, of inputs]
  have h: "debt_head_ok n (Fin (initialDebt (debtStructure inputs))) s"
    and rows: "\<And>j. 1 \<le> j \<Longrightarrow> j < n \<Longrightarrow> debt_row_ok r p s j"
    by (simp_all add: s_def r_def p_def)
  have fin: "finite_num (debt_beginningBalance s ! j) \<and> finite_num (debt_interestPayments s ! j)
             \<and> finite_num (debt_principalPayments s ! j)
             \<and> finite_num (debt_endingBalance s ! j)" if "j < n" for j
    using that
  proof (induction j)
    case 0
    with h show ?case
      by (simp add: debt_head_ok_def)
  next
    case (Suc j)
    then have e: "finite_num (debt_endingBalance s ! j)" by simp
    from rows [of "Suc j"] Suc.prems
    have row: "debt_beginningBalance s ! Suc j = debt_endingBalance s ! j"
      "debt_interestPayments s ! Suc j = debt_beginningBalance s ! Suc j * r"
      "debt_principalPayments s ! Suc j =
         Math_min (p - debt_interestPayments s ! Suc j) (debt_beginningBalance s ! Suc j)"
      "debt_endingBalance s ! Suc j =
         debt_beginningBalance s ! Suc j - debt_principalPayments s ! Suc j"
      by (simp_all add: debt_row_ok_def)
    have b: "finite_num (debt_beginningBalance s ! Suc j)" using row(1) e by simp
    have i: "finite_num (debt_interestPayments s ! Suc j)" using row(2) b fr by simp
    have c: "finite_num (debt_principalPayments s ! Suc j)"
      unfolding row(3) by (rule finite_principal [OF fp i b])
    have "finite_num (debt_endingBalance s ! Suc j)" using row(4) b c by simp
    with b i c show ?case by simp
  qed
  from h have len: "length (debt_beginningBalance s) = n" "length (debt_interestPayments s) = n"
      "length (debt_principalPayments s) = n" "length (debt_endingBalance s) = n"
    and nd: "debt_newDebt s = replicate n (Fin 0)"
    by (simp_all add: debt_head_ok_def)
  show ?thesis
    unfolding s_def [symmetric]
    using fin len by (auto intro!: fin_arrI simp add: nd)
qed

lemma payment_reaches_schedule:
  assumes "totalPayments inputs = NaN \<or> totalPayments inputs = NInf" and n: "1 < n"
  shows "\<not> finite_num (debt_principalPayments (generateDebtSchedule inputs n) ! 1)"
proof -
  from n have n0: "0 < n" by simp
  have t: "(1::nat) \<le> 1" by simp
  note rows = debt_rows [OF n0 t n, of inputs]
  have b: "debt_beginningBalance (generateDebtSchedule inputs n) ! 1
             = Fin (initialDebt (debtStructure inputs))"
    using rows(1) debt_schedule_head(7) [OF n0, of inputs] by simp
  then have fb: "finite_num (debt_beginningBalance (generateDebtSchedule inputs n) ! 1)" by simp
  have fi: "finite_num (debt_interestPayments (generateDebtSchedule inputs n) ! 1)"
    using rows(2) b by (simp add: monthlyRate_Fin)
  show ?thesis
    unfolding rows(3) by (rule nonfinite_principal [OF assms(1) fi fb])
qed

lemma empty_growth_reaches_revenue:
  assumes "revenueGrowth inputs = []" "1 < n"
  shows "calculateRevenue inputs n ! 1 = NaN"
  using assms by (simp add: calculateRevenue_eq growthRateAt_def)

lemma not_fin_arr: "i < n \<Longrightarrow> \<not> finite_num (xs ! i) \<Longrightarrow> \<not> fin_arr n xs"
  by (auto simp add: fin_arr_def)

lemma engine_arrays_finite:
  assumes rg: "revenueGrowth inputs \<noteq> []"
    and pay: "totalPayments inputs \<noteq> NaN" "totalPayments inputs \<noteq> NInf"
    and days: "finite_num (daysSalesOutstanding (workingCapital inputs))"
      "finite_num (daysInventoryOutstanding (workingCapital inputs))"
      "finite_num (daysPayablesOutstanding (workingCapital inputs))"
  shows "list_all (fin_arr 60) (engine_arrays (generateFinancialModel inputs))"
proof -
  have n: "(0::nat) < 60" by simp
  note dp = depreciation_finite [of 60 inputs]
  note db = debt_schedule_finite [OF pay n]
  note wc = workingCapital_finite [OF days, of 60]
  from dp have dp': "fin_arr 60 (dep_beginningBalance (generateDepreciationSchedule inputs 60))"
    "fin_arr 60 (dep_additions (generateDepreciationSchedule inputs 60))"
    "fin_arr 60 (dep_depreciation (generateDepreciationSchedule inputs 60))"
    "fin_arr 60 (dep_endingBalance (generateDepreciationSchedule inputs 60))"
    by simp_all
  from db have db': "fin_arr 60 (debt_beginningBalance (generateDebtSchedule inputs 60))"
    "fin_arr 60 (debt_newDebt (generateDebtSchedule inputs 60))"
    "fin_arr 60 (debt_principalPayments (generateDebtSchedule inputs 60))"
    "fin_arr 60 (debt_interestPayments (generateDebtSchedule inputs 60))"
    "fin_arr 60 (debt_endingBalance (generateDebtSchedule inputs 60))"
    by simp_all
  from wc have wc': "fin_arr 60 (wc_accountsReceivable (generateWorkingCapitalSchedule inputs 60))"
    "fin_arr 60 (wc_inventory (generateWorkingCapitalSchedule inputs 60))"
    "fin_arr 60 (wc_accountsPayable (generateWorkingCapitalSchedule inputs 60))"
    "fin_arr 60 (wc_netWorkingCapital (generateWorkingCapitalSchedule inputs 60))"
    "fin_arr 60 (wc_changeInWorkingCapital (generateWorkingCapitalSchedule inputs 60))"
    by simp_all
  note ist = incomeStatement_finite [OF db'(4) rg,
      of "generateDepreciationSchedule inputs 60"]
  note bsh = balanceSheet_finite [OF ist(11) ist(1) wc'(1,2,3) dp'(3,4) db'(5), of inputs]
  note cfs = cashFlowStatement_finite [OF ist(11) dp'(3,2) wc'(5) db'(2,3,4), of inputs]
  show ?thesis
    by (simp add: engine_arrays_def generateFinancialModel_parts dp' db' wc' ist bsh cfs)
qed

lemma engine_arrays_not_finite:
  assumes "revenueGrowth inputs = [] \<or>
           totalPayments inputs = NaN \<or> totalPayments inputs = NInf \<or>
           \<not> finite_num (daysSalesOutstanding (workingCapital inputs)) \<or>
           \<not> finite_num (daysInventoryOutstanding (workingCapital inputs)) \<or>
           \<not> finite_num (daysPayablesOutstanding (workingCapital inputs))"
  shows "\<not> list_all (fin_arr 60) (engine_arrays (generateFinancialModel inputs))"
proof -
  have n: "(1::nat) < 60" "(0::nat) < 60" by simp_all
  from assms consider
      (rg) "revenueGrowth inputs = []"
    | (pay) "totalPayments inputs = NaN \<or> totalPayments inputs = NInf"
    | (dso) "\<not> finite_num (daysSalesOutstanding (workingCapital inputs))"
    | (dio) "\<not> finite_num (daysInventoryOutstanding (workingCapital inputs))"
    | (dpo) "\<not> finite_num (daysPayablesOutstanding (workingCapital inputs))"
    by blast
  then show ?thesis
  proof cases
    case rg
    have "\<not> fin_arr 60 (revenue (incomeStatement (generateFinancialModel inputs)))"
      by (rule not_fin_arr [OF n(1)])
        (simp add: generateFinancialModel_parts generateIncomeStatement_def Let_def
           empty_growth_reaches_revenue [OF rg n(1), unfolded One_nat_def])
    then show ?thesis by (simp add: engine_arrays_def)
  next
    case pay
    have "\<not> fin_arr 60 (debt_principalPayments (debtSchedule (schedules (generateFinancialModel inputs))))"
      unfolding generateFinancialModel_parts
      by (rule not_fin_arr [OF n(1) payment_reaches_schedule [OF pay n(1)]])
    then show ?thesis by (simp add: engine_arrays_def)
  next
    case dso
    have "\<not> fin_arr 60 (wc_accountsReceivable (workingCapitalSchedule (schedules (generateFinancialModel inputs))))"
      by (rule not_fin_arr [OF n(2)])
        (simp add: generateFinancialModel_parts workingCapital_schedule_eq monthlyRevenue_def dso)
    then show ?thesis by (simp add: engine_arrays_def)
  next
    case dio
    have "\<not> fin_arr 60 (wc_inventory (workingCapitalSchedule (schedules (generateFinancialModel inputs))))"
      by (rule not_fin_arr [OF n(2)])
        (simp add: generateFinancialModel_parts workingCapital_schedule_eq monthlyCOGS_value dio)
    then show ?thesis by (simp add: engine_arrays_def)
  next
    case dpo
    have "\<not> fin_arr 60 (wc_accountsPayable (workingCapitalSchedule (schedules (generateFinancialModel inputs))))"
      by (rule not_fin_arr [OF n(2)])
        (simp add: generateFinancialModel_parts workingCapital_schedule_eq monthlyCOGS_value dpo)
    then show ?thesis by (simp add: engine_arrays_def)
  qed
qed

subsection \<open>A business that invests in period 0\<close>

lemma foldl_mul_Fin_list:
  "foldl (\<lambda>c k. c * Fin q) (Fin a) xs = Fin (a * q ^ length xs)"
  by (induction xs arbitrary: a) (simp_all add: mult.assoc)

lemma revenue_step:
  assumes "revenueGrowth inputs = [12, 0]" "i < n"
  shows "calculateRevenue inputs n ! i = Fin (if i = 0 then 100000 else 200000)"
proof (cases i)
  case 0
  with assms show ?thesis by (simp add: calculateRevenue_eq)
next
  case (Suc k)
  let ?f = "\<lambda>c k. c * (Fin 1 + growthRateAt (revenueGrowth inputs) k / Fin 12)"
  have "foldl ?f (Fin 100000) [0..<Suc k] = foldl ?f (?f (Fin 100000) 0) [Suc 0..<Suc k]"
    by (simp add: upt_conv_Cons del: upt_Suc)
  also have "?f (Fin 100000) 0 = Fin 200000"
    by (simp add: growthRateAt_def assms(1))
  also have "foldl ?f (Fin 200000) [Suc 0..<Suc k] =
             foldl (\<lambda>c k. c * Fin 1) (Fin 200000) [Suc 0..<Suc k]"
    by (rule foldl_cong) (auto simp add: growthRateAt_def assms(1) min_def)
  also have "\<dots> = Fin 200000" by (simp only: foldl_mul_Fin_list) simp
  finally show ?thesis using assms(2) Suc by (simp add: calculateRevenue_eq)
qed

lemma step_growth_fields:
  "revenueGrowth step_growth_inputs = [12, 0]"
  "percentage (costOfGoodsSold (costStructure step_growth_inputs)) = 0"
  "fixedCosts (costOfGoodsSold (costStructure step_growth_inputs)) = 0"
  "percentage (salesAndMarketing (operatingExpenses step_growth_inputs)) = 0"
  "fixedCosts (salesAndMarketing (operatingExpenses step_growth_inputs)) = 150000"
  "percentage (researchAndDevelopment (operatingExpenses step_growth_inputs)) = 0"
  "fixedCosts (researchAndDevelopment (operatingExpenses step_growth_inputs)) = 0"
  "percentage (generalAndAdministrative (operatingExpenses step_growth_inputs)) = 0"
  "fixedCosts (generalAndAdministrative (operatingExpenses step_growth_inputs)) = 0"
  "annualCapex (capex step_growth_inputs) = 0"
  "initialDebt (debtStructure step_growth_inputs) = 0"
  "interestRate (debtStructure step_growth_inputs) = 0.06"
  "debtMaturity (debtStructure step_growth_inputs) = 5"
  "taxRate step_growth_inputs = 0"
  by (simp_all add: step_growth_inputs_def)

lemma step_growth_payment: "totalPayments step_growth_inputs = Fin 0"
proof -
  have "0 < interestRate (debtStructure step_growth_inputs)"
    "debtMaturity (debtStructure step_growth_inputs) = real 5" "(0::nat) < 5"
    by (simp_all add: step_growth_fields)
  from totalPayments_years [OF this] show ?thesis by (simp add: step_growth_fields)
qed

lemma step_growth_netIncome:
  assumes i: "i < n" and ie: "length (debt_interestPayments dbt) = n"
    "debt_interestPayments dbt ! i = Fin 0"
  shows "netIncome (generateIncomeStatement step_growth_inputs n dep dbt) ! i
           = Fin (if i = 0 then - 50000 else 50000)"
  using i ie
  by (simp add: generateIncomeStatement_def Let_def calculateCostOfGoodsSold_def
        calculateOperatingExpense_def revenue_step [OF step_growth_fields(1)] step_growth_fields)

lemma step_growth_netCashFlow:
  assumes i: "i < 60"
  shows "netCashFlow (cashFlowStatement (generateFinancialModel step_growth_inputs)) ! i
           = Fin (if i = 0 then - 50000 else 50000)"
proof -
  have n: "(0::nat) < 60" by simp
  note d = debt_schedule_zero [OF n step_growth_fields(11) step_growth_payment i]
  note dp = depreciation_zero [OF step_growth_fields(10) i, of]
  note len = debt_schedule_head(1,4) [OF n, of step_growth_inputs]
    depreciation_schedule_head(1) [OF n, of step_growth_inputs]
  have ni: "netIncome (generateIncomeStatement step_growth_inputs 60
               (generateDepreciationSchedule step_growth_inputs 60)
               (generateDebtSchedule step_growth_inputs 60)) ! i
             = Fin (if i = 0 then - 50000 else 50000)"
    by (rule step_growth_netIncome [OF i len(1)]) (simp add: d)
  have wz: "wc_changeInWorkingCapital (generateWorkingCapitalSchedule step_growth_inputs 60)
              = replicate 60 (Fin 0)"
    by (rule workingCapital_change_zero) (simp_all add: step_growth_inputs_def)
  show ?thesis
    using i ni
    by (simp add: generateFinancialModel_parts generateCashFlowStatement_def Let_def
          depreciation_additions debt_newDebt_zero wz
          step_growth_fields(10) d dp len)
qed

subsection \<open>The net present value of finite cash flows\<close>

lemma calculateNPV_Fin:
  assumes c: "\<And>i. i < length cfs \<Longrightarrow> cfs ! i = Fin (c i)" and q: "1 + R / 12 \<noteq> 0"
  shows "calculateNPV cfs (Fin R) = Fin (\<Sum>i<length cfs. c i / (1 + R / 12) ^ i)"
proof -
  let ?F = "\<lambda>acc i. acc + arr_get cfs i / Math_pow (Fin 1 + Fin R / Fin 12) (Fin (real i))"
  have "k \<le> length cfs \<Longrightarrow> foldl ?F (Fin 0) [0..<k] = Fin (\<Sum>i<k. c i / (1 + R / 12) ^ i)" for k
  proof (induction k)
    case 0
    show ?case by simp
  next
    case (Suc k)
    then have k: "k < length cfs" by simp
    have "Math_pow (Fin 1 + Fin R / Fin 12) (Fin (real k)) = Fin ((1 + R / 12) ^ k)"
      using q by (simp add: pow_fin_nat)
    with Suc k c [OF k] q show ?case by simp
  qed
  from this [of "length cfs"] show ?thesis by (simp add: calculateNPV_def)
qed

lemma step_flow_sum:
  fixes q A :: real
  assumes "q \<noteq> 0" "q \<noteq> 1"
  shows "(\<Sum>i<Suc m. (if i = 0 then - A else A) / q ^ i) = - A + A * (1 - (1 / q) ^ m) / (q - 1)"
proof (induction m)
  case 0
  show ?case by simp
next
  case (Suc m)
  have "(\<Sum>i<Suc (Suc m). (if i = 0 then - A else A) / q ^ i) =
        (\<Sum>i<Suc m. (if i = 0 then - A else A) / q ^ i) + A / q ^ Suc m"
    by simp
  also have "\<dots> = - A + A * (1 - (1 / q) ^ m) / (q - 1) + A / q ^ Suc m"
    by (simp only: Suc.IH)
  also have "\<dots> = - A + A * (1 - (1 / q) ^ Suc m) / (q - 1)"
    using assms by (simp add: field_simps power_divide)
  finally show ?case .
qed

lemma step_growth_npv:
  assumes "1 + R / 12 \<noteq> 0" "1 + R / 12 \<noteq> 1"
  shows "calculateNPV (netCashFlow (cashFlowStatement (generateFinancialModel step_growth_inputs)))
           (Fin R)
         = Fin (- 50000 + 50000 * (1 - (1 / (1 + R / 12)) ^ 59) / (1 + R / 12 - 1))"
proof -
  let ?cfs = "netCashFlow (cashFlowStatement (generateFinancialModel step_growth_inputs))"
  have len: "length ?cfs = 60" by (rule engine_cashflow_shape(2))
  have "calculateNPV ?cfs (Fin R) =
          Fin (\<Sum>i<length ?cfs. (if i = 0 then - 50000 else 50000) / (1 + R / 12) ^ i)"
    by (rule calculateNPV_Fin [OF _ assms(1)]) (simp add: len step_growth_netCashFlow)
  also have "(\<Sum>i<length ?cfs. (if i = 0 then - 50000 else 50000) / (1 + R / 12) ^ i) =
             (\<Sum>i<Suc 59. (if i = 0 then - 50000 else 50000) / (1 + R / 12) ^ i)"
    by (simp only: len) simp
  also have "\<dots> = - 50000 + 50000 * (1 - (1 / (1 + R / 12)) ^ 59) / (1 + R / 12 - 1)"
    by (rule step_flow_sum [OF assms])
  finally show ?thesis .
qed

lemma step_growth_total:
  "sum_arr (netCashFlow (cashFlowStatement (generateFinancialModel step_growth_inputs)))
     = Fin 2900000"
proof -
  let ?cfs = "netCashFlow (cashFlowStatement (generateFinancialModel step_growth_inputs))"
  have len: "length ?cfs = 60" by (rule engine_cashflow_shape(2))
  have "sum_arr ?cfs = calculateNPV ?cfs (Fin 0)" by (simp only: calculateNPV_zero)
  also have "\<dots> = Fin (\<Sum>i<length ?cfs. (if i = 0 then - 50000 else 50000) / (1 + 0 / 12) ^ i)"
    by (rule calculateNPV_Fin) (simp_all add: len step_growth_netCashFlow)
  also have "(\<Sum>i<length ?cfs. (if i = 0 then - 50000 else 50000) / (1 + 0 / 12) ^ i)
             = (\<Sum>i<Suc 59. (if i = 0 then - 50000 else 50000 :: real))"
    by (simp only: len) simp
  also have "\<dots> = 2900000"
    by (simp only: sum.lessThan_Suc_shift) simp
  finally show ?thesis .
qed

lemma step_growth_irr:
  "calculateIRR (netCashFlow (cashFlowStatement (generateFinancialModel step_growth_inputs)))
     = Fin 684"
  using step_growth_netCashFlow [of 0]
  by (simp add: calculateIRR_def Let_def step_growth_total engine_cashflow_shape(2))

lemma step_growth_npv_values:
  "calculateNPV (netCashFlow (cashFlowStatement (generateFinancialModel step_growth_inputs)))
     (Fin 684) = Fin (- 50000 + 50000 * (1 - (1 / 58) ^ 59) / 57)"
  "calculateNPV (netCashFlow (cashFlowStatement (generateFinancialModel step_growth_inputs)))
     (Fin 12) = Fin (- 50000 / 2 ^ 59)"
  using step_growth_npv [of 684] step_growth_npv [of 12] by (simp_all add: power_divide)

section \<open>Claims\<close>



text \<open>
  C2.  The balance sheets that the code generates, in period 0.  For the default template on
  the inputs \<open>{initial_revenue: 10000, revenue_growth_rate: 0.05}\<close>: assets 50000,
  liabilities 0, equity 103000.  For the modelling engine on the inputs of its own test:
  assets 1386875/9 (about 154097), liabilities 130000, equity -55000.
\<close>

theorem balance_sheet_period0_values:
  "\<not> isl (generate ''not_a_real_type'' unknown_template_inputs) \<and>
   totalAssets (balanceSheet (projr (generate ''not_a_real_type'' unknown_template_inputs))) ! 0
     = Fin 50000 \<and>
   totalLiabilities (balanceSheet (projr (generate ''not_a_real_type'' unknown_template_inputs))) ! 0
     = Fin 0 \<and>
   totalEquity (balanceSheet (projr (generate ''not_a_real_type'' unknown_template_inputs))) ! 0
     = Fin 103000 \<and>
   totalAssets (balanceSheet (generateFinancialModel test_inputs)) ! 0 = Fin (1386875 / 9) \<and>
   totalLiabilities (balanceSheet (generateFinancialModel test_inputs)) ! 0 = Fin 130000 \<and>
   totalEquity (balanceSheet (generateFinancialModel test_inputs)) ! 0 = Fin (- 55000)"
  by (simp add: unknown_model default_period0 test_model_period0)




text \<open>
  C4, as stated, fails in period 0.  For the inputs of the repository's first test (a debt of
  100000 at 5% over 5 years) the schedule charges no interest in period 0, where the opening
  balance times the monthly rate is 1250/3, and repays no principal.
\<close>

theorem debt_period0_has_no_payment:
  "debt_beginningBalance (debtSchedule (schedules (generateFinancialModel test_inputs))) ! 0
     = Fin 100000 \<and>
   debt_beginningBalance (debtSchedule (schedules (generateFinancialModel test_inputs))) ! 0
     * monthlyRate test_inputs = Fin (1250 / 3) \<and>
   debt_interestPayments (debtSchedule (schedules (generateFinancialModel test_inputs))) ! 0
     = Fin 0 \<and>
   debt_principalPayments (debtSchedule (schedules (generateFinancialModel test_inputs))) ! 0
     = Fin 0"
  by (simp add: generateFinancialModel_parts debt_schedule_head monthlyRate_Fin
        test_inputs_fields)

text \<open>
  C4, amended.  In a debt schedule of \<open>n > 0\<close> periods, period 0 opens and closes at the
  initial debt \<open>P\<close> with no interest and no principal payment.  Every later period \<open>t\<close> opens
  at the closing balance of the period before, pays the interest \<open>beginning[t] * r\<close> with
  \<open>r\<close> the annual rate over 12, repays \<open>min (payment - interest[t], beginning[t])\<close> and closes
  at \<open>beginning[t] - principal[t]\<close>, where the payment is
  \<open>P * (r * (1 + r)^(12 m)) / ((1 + r)^(12 m) - 1)\<close> for a maturity of \<open>m\<close> years, as the
  program computes it.  The principal payment of such a period is not negative exactly
  when the opening balance is not negative and the payment less the interest, as the program
  computes it, is not negative: the minimum caps it at the balance and nothing floors it at
  zero.
\<close>

theorem debt_schedule_amortizes_from_period_1:
  assumes "0 < n"
  shows
  "debt_beginningBalance (generateDebtSchedule inputs n) ! 0
     = Fin (initialDebt (debtStructure inputs)) \<and>
   debt_interestPayments (generateDebtSchedule inputs n) ! 0 = Fin 0 \<and>
   debt_principalPayments (generateDebtSchedule inputs n) ! 0 = Fin 0 \<and>
   debt_endingBalance (generateDebtSchedule inputs n) ! 0
     = Fin (initialDebt (debtStructure inputs)) \<and>
   (\<forall>t. 1 \<le> t \<and> t < n \<longrightarrow>
      debt_beginningBalance (generateDebtSchedule inputs n) ! t =
        debt_endingBalance (generateDebtSchedule inputs n) ! (t - 1) \<and>
      debt_interestPayments (generateDebtSchedule inputs n) ! t =
        debt_beginningBalance (generateDebtSchedule inputs n) ! t
        * (Fin (interestRate (debtStructure inputs)) / Fin 12) \<and>
      debt_principalPayments (generateDebtSchedule inputs n) ! t =
        Math_min (totalPayments inputs - debt_interestPayments (generateDebtSchedule inputs n) ! t)
          (debt_beginningBalance (generateDebtSchedule inputs n) ! t) \<and>
      debt_endingBalance (generateDebtSchedule inputs n) ! t =
        debt_beginningBalance (generateDebtSchedule inputs n) ! t
        - debt_principalPayments (generateDebtSchedule inputs n) ! t \<and>
      (Fin 0 \<le> debt_principalPayments (generateDebtSchedule inputs n) ! t \<longleftrightarrow>
         Fin 0 \<le> debt_beginningBalance (generateDebtSchedule inputs n) ! t \<and>
         Fin 0 \<le> totalPayments inputs
                  - debt_interestPayments (generateDebtSchedule inputs n) ! t)) \<and>
   totalPayments inputs =
     Fin (initialDebt (debtStructure inputs))
       * (Fin (interestRate (debtStructure inputs)) / Fin 12
          * Math_pow (Fin 1 + Fin (interestRate (debtStructure inputs)) / Fin 12)
              (Fin (debtMaturity (debtStructure inputs)) * Fin 12))
       / (Math_pow (Fin 1 + Fin (interestRate (debtStructure inputs)) / Fin 12)
            (Fin (debtMaturity (debtStructure inputs)) * Fin 12)
          - Fin 1)"
proof (intro conjI allI impI)
  show "debt_beginningBalance (generateDebtSchedule inputs n) ! 0
     = Fin (initialDebt (debtStructure inputs))"
    "debt_interestPayments (generateDebtSchedule inputs n) ! 0 = Fin 0"
    "debt_principalPayments (generateDebtSchedule inputs n) ! 0 = Fin 0"
    "debt_endingBalance (generateDebtSchedule inputs n) ! 0
     = Fin (initialDebt (debtStructure inputs))"
    by (simp_all only: debt_schedule_head [OF assms])
next
  fix t assume "1 \<le> t \<and> t < n"
  then have t: "1 \<le> t" "t < n" by simp_all
  note rows = debt_rows [OF assms t, of inputs]
  show "debt_beginningBalance (generateDebtSchedule inputs n) ! t =
        debt_endingBalance (generateDebtSchedule inputs n) ! (t - 1)"
    by (rule rows(1))
  show "debt_interestPayments (generateDebtSchedule inputs n) ! t =
        debt_beginningBalance (generateDebtSchedule inputs n) ! t
        * (Fin (interestRate (debtStructure inputs)) / Fin 12)"
    by (rule rows(2) [unfolded monthlyRate_def])
  show "debt_principalPayments (generateDebtSchedule inputs n) ! t =
        Math_min (totalPayments inputs - debt_interestPayments (generateDebtSchedule inputs n) ! t)
          (debt_beginningBalance (generateDebtSchedule inputs n) ! t)"
    by (rule rows(3))
  show "debt_endingBalance (generateDebtSchedule inputs n) ! t =
        debt_beginningBalance (generateDebtSchedule inputs n) ! t
        - debt_principalPayments (generateDebtSchedule inputs n) ! t"
    by (rule rows(4))
  show "Fin 0 \<le> debt_principalPayments (generateDebtSchedule inputs n) ! t \<longleftrightarrow>
         Fin 0 \<le> debt_beginningBalance (generateDebtSchedule inputs n) ! t \<and>
         Fin 0 \<le> totalPayments inputs
                  - debt_interestPayments (generateDebtSchedule inputs n) ! t"
    by (simp only: rows(3) principal_nonneg)
next
  show "totalPayments inputs =
     Fin (initialDebt (debtStructure inputs))
       * (Fin (interestRate (debtStructure inputs)) / Fin 12
          * Math_pow (Fin 1 + Fin (interestRate (debtStructure inputs)) / Fin 12)
              (Fin (debtMaturity (debtStructure inputs)) * Fin 12))
       / (Math_pow (Fin 1 + Fin (interestRate (debtStructure inputs)) / Fin 12)
            (Fin (debtMaturity (debtStructure inputs)) * Fin 12)
          - Fin 1)"
    by (simp only: totalPayments_def monthlyRate_def)
qed

theorem debt_schedule_amortizes_from_period_1_witness:
  "debt_beginningBalance (generateDebtSchedule test_inputs 60) ! 1 = Fin 100000 \<and>
   debt_interestPayments (generateDebtSchedule test_inputs 60) ! 1 = Fin (1250 / 3) \<and>
   totalPayments test_inputs
     = Fin (100000 * (0.05 / 12 * (1 + 0.05 / 12) ^ 60) / ((1 + 0.05 / 12) ^ 60 - 1)) \<and>
   Fin 0 \<le> totalPayments test_inputs - debt_interestPayments (generateDebtSchedule test_inputs 60) ! 1 \<and>
   Fin 0 \<le> debt_principalPayments (generateDebtSchedule test_inputs 60) ! 1"
proof -
  have n: "(0::nat) < 60" by simp
  note th = debt_schedule_amortizes_from_period_1 [OF n, of test_inputs]
  note f = test_inputs_fields(14,15,16)
  have pay: "totalPayments test_inputs
     = Fin (100000 * (0.05 / 12 * (1 + 0.05 / 12) ^ 60) / ((1 + 0.05 / 12) ^ 60 - 1))"
    using totalPayments_years [of test_inputs 5] by (simp add: f)
  have r1: "(1::nat) \<le> 1 \<and> (1::nat) < 60" by simp
  note e0 = th [THEN conjunct2, THEN conjunct2, THEN conjunct2, THEN conjunct1]
  note row = th [THEN conjunct2, THEN conjunct2, THEN conjunct2, THEN conjunct2,
      THEN conjunct1, rule_format, OF r1]
  from row [THEN conjunct1] e0
  have b1: "debt_beginningBalance (generateDebtSchedule test_inputs 60) ! 1 = Fin 100000"
    by (simp add: f)
  from row [THEN conjunct2, THEN conjunct1] b1
  have i1: "debt_interestPayments (generateDebtSchedule test_inputs 60) ! 1 = Fin (1250 / 3)"
    by (simp add: f)
  have "(1250::real) / 3 \<le> 100000 * (0.05 / 12 * (1 + 0.05 / 12) ^ 60) / ((1 + 0.05 / 12) ^ 60 - 1)"
    using annuity_covers_interest [of 100000 "0.05 / 12" "(1 + 0.05 / 12) ^ 60" 100000]
    by (simp add: one_less_power)
  then have cov: "Fin 0 \<le> totalPayments test_inputs
      - debt_interestPayments (generateDebtSchedule test_inputs 60) ! 1"
    by (simp only: pay i1 Fin_sub Fin_less_eq)
  have "Fin 0 \<le> debt_beginningBalance (generateDebtSchedule test_inputs 60) ! 1"
    by (simp only: b1 Fin_less_eq)
  with cov row [THEN conjunct2, THEN conjunct2, THEN conjunct2, THEN conjunct2]
  have p1: "Fin 0 \<le> debt_principalPayments (generateDebtSchedule test_inputs 60) ! 1"
    by blast
  show ?thesis by (intro conjI b1 i1 pay cov p1)
qed

text \<open>
  C5, as stated, fails.  A business that loses 50000 in period 0 and earns 50000 in each of
  the 59 later periods has a rate of return of 12 a year (100% a month): the net present
  value of its cash flows, positive at the rate 0, is within a thousandth of 0 at the
  rate 12.  Every scenario reports an IRR of 684, the ratio \<open>(2900000 / 50000 - 1) * 12\<close>, at
  which the net present value is below -49000.
\<close>

theorem reported_irr_misses_the_root:
  "map (\<lambda>s. irr (results s)) (scenarios (generateFinancialModel step_growth_inputs))
     = [Fin 684, Fin 684, Fin 684] \<and>
   calculateNPV (netCashFlow (cashFlowStatement (generateFinancialModel step_growth_inputs)))
     (Fin 684) < Fin (- 49000) \<and>
   Fin 0 < calculateNPV (netCashFlow (cashFlowStatement (generateFinancialModel step_growth_inputs)))
     (Fin 0) \<and>
   Math_abs
     (calculateNPV (netCashFlow (cashFlowStatement (generateFinancialModel step_growth_inputs)))
        (Fin 12)) < Fin (1 / 1000)"
  by (simp add: engine_scenarios_irr step_growth_irr step_growth_npv_values calculateNPV_zero
        step_growth_total numeral_3_eq_3 power_divide)

text \<open>
  C5, amended.  The modelling engine reports the same IRR for its three scenarios, computed
  from the net cash flows of the model without any search for a root of the net present
  value: when their total is positive it is \<open>(total / |netCashFlow[0]| - 1) * 12\<close>, and 0
  otherwise.  When the total is not positive the net present value at the reported IRR is
  that total.  The template engine reports one scenario, with an IRR of 0.
\<close>

theorem irr_is_a_ratio_of_total_cash_flow:
  "map (\<lambda>s. irr (results s)) (scenarios (generateFinancialModel inputs)) =
     replicate 3
       (if Fin 0 < sum_arr (netCashFlow (cashFlowStatement (generateFinancialModel inputs)))
        then (sum_arr (netCashFlow (cashFlowStatement (generateFinancialModel inputs)))
                / Math_abs (arr_get (netCashFlow (cashFlowStatement (generateFinancialModel inputs))) 0)
              - Fin 1) * Fin 12
        else Fin 0) \<and>
   (\<not> Fin 0 < sum_arr (netCashFlow (cashFlowStatement (generateFinancialModel inputs))) \<longrightarrow>
      calculateNPV (netCashFlow (cashFlowStatement (generateFinancialModel inputs)))
        (calculateIRR (netCashFlow (cashFlowStatement (generateFinancialModel inputs))))
      = sum_arr (netCashFlow (cashFlowStatement (generateFinancialModel inputs)))) \<and>
   (\<forall>m. applyTemplate template raw = Inr m \<longrightarrow>
      map (\<lambda>s. irr (results s)) (scenarios m) = [Fin 0])"
proof (intro conjI allI impI)
  show "map (\<lambda>s. irr (results s)) (scenarios (generateFinancialModel inputs)) =
     replicate 3
       (if Fin 0 < sum_arr (netCashFlow (cashFlowStatement (generateFinancialModel inputs)))
        then (sum_arr (netCashFlow (cashFlowStatement (generateFinancialModel inputs)))
                / Math_abs (arr_get (netCashFlow (cashFlowStatement (generateFinancialModel inputs))) 0)
              - Fin 1) * Fin 12
        else Fin 0)"
    by (simp only: engine_scenarios_irr calculateIRR_def Let_def)
next
  assume "\<not> Fin 0 < sum_arr (netCashFlow (cashFlowStatement (generateFinancialModel inputs)))"
  then show "calculateNPV (netCashFlow (cashFlowStatement (generateFinancialModel inputs)))
        (calculateIRR (netCashFlow (cashFlowStatement (generateFinancialModel inputs))))
      = sum_arr (netCashFlow (cashFlowStatement (generateFinancialModel inputs)))"
    by (simp add: calculateIRR_nonpositive calculateNPV_zero)
next
  fix m assume "applyTemplate template raw = Inr m"
  then show "map (\<lambda>s. irr (results s)) (scenarios m) = [Fin 0]"
    by (rule template_scenarios_irr)
qed

theorem irr_is_a_ratio_of_total_cash_flow_witness:
  "sum_arr (netCashFlow (cashFlowStatement (generateFinancialModel step_growth_inputs)))
     = Fin 2900000 \<and>
   arr_get (netCashFlow (cashFlowStatement (generateFinancialModel step_growth_inputs))) 0
     = Fin (- 50000) \<and>
   map (\<lambda>s. irr (results s)) (scenarios (generateFinancialModel step_growth_inputs))
     = replicate 3 (Fin 684) \<and>
   \<not> Fin 0 < sum_arr (netCashFlow (cashFlowStatement (generateFinancialModel flat_loss_inputs))) \<and>
   calculateNPV (netCashFlow (cashFlowStatement (generateFinancialModel flat_loss_inputs)))
     (calculateIRR (netCashFlow (cashFlowStatement (generateFinancialModel flat_loss_inputs))))
     = Fin (- 600000) \<and>
   applyTemplate default_template unknown_template_inputs =
     Inr (projr (applyTemplate default_template unknown_template_inputs)) \<and>
   map (\<lambda>s. irr (results s))
     (scenarios (projr (applyTemplate default_template unknown_template_inputs))) = [Fin 0]"
proof -
  note th = irr_is_a_ratio_of_total_cash_flow
    [of flat_loss_inputs default_template unknown_template_inputs]
  note up = irr_is_a_ratio_of_total_cash_flow
    [of step_growth_inputs default_template unknown_template_inputs, THEN conjunct1]
  have c0: "arr_get (netCashFlow (cashFlowStatement (generateFinancialModel step_growth_inputs))) 0
     = Fin (- 50000)"
    using step_growth_netCashFlow [of 0] by (simp add: engine_cashflow_shape(2))
  from up have ratio: "map (\<lambda>s. irr (results s)) (scenarios (generateFinancialModel step_growth_inputs))
     = replicate 3 (Fin 684)"
    by (simp add: step_growth_total c0)
  have neg: "\<not> Fin 0 < sum_arr (netCashFlow (cashFlowStatement (generateFinancialModel flat_loss_inputs)))"
    by (simp add: flat_loss_total)
  from th [THEN conjunct2, THEN conjunct1, rule_format, OF neg]
  have npv: "calculateNPV (netCashFlow (cashFlowStatement (generateFinancialModel flat_loss_inputs)))
     (calculateIRR (netCashFlow (cashFlowStatement (generateFinancialModel flat_loss_inputs))))
     = Fin (- 600000)"
    by (simp only: flat_loss_total)
  note te = th [THEN conjunct2, THEN conjunct2, rule_format, OF applyTemplate_default_succeeds]
  show ?thesis
    by (intro conjI step_growth_total c0 ratio neg npv applyTemplate_default_succeeds te)
qed

text \<open>
  C6, as stated, fails.  For a business without debt whose debt maturity is zero years the
  payment of the debt schedule is 0/0.  From period 1 on the principal payment and the
  ending balance of the schedule are NaN, and so are the financing and the net cash flow of
  the cash flow statement; the model is returned like any other.
\<close>

theorem zero_maturity_gives_nan_output:
  "totalPayments no_debt_inputs = NaN \<and>
   debt_principalPayments (debtSchedule (schedules (generateFinancialModel no_debt_inputs))) ! 1
     = NaN \<and>
   debt_endingBalance (debtSchedule (schedules (generateFinancialModel no_debt_inputs))) ! 1
     = NaN \<and>
   financingCashFlow (cashFlowStatement (generateFinancialModel no_debt_inputs)) ! 1 = NaN \<and>
   netCashFlow (cashFlowStatement (generateFinancialModel no_debt_inputs)) ! 1 = NaN"
proof -
  have n: "(0::nat) < 60" and t: "(1::nat) \<le> 1" "(1::nat) < 60" by simp_all
  note rows = debt_rows [OF n t, of no_debt_inputs]
  note len = debt_schedule_head(1-4) [OF n, of no_debt_inputs]
  have p: "debt_principalPayments (generateDebtSchedule no_debt_inputs 60) ! 1 = NaN"
    using rows(3) by (simp add: no_debt_payment)
  have e: "debt_endingBalance (generateDebtSchedule no_debt_inputs 60) ! 1 = NaN"
    using rows(4) p by simp
  have f: "financingCashFlow (cashFlowStatement (generateFinancialModel no_debt_inputs)) ! 1 = NaN"
    by (simp add: generateFinancialModel_parts generateCashFlowStatement_def Let_def
          debt_newDebt_zero len p [unfolded One_nat_def])
  have c: "netCashFlow (cashFlowStatement (generateFinancialModel no_debt_inputs)) ! 1 = NaN"
    by (simp add: generateFinancialModel_parts generateCashFlowStatement_def Let_def
          debt_newDebt_zero len p [unfolded One_nat_def] depreciation_additions)
  show ?thesis
    by (simp only: generateFinancialModel_parts(5) p e no_debt_payment f c)
qed

text \<open>
  C6, amended.  The modelling engine has no check for NaN or Infinity and reports nothing:
  it returns a model for every input.  For inputs whose other fields are finite numbers,
  each output array of the model (schedules, income statement, balance sheet, cash flow
  statement) holds 60 finite numbers exactly when there is at least one revenue growth rate,
  the debt payment that the engine computes is neither NaN nor \<open>-Infinity\<close>, and the three
  day counts of the working capital are finite numbers (overflow of the doubles apart,
  which is not modelled).
\<close>

theorem output_is_finite_iff:
  "list_all (fin_arr 60) (engine_arrays (generateFinancialModel inputs)) \<longleftrightarrow>
     revenueGrowth inputs \<noteq> [] \<and>
     totalPayments inputs \<noteq> NaN \<and> totalPayments inputs \<noteq> NInf \<and>
     finite_num (daysSalesOutstanding (workingCapital inputs)) \<and>
     finite_num (daysInventoryOutstanding (workingCapital inputs)) \<and>
     finite_num (daysPayablesOutstanding (workingCapital inputs))"
proof
  assume "list_all (fin_arr 60) (engine_arrays (generateFinancialModel inputs))"
  with engine_arrays_not_finite [of inputs]
  show "revenueGrowth inputs \<noteq> [] \<and>
     totalPayments inputs \<noteq> NaN \<and> totalPayments inputs \<noteq> NInf \<and>
     finite_num (daysSalesOutstanding (workingCapital inputs)) \<and>
     finite_num (daysInventoryOutstanding (workingCapital inputs)) \<and>
     finite_num (daysPayablesOutstanding (workingCapital inputs))"
    by blast
next
  assume "revenueGrowth inputs \<noteq> [] \<and>
     totalPayments inputs \<noteq> NaN \<and> totalPayments inputs \<noteq> NInf \<and>
     finite_num (daysSalesOutstanding (workingCapital inputs)) \<and>
     finite_num (daysInventoryOutstanding (workingCapital inputs)) \<and>
     finite_num (daysPayablesOutstanding (workingCapital inputs))"
  then show "list_all (fin_arr 60) (engine_arrays (generateFinancialModel inputs))"
    by (intro engine_arrays_finite) simp_all
qed

theorem output_is_finite_iff_witness:
  "revenueGrowth test_inputs \<noteq> [] \<and>
   totalPayments test_inputs
     = Fin (100000 * (0.05 / 12 * (1 + 0.05 / 12) ^ 60) / ((1 + 0.05 / 12) ^ 60 - 1)) \<and>
   list_all (fin_arr 60) (engine_arrays (generateFinancialModel test_inputs)) \<and>
   totalPayments no_debt_inputs = NaN \<and>
   \<not> list_all (fin_arr 60) (engine_arrays (generateFinancialModel no_debt_inputs))"
proof -
  have rg: "revenueGrowth test_inputs \<noteq> []" by (simp add: test_inputs_fields)
  have pay: "totalPayments test_inputs
     = Fin (100000 * (0.05 / 12 * (1 + 0.05 / 12) ^ 60) / ((1 + 0.05 / 12) ^ 60 - 1))"
    using totalPayments_years [of test_inputs 5] by (simp add: test_inputs_fields(14,15,16))
  have a: "list_all (fin_arr 60) (engine_arrays (generateFinancialModel test_inputs))"
    unfolding output_is_finite_iff [of test_inputs]
    by (simp add: pay rg test_inputs_fields(9,10,11))
  have b: "\<not> list_all (fin_arr 60) (engine_arrays (generateFinancialModel no_debt_inputs))"
    unfolding output_is_finite_iff [of no_debt_inputs]
    by (simp add: no_debt_payment)
  show ?thesis by (intro conjI rg pay a b no_debt_payment)
qed

text \<open>
  C7, as stated, fails.  The model generated for \<open>not_a_real_type\<close> violates the identity in
  period 0 by 53000, and its list of audit checks is empty: no check fails, and none is a
  balance-sheet-identity check.
\<close>

theorem identity_violated_without_check:
  "\<not> isl (generate ''not_a_real_type'' unknown_template_inputs) \<and>
   Math_abs
     (totalAssets (balanceSheet (projr (generate ''not_a_real_type'' unknown_template_inputs))) ! 0
      - (totalLiabilities
           (balanceSheet (projr (generate ''not_a_real_type'' unknown_template_inputs))) ! 0
         + totalEquity
             (balanceSheet (projr (generate ''not_a_real_type'' unknown_template_inputs))) ! 0))
     = Fin 53000 \<and>
   auditChecks (projr (generate ''not_a_real_type'' unknown_template_inputs)) = []"
  by (simp add: unknown_model default_period0 default_auditChecks)

text \<open>
  C7, amended.  Neither engine has a balance-sheet-identity check.  The modelling engine
  returns four checks (revenue growth, gross margin, cash flow, interest coverage), computed
  from the income statement and the net cash flow: the same checks come out whatever the
  balance sheet is.  The template engine returns one check per validation rule of the
  template, named after the field of the rule, each with status pass.  For a registered
  business type or an unknown one, generation completes whenever the inputs pass validation.
\<close>

theorem audit_checks_ignore_the_balance_sheet:
  "map check_id (auditChecks (generateFinancialModel inputs)) =
     [''revenue_growth'', ''gross_margin'', ''cash_flow'', ''interest_coverage''] \<and>
   auditChecks (generateFinancialModel inputs) =
     generateAuditChecks inputs (incomeStatement (generateFinancialModel inputs)) anySheet
       (cashFlowStatement (generateFinancialModel inputs)) \<and>
   (\<forall>t p. getTemplate bt = Some t \<longrightarrow> processInputs t raw = Inr p \<longrightarrow>
      generate bt raw = Inr (projr (generate bt raw)) \<and>
      map check_id (auditChecks (projr (generate bt raw))) = map field (template_validation t) \<and>
      map status (auditChecks (projr (generate bt raw)))
        = replicate (length (template_validation t)) Pass)"
proof (intro conjI allI impI)
  show "map check_id (auditChecks (generateFinancialModel inputs)) =
     [''revenue_growth'', ''gross_margin'', ''cash_flow'', ''interest_coverage'']"
    by (simp add: engine_auditChecks generateAuditChecks_def Let_def)
  show "auditChecks (generateFinancialModel inputs) =
     generateAuditChecks inputs (incomeStatement (generateFinancialModel inputs)) anySheet
       (cashFlowStatement (generateFinancialModel inputs))"
    by (simp add: engine_auditChecks generateAuditChecks_def)
next
  fix t p
  assume t: "getTemplate bt = Some t" and p: "processInputs t raw = Inr p"
  show "generate bt raw = Inr (projr (generate bt raw))"
    by (rule generate_completes(1) [OF t p])
  show "map check_id (auditChecks (projr (generate bt raw))) = map field (template_validation t)"
    by (simp only: generate_completes(2) [OF t p] te_auditChecks_shape)
  show "map status (auditChecks (projr (generate bt raw)))
        = replicate (length (template_validation t)) Pass"
    by (simp only: generate_completes(2) [OF t p] te_auditChecks_shape)
qed

theorem audit_checks_ignore_the_balance_sheet_witness:
  "getTemplate ''saas'' = Some saas_template \<and>
   processInputs saas_template saas_scenario_inputs = Inr saas_processed \<and>
   generate ''saas'' saas_scenario_inputs = Inr (projr (generate ''saas'' saas_scenario_inputs)) \<and>
   map check_id (auditChecks (projr (generate ''saas'' saas_scenario_inputs)))
     = [''revenue_growth_rate''] \<and>
   map status (auditChecks (projr (generate ''saas'' saas_scenario_inputs))) = [Pass]"
proof -
  note th = audit_checks_ignore_the_balance_sheet [of test_inputs undefined "''saas''"
      saas_scenario_inputs, THEN conjunct2, THEN conjunct2, rule_format,
      OF getTemplate_registered(1) processInputs_saas]
  have v: "template_validation saas_template \<noteq> []" "length (template_validation saas_template) = 1"
    by (simp_all add: saas_template_def)
  from th show ?thesis
    by (simp add: getTemplate_registered processInputs_saas saas_validation v)
qed

text \<open>
  C8.  A business type without a registered template resolves to the template registered as
  \<open>default\<close>; generating with \<open>not_a_real_type\<close> and the inputs
  \<open>{initial_revenue: 10000, revenue_growth_rate: 0.05}\<close> succeeds, and the three statements
  of the model have 60 periods.
\<close>

theorem unknown_template_falls_back:
  "(\<forall>businessType. businessType \<notin> dom initializeTemplates \<longrightarrow>
      getTemplate businessType = Some default_template) \<and>
   \<not> isl (generate ''not_a_real_type'' unknown_template_inputs) \<and>
   is_periods (incomeStatement (projr (generate ''not_a_real_type'' unknown_template_inputs))) = 60 \<and>
   bs_periods (balanceSheet (projr (generate ''not_a_real_type'' unknown_template_inputs))) = 60 \<and>
   cf_periods (cashFlowStatement (projr (generate ''not_a_real_type'' unknown_template_inputs))) = 60 \<and>
   length (revenue (incomeStatement (projr (generate ''not_a_real_type'' unknown_template_inputs)))) = 60"
proof -
  have a: "\<forall>businessType. businessType \<notin> dom initializeTemplates \<longrightarrow>
      getTemplate businessType = Some default_template"
    by (simp add: domIff getTemplate_unregistered)
  obtain m where m: "generate ''not_a_real_type'' unknown_template_inputs = Inr m"
    unfolding unknown_model by blast
  then have "applyTemplate default_template unknown_template_inputs = Inr m"
    by (simp add: generate_unknown)
  from applyTemplate_periods [OF this] a show ?thesis
    by (simp add: m)
qed

theorem unknown_template_falls_back_witness:
  "''not_a_real_type'' \<notin> dom initializeTemplates \<and>
   getTemplate ''not_a_real_type'' = Some default_template"
  using unknown_template_falls_back
  by (simp add: domIff not_a_real_type_unregistered)

text \<open>
  C9.  The SaaS scenario of the specification, run on the code.  The request succeeds, but
  the revenue of period 0 is the engine's default of 100000, not the \<open>initial_mrr\<close> of 50000
  (the statement generator reads \<open>initial_revenue\<close>, which the SaaS template does not define);
  the revenue of period 11 is \<open>100000 (1 + 0.05/12)^11\<close>, below 1.05 times the revenue of
  period 0 and so below 1.3 times it; and the gross profit of period 0 is 40000, which is 0.4
  of the revenue (the generator reads \<open>cogs_percentage\<close>, not \<open>gross_margin\<close>).
\<close>

theorem saas_scenario_on_the_code:
  "member saas_scenario_inputs ''initial_mrr'' = Number 50000 \<and>
   member saas_scenario_inputs ''gross_margin'' = Number 0.8 \<and>
   \<not> isl (generate ''saas'' saas_scenario_inputs) \<and>
   revenue (incomeStatement (projr (generate ''saas'' saas_scenario_inputs))) ! 0 = Fin 100000 \<and>
   revenue (incomeStatement (projr (generate ''saas'' saas_scenario_inputs))) ! 11
     = Fin (100000 * (1 + 0.05 / 12) ^ 11) \<and>
   revenue (incomeStatement (projr (generate ''saas'' saas_scenario_inputs))) ! 11
     < Fin 1.05 * revenue (incomeStatement (projr (generate ''saas'' saas_scenario_inputs))) ! 0 \<and>
   grossProfit (incomeStatement (projr (generate ''saas'' saas_scenario_inputs))) ! 0 = Fin 40000"
  by (simp add: saas_model saas_period0 saas_revenue_11 power_divide)
     (simp add: member_def saas_scenario_inputs_def)

text \<open>
  C10, as stated, fails.  The day counts are JavaScript numbers.  With an infinite number of
  days of sales outstanding the receivables and the net working capital are Infinity in
  every period, and the change in working capital of period 1 is
  \<open>Infinity - Infinity\<close>, which is NaN and not 0.
\<close>

theorem infinite_day_count_gives_nan_change:
  "daysSalesOutstanding (workingCapital infinite_dso_inputs) = PInf \<and>
   wc_accountsReceivable
     (workingCapitalSchedule (schedules (generateFinancialModel infinite_dso_inputs))) ! 1
     = PInf \<and>
   wc_netWorkingCapital
     (workingCapitalSchedule (schedules (generateFinancialModel infinite_dso_inputs))) ! 1
     = PInf \<and>
   wc_changeInWorkingCapital
     (workingCapitalSchedule (schedules (generateFinancialModel infinite_dso_inputs))) ! 0
     = Fin 0 \<and>
   wc_changeInWorkingCapital
     (workingCapitalSchedule (schedules (generateFinancialModel infinite_dso_inputs))) ! 1
     = NaN"
proof -
  have "wc_changeInWorkingCapital
     (workingCapitalSchedule (schedules (generateFinancialModel infinite_dso_inputs))) ! 1 = NaN"
    "wc_changeInWorkingCapital
     (workingCapitalSchedule (schedules (generateFinancialModel infinite_dso_inputs))) ! 0 = Fin 0"
    "wc_netWorkingCapital
     (workingCapitalSchedule (schedules (generateFinancialModel infinite_dso_inputs))) ! 1 = PInf"
    by (simp_all add: generateFinancialModel_parts workingCapital_schedule_eq
          infinite_dso_levels(2) nonfinite_self_difference)
  moreover have "wc_accountsReceivable
     (workingCapitalSchedule (schedules (generateFinancialModel infinite_dso_inputs))) ! 1 = PInf"
    by (simp add: generateFinancialModel_parts workingCapital_schedule_eq infinite_dso_levels(1))
  ultimately show ?thesis by (simp only: infinite_dso_fields(1) simp_thms)
qed

text \<open>
  C10, amended.  The working-capital schedule does not depend on the revenue or the cost of
  the model: receivables, inventory and payables are computed from the constants
  \<open>monthlyRevenue = 100000\<close> and \<open>monthlyCOGS = 60000\<close> and the three day counts of the
  inputs, so each of these arrays and the net working capital hold one value in every
  period.  The change in working capital is 0 in period 0; in every later period it is 0
  when the net working capital that the schedule computes is a finite number, and NaN when
  it is infinite or NaN (as it is for an infinite or NaN day count, and in the program also
  for a day count whose product with the constant overflows, which is not modelled).
\<close>

theorem working_capital_flat:
  "monthlyRevenue = Fin 100000 \<and> monthlyCOGS = Fin 60000 \<and>
   wc_accountsReceivable (generateWorkingCapitalSchedule inputs n) =
     replicate n (monthlyRevenue * daysSalesOutstanding (workingCapital inputs) / Fin 30) \<and>
   wc_inventory (generateWorkingCapitalSchedule inputs n) =
     replicate n (monthlyCOGS * daysInventoryOutstanding (workingCapital inputs) / Fin 30) \<and>
   wc_accountsPayable (generateWorkingCapitalSchedule inputs n) =
     replicate n (monthlyCOGS * daysPayablesOutstanding (workingCapital inputs) / Fin 30) \<and>
   wc_netWorkingCapital (generateWorkingCapitalSchedule inputs n) =
     replicate n
       (monthlyRevenue * daysSalesOutstanding (workingCapital inputs) / Fin 30
        + monthlyCOGS * daysInventoryOutstanding (workingCapital inputs) / Fin 30
        - monthlyCOGS * daysPayablesOutstanding (workingCapital inputs) / Fin 30) \<and>
   (\<forall>t<n. wc_changeInWorkingCapital (generateWorkingCapitalSchedule inputs n) ! t =
      (if t = 0 \<or>
          finite_num
            (monthlyRevenue * daysSalesOutstanding (workingCapital inputs) / Fin 30
             + monthlyCOGS * daysInventoryOutstanding (workingCapital inputs) / Fin 30
             - monthlyCOGS * daysPayablesOutstanding (workingCapital inputs) / Fin 30)
       then Fin 0 else NaN))"
proof -
  let ?w = "monthlyRevenue * daysSalesOutstanding (workingCapital inputs) / Fin 30
        + monthlyCOGS * daysInventoryOutstanding (workingCapital inputs) / Fin 30
        - monthlyCOGS * daysPayablesOutstanding (workingCapital inputs) / Fin 30"
  have z: "?w - ?w = (if finite_num ?w then Fin 0 else NaN)"
    by (simp add: finite_self_difference nonfinite_self_difference)
  have chg: "wc_changeInWorkingCapital (generateWorkingCapitalSchedule inputs n) ! t =
      (if t = 0 \<or> finite_num ?w then Fin 0 else NaN)" if "t < n" for t
    using that by (simp add: workingCapital_schedule_eq nth_list_update z)
  have c: "monthlyRevenue = Fin 100000" "monthlyCOGS = Fin 60000"
    by (simp_all add: monthlyRevenue_def monthlyCOGS_value)
  show ?thesis
    by (intro conjI allI impI c chg) (simp_all add: workingCapital_schedule_eq)
qed

theorem working_capital_flat_witness:
  "wc_netWorkingCapital (generateWorkingCapitalSchedule test_inputs 60) = replicate 60 (Fin 70000) \<and>
   wc_changeInWorkingCapital (generateWorkingCapitalSchedule test_inputs 60) ! 1 = Fin 0 \<and>
   wc_netWorkingCapital (generateWorkingCapitalSchedule infinite_dso_inputs 60) = replicate 60 PInf \<and>
   wc_changeInWorkingCapital (generateWorkingCapitalSchedule infinite_dso_inputs 60) ! 1 = NaN"
proof -
  note a = working_capital_flat [of test_inputs 60, unfolded test_inputs_level]
  note b = working_capital_flat [of infinite_dso_inputs 60, unfolded infinite_dso_levels(2)]
  from a have a1: "wc_netWorkingCapital (generateWorkingCapitalSchedule test_inputs 60)
      = replicate 60 (Fin 70000)"
    by (elim conjE)
  from a have "\<forall>t<60. wc_changeInWorkingCapital (generateWorkingCapitalSchedule test_inputs 60) ! t =
      (if t = 0 \<or> finite_num (Fin 70000) then Fin 0 else NaN)"
    by (elim conjE)
  then have a2: "wc_changeInWorkingCapital (generateWorkingCapitalSchedule test_inputs 60) ! 1 = Fin 0"
    by simp
  from b have b1: "wc_netWorkingCapital (generateWorkingCapitalSchedule infinite_dso_inputs 60)
      = replicate 60 PInf"
    by (elim conjE)
  from b have "\<forall>t<60. wc_changeInWorkingCapital (generateWorkingCapitalSchedule infinite_dso_inputs 60) ! t =
      (if t = 0 \<or> finite_num PInf then Fin 0 else NaN)"
    by (elim conjE)
  then have b2: "wc_changeInWorkingCapital (generateWorkingCapitalSchedule infinite_dso_inputs 60) ! 1 = NaN"
    by simp
  show ?thesis by (intro conjI a1 a2 b1 b2)
qed

end
